theory Spec2Isabelle
  imports Complex_Main "HOL-Library.AList" "HOL-Library.Multiset"
begin

section \<open>Python values\<close>

text \<open>
  The exceptions the modelled code can raise. A function that can raise returns
  \<open>error + 'a\<close>, with \<open>Inl\<close> for the exception. No function of the repository catches
  an exception, so the state at the point of a raise is never observed again.
\<close>

datatype error =
  KeyError | TypeError | ValueError | ZeroDivisionError | IndexError | OverflowError | AttributeError

text \<open>
  The values the fields of an article, a database cell or a Redis reply take:
  \<open>None\<close>, \<open>int\<close>, \<open>float\<close>, \<open>str\<close>, \<open>bytes\<close>. A Python float is modelled
  as a real number: rounding, overflow, infinities and NaN are not modelled.
\<close>

datatype pyval = PNone | PInt int | PFloat real | PStr string | PBytes string

text \<open>A dict with string keys, as an association list read with \<open>map_of\<close>.\<close>

type_synonym pydict = "(string \<times> pyval) list"

definition dict_get :: "pydict \<Rightarrow> string \<Rightarrow> pyval" where
  \<comment> \<open>\<open>d.get(key)\<close>\<close>
  "dict_get d k = (case map_of d k of None \<Rightarrow> PNone | Some v \<Rightarrow> v)"

definition dict_get_default :: "pydict \<Rightarrow> string \<Rightarrow> pyval \<Rightarrow> pyval" where
  \<comment> \<open>\<open>d.get(key, default)\<close>\<close>
  "dict_get_default d k dflt = (case map_of d k of None \<Rightarrow> dflt | Some v \<Rightarrow> v)"

definition dict_item :: "pydict \<Rightarrow> string \<Rightarrow> error + pyval" where
  \<comment> \<open>\<open>d[key]\<close>\<close>
  "dict_item d k = (case map_of d k of None \<Rightarrow> Inl KeyError | Some v \<Rightarrow> Inr v)"

fun truthy :: "pyval \<Rightarrow> bool" where
  "truthy PNone = False"
| "truthy (PInt i) = (i \<noteq> 0)"
| "truthy (PFloat r) = (r \<noteq> 0)"
| "truthy (PStr s) = (s \<noteq> [])"
| "truthy (PBytes s) = (s \<noteq> [])"

fun num_of :: "pyval \<Rightarrow> real option" where
  "num_of (PInt i) = Some (real_of_int i)"
| "num_of (PFloat r) = Some r"
| "num_of PNone = None"
| "num_of (PStr s) = None"
| "num_of (PBytes s) = None"

definition py_truediv :: "pyval \<Rightarrow> pyval \<Rightarrow> error + pyval" where
  \<comment> \<open>\<open>a / b\<close>: true division, a float for any two numbers\<close>
  "py_truediv a b =
     (case num_of a of
        None \<Rightarrow> Inl TypeError
      | Some x \<Rightarrow>
          (case num_of b of
             None \<Rightarrow> Inl TypeError
           | Some y \<Rightarrow> if y = 0 then Inl ZeroDivisionError else Inr (PFloat (x / y))))"

definition py_sub :: "pyval \<Rightarrow> pyval \<Rightarrow> error + pyval" where
  \<comment> \<open>\<open>a - b\<close> where \<open>a\<close> is a float\<close>
  "py_sub a b =
     (case num_of a of
        None \<Rightarrow> Inl TypeError
      | Some x \<Rightarrow> (case num_of b of None \<Rightarrow> Inl TypeError | Some y \<Rightarrow> Inr (PFloat (x - y))))"

fun str_lt :: "string \<Rightarrow> string \<Rightarrow> bool" where
  "str_lt [] [] = False"
| "str_lt [] (y # ys) = True"
| "str_lt (x # xs) [] = False"
| "str_lt (x # xs) (y # ys) =
     (if (of_char x :: nat) < of_char y then True
      else if (of_char y :: nat) < of_char x then False
      else str_lt xs ys)"

fun py_lt :: "pyval \<Rightarrow> pyval \<Rightarrow> error + bool" where
  \<comment> \<open>\<open>a < b\<close>: numbers with numbers, text with text, anything else is a TypeError\<close>
  "py_lt (PStr s) (PStr t) = Inr (str_lt s t)"
| "py_lt (PBytes s) (PBytes t) = Inr (str_lt s t)"
| "py_lt a b =
     (case num_of a of
        None \<Rightarrow> Inl TypeError
      | Some x \<Rightarrow> (case num_of b of None \<Rightarrow> Inl TypeError | Some y \<Rightarrow> Inr (x < y)))"

definition py_gt :: "pyval \<Rightarrow> pyval \<Rightarrow> error + bool" where
  \<comment> \<open>\<open>a > b\<close>\<close>
  "py_gt a b = py_lt b a"

text \<open>
  Python's \<open>==\<close> (and the hash used for dict and cache keys) identifies an int with the
  float of the same value; \<open>pykey\<close> picks one representative, so that two values are
  \<open>==\<close> in Python exactly when their representatives are equal.
\<close>

fun pykey :: "pyval \<Rightarrow> pyval" where
  "pykey (PFloat r) = (if r = real_of_int \<lfloor>r\<rfloor> then PInt \<lfloor>r\<rfloor> else PFloat r)"
| "pykey PNone = PNone"
| "pykey (PInt i) = PInt i"
| "pykey (PStr s) = PStr s"
| "pykey (PBytes s) = PBytes s"

definition py_eq :: "pyval \<Rightarrow> pyval \<Rightarrow> bool" where
  \<comment> \<open>\<open>a == b\<close>\<close>
  "py_eq a b = (pykey a = pykey b)"


section \<open>Naive datetimes\<close>

text \<open>
  A naive \<open>datetime\<close> is the number of microseconds since 0001-01-01T00:00:00. Ordering
  and \<open>timedelta\<close> arithmetic of Python's datetimes are the ordering and the arithmetic
  of that number; a \<open>timedelta\<close> is a number of microseconds. Arithmetic that leaves
  the years 1 to 9999 raises OverflowError.
\<close>

type_synonym datetime = int

definition dt_microsecond :: "datetime \<Rightarrow> int" where
  "dt_microsecond t = t mod 1000000"

definition dt_second :: "datetime \<Rightarrow> int" where
  "dt_second t = (t div 1000000) mod 60"

definition dt_minute :: "datetime \<Rightarrow> int" where
  "dt_minute t = (t div 60000000) mod 60"

definition dt_max :: datetime where
  \<comment> \<open>9999-12-31T23:59:59.999999\<close>
  "dt_max = 3652059 * 86400000000 - 1"

definition dt_add :: "datetime \<Rightarrow> int \<Rightarrow> error + datetime" where
  \<comment> \<open>\<open>t + d\<close> for a timedelta \<open>d\<close>; \<open>t - d\<close> is \<open>dt_add t (- d)\<close>\<close>
  "dt_add t d = (if 0 \<le> t + d \<and> t + d \<le> dt_max then Inr (t + d) else Inl OverflowError)"

definition replace_minute_second :: "datetime \<Rightarrow> int \<Rightarrow> int \<Rightarrow> error + datetime" where
  \<comment> \<open>\<open>t.replace(minute=m, second=s)\<close>\<close>
  "replace_minute_second t m s =
     (if 0 \<le> m \<and> m \<le> 59 \<and> 0 \<le> s \<and> s \<le> 59
      then Inr (t - dt_minute t * 60000000 - dt_second t * 1000000 + m * 60000000 + s * 1000000)
      else Inl ValueError)"

definition replace_second_microsecond_zero :: "datetime \<Rightarrow> datetime" where
  \<comment> \<open>\<open>t.replace(second=0, microsecond=0)\<close>\<close>
  "replace_second_microsecond_zero t = t - dt_second t * 1000000 - dt_microsecond t"


section \<open>The TTL cache\<close>

text \<open>
  Modelled from the spec: the class \<open>TTLCache\<close> of the library \<open>cachetools\<close>, which is
  not part of the repository. The spec (section 3) gives it as a mapping with unique keys
  whose entries expire a fixed retention window after their insertion, and that displaces
  entries when its capacity is reached. An entry is a key, a value and the clock reading
  at which it expires, oldest insertion first. The clock is the monotonic timer, read once
  for a whole call of the cache's owner.
\<close>

record ('k, 'v) ttlcache =
  maxsize :: nat
  ttl :: real
  links :: "('k \<times> 'v \<times> real) list"

definition ttl_get :: "('k, 'v) ttlcache \<Rightarrow> real \<Rightarrow> 'k \<Rightarrow> 'v option" where
  \<comment> \<open>\<open>cache.get(key)\<close>: the value of a key that is present and has not expired\<close>
  "ttl_get c now k =
     (case find (\<lambda>(k', v, e). k' = k) (links c) of
        None \<Rightarrow> None
      | Some (k', v, e) \<Rightarrow> if now < e then Some v else None)"

definition ttl_items :: "('k, 'v) ttlcache \<Rightarrow> real \<Rightarrow> ('k \<times> 'v) list" where
  \<comment> \<open>\<open>for key in cache: ... cache[key]\<close>: the keys that have not expired, with their values\<close>
  "ttl_items c now = map (\<lambda>(k, v, e). (k, v)) (filter (\<lambda>(k, v, e). now < e) (links c))"

definition ttl_setitem :: "('k, 'v) ttlcache \<Rightarrow> real \<Rightarrow> 'k \<Rightarrow> 'v \<Rightarrow> error + ('k, 'v) ttlcache" where
  \<comment> \<open>\<open>cache[key] = value\<close>: drop what has expired, make room for a new key by
      displacing the oldest entries, and insert with a fresh expiry\<close>
  "ttl_setitem c now k v =
     (if maxsize c < 1 then Inl ValueError
      else
        let live = filter (\<lambda>(k', v', e). now < e) (links c);
            others = filter (\<lambda>(k', v', e). k' \<noteq> k) live;
            kept = (if length others = length live
                    then drop (length others + 1 - maxsize c) others
                    else others)
        in Inr (c\<lparr>links := kept @ [(k, v, now + ttl c)]\<rparr>))"

fun ttl_setitems :: "('k, 'v) ttlcache \<Rightarrow> real \<Rightarrow> ('k \<times> 'v) list \<Rightarrow> error + ('k, 'v) ttlcache" where
  \<comment> \<open>the loop \<open>for row in rows: cache[key(row)] = value(row)\<close>\<close>
  "ttl_setitems c now [] = Inr c"
| "ttl_setitems c now ((k, v) # kvs) =
     (case ttl_setitem c now k v of
        Inl e \<Rightarrow> Inl e
      | Inr c' \<Rightarrow> ttl_setitems c' now kvs)"


section \<open>The relational store\<close>

text \<open>
  The three tables the cache reads. The key columns of a row are fields; the remaining
  columns are a dict, which is what the cache stores for the row.
\<close>

record prediction_row =
  p_date :: datetime
  p_chat_id :: pyval
  p_delta :: pyval
  p_columns :: pydict

record statistic_row =
  s_date_from :: datetime
  s_date_to :: datetime
  s_chat_id :: pyval
  s_delta :: pyval
  s_metric :: pyval
  s_columns :: pydict

record coefficient_row =
  c_id :: pyval
  c_columns :: pydict

record database =
  prediction_table :: "prediction_row list"
  statistic_table :: "statistic_row list"
  coefficient_table :: "coefficient_row list"

text \<open>The queries an object has sent to the store, for counting refills.\<close>

datatype db_query =
  QueryPredictions datetime datetime
| QueryStatistics datetime
| QueryCoefficients


section \<open>TelegramPredictionCache\<close>

type_synonym prediction_key = "datetime \<times> pyval \<times> pyval"
type_synonym statistic_key = "datetime \<times> datetime \<times> pyval \<times> pyval \<times> pyval"

record prediction_cache =
  prediction_step :: int
  cache_big_update_window :: int
  predictions :: "(prediction_key, pydict) ttlcache"
  statistics :: "(statistic_key, pydict) ttlcache"
  coefficients :: "(pyval, pydict) ttlcache"
  queries :: "db_query list"

definition get_nearest_date :: "prediction_cache \<Rightarrow> datetime \<Rightarrow> error + datetime" where
  "get_nearest_date s dt =
     (let minutes = dt_minute dt in
      if prediction_step s = 0 then Inl ZeroDivisionError
      else
        let subtract_minutes = minutes mod prediction_step s
        in replace_minute_second dt (minutes - subtract_minutes) 0)"

definition get_predictions_from_db ::
  "prediction_cache \<Rightarrow> database \<Rightarrow> real \<Rightarrow> datetime \<Rightarrow> datetime \<Rightarrow> error + prediction_cache" where
  "get_predictions_from_db s db now from_date to_date =
     (let rows = filter (\<lambda>row. p_date row \<ge> from_date \<and> p_date row \<le> to_date) (prediction_table db)
      in case ttl_setitems (predictions s) now
                (map (\<lambda>row. ((replace_second_microsecond_zero (p_date row),
                               pykey (p_chat_id row), pykey (p_delta row)),
                              p_columns row)) rows) of
           Inl e \<Rightarrow> Inl e
         | Inr c \<Rightarrow> Inr (s\<lparr>predictions := c,
                            queries := queries s @ [QueryPredictions from_date to_date]\<rparr>))"

definition get_statistics_from_db ::
  "prediction_cache \<Rightarrow> database \<Rightarrow> real \<Rightarrow> datetime \<Rightarrow> error + prediction_cache" where
  "get_statistics_from_db s db now date =
     (let rows = filter (\<lambda>row. s_date_from row \<le> date \<and> s_date_to row \<ge> date) (statistic_table db)
      in case ttl_setitems (statistics s) now
                (map (\<lambda>row. ((s_date_from row, s_date_to row, pykey (s_chat_id row),
                               pykey (s_delta row), pykey (s_metric row)),
                              s_columns row)) rows) of
           Inl e \<Rightarrow> Inl e
         | Inr c \<Rightarrow> Inr (s\<lparr>statistics := c, queries := queries s @ [QueryStatistics date]\<rparr>))"

definition get_coefficients_from_db ::
  "prediction_cache \<Rightarrow> database \<Rightarrow> real \<Rightarrow> error + prediction_cache" where
  "get_coefficients_from_db s db now =
     (case ttl_setitems (coefficients s) now
             (map (\<lambda>row. (pykey (c_id row), c_columns row)) (coefficient_table db)) of
        Inl e \<Rightarrow> Inl e
      | Inr c \<Rightarrow> Inr (s\<lparr>coefficients := c, queries := queries s @ [QueryCoefficients]\<rparr>))"

definition get_prediction ::
  "prediction_cache \<Rightarrow> database \<Rightarrow> real \<Rightarrow> datetime \<Rightarrow> pyval \<Rightarrow> pyval
     \<Rightarrow> error + (pydict option \<times> prediction_cache)" where
  "get_prediction s db now date0 chat_id delta =
     (case get_nearest_date s date0 of
        Inl e \<Rightarrow> Inl e
      | Inr date \<Rightarrow>
          (case ttl_get (predictions s) now (date, pykey chat_id, pykey delta) of
             Some prediction \<Rightarrow> Inr (Some prediction, s)
           | None \<Rightarrow>
               (case dt_add date (- cache_big_update_window s) of
                  Inl e \<Rightarrow> Inl e
                | Inr from_date \<Rightarrow>
                    (case dt_add date (cache_big_update_window s) of
                       Inl e \<Rightarrow> Inl e
                     | Inr to_date \<Rightarrow>
                         (case get_predictions_from_db s db now from_date to_date of
                            Inl e \<Rightarrow> Inl e
                          | Inr s' \<Rightarrow>
                              Inr (ttl_get (predictions s') now (date, pykey chat_id, pykey delta),
                                   s'))))))"

definition statistic_key_matches ::
  "datetime \<Rightarrow> pyval \<Rightarrow> pyval \<Rightarrow> pyval \<Rightarrow> statistic_key \<Rightarrow> bool" where
  \<comment> \<open>the condition of the scan, on a key \<open>row\<close> of the statistics cache\<close>
  "statistic_key_matches date chat_id delta metric row =
     (case row of (row0, row1, row2, row3, row4) \<Rightarrow>
        row0 < date \<and> date < row1 \<and> py_eq row2 chat_id \<and> py_eq row3 delta \<and> py_eq row4 metric)"

definition scan_step ::
  "datetime \<Rightarrow> pyval \<Rightarrow> pyval \<Rightarrow> pyval \<Rightarrow> statistic_key \<times> pydict
     \<Rightarrow> (datetime \<times> pydict) list \<Rightarrow> (datetime \<times> pydict) list" where
  \<comment> \<open>the body of the scan's loop: \<open>rows_for_date[row[1]] = self._statistics[row]\<close>\<close>
  "scan_step date chat_id delta metric =
     (\<lambda>(row, value) rows_for_date.
        if statistic_key_matches date chat_id delta metric row
        then AList.update (fst (snd row)) value rows_for_date
        else rows_for_date)"

definition get_latest_statistics ::
  "(statistic_key, pydict) ttlcache \<Rightarrow> real \<Rightarrow> datetime \<Rightarrow> pyval \<Rightarrow> pyval \<Rightarrow> pyval
     \<Rightarrow> pydict option" where
  \<comment> \<open>the inner function of \<open>get_statistics\<close>; \<open>rows_for_date\<close> is a dict keyed by the
      end of the window\<close>
  "get_latest_statistics cache now date chat_id delta metric =
     (let rows_for_date = fold (scan_step date chat_id delta metric) (ttl_items cache now) []
      in if length rows_for_date > 0
         then Some (snd (last (sort_key fst rows_for_date)))
         else None)"

definition get_statistics ::
  "prediction_cache \<Rightarrow> database \<Rightarrow> real \<Rightarrow> datetime \<Rightarrow> pyval \<Rightarrow> pyval \<Rightarrow> pyval
     \<Rightarrow> error + (pydict option \<times> prediction_cache)" where
  "get_statistics s db now date chat_id delta metric =
     (case get_latest_statistics (statistics s) now date chat_id delta metric of
        Some statistic \<Rightarrow> Inr (Some statistic, s)
      | None \<Rightarrow>
          (case get_statistics_from_db s db now date of
             Inl e \<Rightarrow> Inl e
           | Inr s' \<Rightarrow>
               Inr (get_latest_statistics (statistics s') now date chat_id delta metric, s')))"

definition get_coefficients ::
  "prediction_cache \<Rightarrow> database \<Rightarrow> real \<Rightarrow> pyval \<Rightarrow> error + (pydict option \<times> prediction_cache)" where
  "get_coefficients s db now chat_id =
     (case ttl_get (coefficients s) now (pykey chat_id) of
        Some coeffs \<Rightarrow> Inr (Some coeffs, s)
      | None \<Rightarrow>
          (case get_coefficients_from_db s db now of
             Inl e \<Rightarrow> Inl e
           | Inr s' \<Rightarrow> Inr (ttl_get (coefficients s') now (pykey chat_id), s')))"

definition init ::
  "database \<Rightarrow> datetime \<Rightarrow> real \<Rightarrow> int \<Rightarrow> nat \<Rightarrow> int \<Rightarrow> real \<Rightarrow> nat \<Rightarrow> real
     \<Rightarrow> error + prediction_cache" where
  \<comment> \<open>the constructor; \<open>wall\<close> is \<open>datetime.now()\<close>, \<open>now\<close> the monotonic timer. The
      attribute \<open>cache_small_update_window\<close> is stored and never read, and is left out.\<close>
  "init db wall now step cache_big_size big_update_window big_retention
        cache_small_size small_retention =
     (let s0 = \<lparr>prediction_step = step,
                 cache_big_update_window = big_update_window,
                 predictions = \<lparr>maxsize = cache_big_size, ttl = big_retention, links = []\<rparr>,
                 statistics = \<lparr>maxsize = cache_small_size, ttl = small_retention, links = []\<rparr>,
                 coefficients = \<lparr>maxsize = cache_small_size, ttl = small_retention, links = []\<rparr>,
                 queries = []\<rparr>
      in case dt_add wall (- big_update_window) of
           Inl e \<Rightarrow> Inl e
         | Inr from_date \<Rightarrow>
             (case dt_add wall big_update_window of
                Inl e \<Rightarrow> Inl e
              | Inr to_date \<Rightarrow>
                  (case get_predictions_from_db s0 db now from_date to_date of
                     Inl e \<Rightarrow> Inl e
                   | Inr s1 \<Rightarrow>
                       (case get_statistics_from_db s1 db now wall of
                          Inl e \<Rightarrow> Inl e
                        | Inr s2 \<Rightarrow> get_coefficients_from_db s2 db now))))"

definition prediction_keys_whole_minutes :: "prediction_cache \<Rightarrow> bool" where
  \<comment> \<open>every key of the predictions cache carries a date with zero microseconds\<close>
  "prediction_keys_whole_minutes s =
     (\<forall>entry \<in> set (links (predictions s)). dt_microsecond (fst (fst entry)) = 0)"


section \<open>Anomalies\<close>

record anomaly =
  metric_name :: string
  metric_value :: pyval
  expected_value :: pyval
  score :: real
  weight :: int


section \<open>TelegramMetricAnomalyDetector\<close>

definition metric_must_have_fields :: "string list" where
  "metric_must_have_fields =
     [''chat_id'', ''delta'', ''loading_date'', ''views'', ''forwards'', ''reaction_count'']"

definition metric_check_article_fields :: "pydict \<Rightarrow> bool" where
  \<comment> \<open>\<open>all(article.get(key) for key in must_have_fields)\<close>\<close>
  "metric_check_article_fields article =
     list_all (\<lambda>key. truthy (dict_get article key)) metric_must_have_fields"

definition py_strptime :: "(string \<Rightarrow> datetime option) \<Rightarrow> pyval \<Rightarrow> error + datetime" where
  \<comment> \<open>\<open>datetime.strptime(v, '%Y-%m-%dT%H:%M:%S')\<close>; the parser of the standard library
      is the parameter \<open>strptime\<close>, \<open>None\<close> where it rejects the text\<close>
  "py_strptime strptime v =
     (case v of
        PStr text \<Rightarrow> (case strptime text of None \<Rightarrow> Inl ValueError | Some d \<Rightarrow> Inr d)
      | PNone \<Rightarrow> Inl TypeError
      | PInt i \<Rightarrow> Inl TypeError
      | PFloat r \<Rightarrow> Inl TypeError
      | PBytes b \<Rightarrow> Inl TypeError)"

definition score_static_metrics :: "pyval \<Rightarrow> pyval \<Rightarrow> error + real" where
  "score_static_metrics metric_val expected_val =
     (case py_truediv metric_val expected_val of
        Inl e \<Rightarrow> Inl e
      | Inr deviation \<Rightarrow>
          (case num_of deviation of
             None \<Rightarrow> Inl TypeError
           | Some dv \<Rightarrow>
               (case num_of expected_val of
                  None \<Rightarrow> Inl TypeError
                | Some ev \<Rightarrow> Inr (1 / (1 + exp ((- dv + ev) * 10))))))"

definition score_predicted_metrics :: "pyval \<Rightarrow> pyval \<Rightarrow> pydict option \<Rightarrow> error + real" where
  "score_predicted_metrics metric_val expected_val stats =
     (let x_offset = 2; x_stretch = 1.5 in
      case py_truediv metric_val expected_val of
        Inl e \<Rightarrow> Inl e
      | Inr deviation \<Rightarrow>
          (case (if stats \<noteq> None \<and> stats \<noteq> Some []
                 then (case dict_item (the stats) ''mean'' of
                         Inl e \<Rightarrow> Inl e
                       | Inr mean \<Rightarrow>
                           (case py_sub deviation mean of
                              Inl e \<Rightarrow> Inl e
                            | Inr centred \<Rightarrow>
                                (case dict_item (the stats) ''std'' of
                                   Inl e \<Rightarrow> Inl e
                                 | Inr std \<Rightarrow> py_truediv centred std)))
                 else Inr deviation) of
             Inl e \<Rightarrow> Inl e
           | Inr z_score \<Rightarrow>
               (case num_of z_score of
                  None \<Rightarrow> Inl TypeError
                | Some z \<Rightarrow> Inr (1 / (1 + exp (- z / x_stretch + x_offset))))))"

definition check_article_minimal_threshold ::
  "prediction_cache \<Rightarrow> database \<Rightarrow> real \<Rightarrow> pydict \<Rightarrow> error + (bool \<times> prediction_cache)" where
  "check_article_minimal_threshold s db now article =
     (case dict_item article ''chat_id'' of
        Inl e \<Rightarrow> Inl e
      | Inr chat_id \<Rightarrow>
          (case get_coefficients s db now chat_id of
             Inl e \<Rightarrow> Inl e
           | Inr (None, s') \<Rightarrow> Inr (False, s')
           | Inr (Some coeffs, s') \<Rightarrow>
               (case dict_item article ''views'' of
                  Inl e \<Rightarrow> Inl e
                | Inr views \<Rightarrow>
                    (case py_lt views
                            (dict_get_default coeffs ''minimal_views_threshold'' (PInt 0)) of
                       Inl e \<Rightarrow> Inl e
                     | Inr too_low \<Rightarrow> if too_low then Inr (False, s') else Inr (True, s')))))"

definition static_anomaly :: "string \<Rightarrow> pyval \<Rightarrow> pydict \<Rightarrow> anomaly list \<Rightarrow> error + anomaly list" where
  \<comment> \<open>one of the two \<open>if ratio > coefficients[name]: anomalies.append(...)\<close> blocks of
      \<open>_check_static_metrics\<close>, which differ in the name only\<close>
  "static_anomaly name ratio coeffs anomalies =
     (case dict_item coeffs name of
        Inl e \<Rightarrow> Inl e
      | Inr expected \<Rightarrow>
          (case py_gt ratio expected of
             Inl e \<Rightarrow> Inl e
           | Inr exceeds \<Rightarrow>
               if exceeds
               then (case score_static_metrics ratio expected of
                       Inl e \<Rightarrow> Inl e
                     | Inr sc \<Rightarrow>
                         Inr (anomalies @
                              [\<lparr>metric_name = name, metric_value = ratio,
                                expected_value = expected, score = sc, weight = 100\<rparr>]))
               else Inr anomalies))"

definition check_static_metrics ::
  "prediction_cache \<Rightarrow> database \<Rightarrow> real \<Rightarrow> pydict \<Rightarrow> anomaly list
     \<Rightarrow> error + (anomaly list \<times> prediction_cache)" where
  "check_static_metrics s db now article anomalies =
     (case dict_item article ''chat_id'' of
        Inl e \<Rightarrow> Inl e
      | Inr chat_id \<Rightarrow>
          (case get_coefficients s db now chat_id of
             Inl e \<Rightarrow> Inl e
           | Inr (None, s') \<Rightarrow> Inr (anomalies, s')
           | Inr (Some coeffs, s') \<Rightarrow>
               (case dict_item article ''forwards'' of
                  Inl e \<Rightarrow> Inl e
                | Inr forwards \<Rightarrow>
               (case dict_item article ''views'' of
                  Inl e \<Rightarrow> Inl e
                | Inr views \<Rightarrow>
               (case py_truediv forwards views of
                  Inl e \<Rightarrow> Inl e
                | Inr forwards_by_views \<Rightarrow>
               (case dict_item article ''reaction_count'' of
                  Inl e \<Rightarrow> Inl e
                | Inr reaction_count \<Rightarrow>
               (case py_truediv reaction_count views of
                  Inl e \<Rightarrow> Inl e
                | Inr reaction_count_by_views \<Rightarrow>
               (case static_anomaly ''forwards_by_views'' forwards_by_views coeffs anomalies of
                  Inl e \<Rightarrow> Inl e
                | Inr anomalies1 \<Rightarrow>
               (case static_anomaly ''reaction_count_by_views'' reaction_count_by_views
                       coeffs anomalies1 of
                  Inl e \<Rightarrow> Inl e
                | Inr anomalies2 \<Rightarrow> Inr (anomalies2, s'))))))))))"

definition check_predicted_metrics ::
  "(string \<Rightarrow> datetime option) \<Rightarrow> prediction_cache \<Rightarrow> database \<Rightarrow> real \<Rightarrow> pydict
     \<Rightarrow> anomaly list \<Rightarrow> error + (anomaly list \<times> prediction_cache)" where
  "check_predicted_metrics strptime s db now article anomalies =
     (case dict_item article ''loading_date'' of
        Inl e \<Rightarrow> Inl e
      | Inr loading_date \<Rightarrow>
     (case py_strptime strptime loading_date of
        Inl e \<Rightarrow> Inl e
      | Inr date \<Rightarrow>
     (case dict_item article ''chat_id'' of
        Inl e \<Rightarrow> Inl e
      | Inr chat_id \<Rightarrow>
     (case dict_item article ''delta'' of
        Inl e \<Rightarrow> Inl e
      | Inr delta \<Rightarrow>
     (case get_prediction s db now date chat_id delta of
        Inl e \<Rightarrow> Inl e
      | Inr (prediction, s1) \<Rightarrow>
     (case get_statistics s1 db now date chat_id delta (PStr ''views'') of
        Inl e \<Rightarrow> Inl e
      | Inr (stats, s2) \<Rightarrow>
     (case prediction of
        None \<Rightarrow> Inr (anomalies, s2)
      | Some pred \<Rightarrow>
     (case dict_item article ''views'' of
        Inl e \<Rightarrow> Inl e
      | Inr views \<Rightarrow>
     (case dict_item pred ''views_upper'' of
        Inl e \<Rightarrow> Inl e
      | Inr views_upper \<Rightarrow>
     (case py_gt views views_upper of
        Inl e \<Rightarrow> Inl e
      | Inr exceeds \<Rightarrow>
          if exceeds
          then (case dict_item pred ''views'' of
                  Inl e \<Rightarrow> Inl e
                | Inr predicted \<Rightarrow>
                    (case score_predicted_metrics views predicted stats of
                       Inl e \<Rightarrow> Inl e
                     | Inr sc \<Rightarrow>
                         Inr (anomalies @
                              [\<lparr>metric_name = ''views'', metric_value = views,
                                expected_value = predicted, score = sc, weight = 200\<rparr>],
                              s2)))
          else Inr (anomalies, s2)))))))))))"

definition metric_run ::
  "(string \<Rightarrow> datetime option) \<Rightarrow> database \<Rightarrow> real \<Rightarrow> pydict \<Rightarrow> anomaly list
     \<Rightarrow> prediction_cache \<Rightarrow> error + (anomaly list \<times> prediction_cache)" where
  \<comment> \<open>\<open>TelegramMetricAnomalyDetector.run\<close>; the result is the shared list after the call\<close>
  "metric_run strptime db now article anomalies s =
     (if \<not> metric_check_article_fields article then Inr (anomalies, s)
      else
        (case check_article_minimal_threshold s db now article of
           Inl e \<Rightarrow> Inl e
         | Inr (ok, s1) \<Rightarrow>
             if \<not> ok then Inr (anomalies, s1)
             else
               (case check_static_metrics s1 db now article anomalies of
                  Inl e \<Rightarrow> Inl e
                | Inr (anomalies1, s2) \<Rightarrow>
                    check_predicted_metrics strptime s2 db now article anomalies1)))"


section \<open>TelegramRepostAnomalyDetector\<close>

definition repost_must_have_fields :: "string list" where
  "repost_must_have_fields = [''country'', ''forward_from_chat_id'']"

definition none_country :: "pyval list" where
  "none_country = [PStr ''xx'', PNone]"

definition py_in :: "pyval \<Rightarrow> pyval list \<Rightarrow> bool" where
  \<comment> \<open>\<open>v in (a, b)\<close>\<close>
  "py_in v vs = list_ex (py_eq v) vs"

definition repost_check_article_fields :: "pydict \<Rightarrow> bool" where
  "repost_check_article_fields article =
     list_all (\<lambda>key. truthy (dict_get article key)) repost_must_have_fields"

definition check_original_chat_country :: "(string \<Rightarrow> pyval \<Rightarrow> pyval) \<Rightarrow> pydict \<Rightarrow> error + bool" where
  \<comment> \<open>\<open>hget name field\<close> is the reply of the key-value store: \<open>None\<close>, or the
      country as \<open>bytes\<close> or \<open>str\<close>, as the connection is configured\<close>
  "check_original_chat_country hget article =
     (case dict_item article ''country'' of
        Inl e \<Rightarrow> Inl e
      | Inr original_country \<Rightarrow>
          (case dict_item article ''forward_from_chat_id'' of
             Inl e \<Rightarrow> Inl e
           | Inr forward_from_chat_id \<Rightarrow>
               (let forward_country = hget ''tg_countries'' forward_from_chat_id in
                if py_in original_country none_country \<or> py_in forward_country none_country
                then Inr False
                else Inr (\<not> (\<not> py_eq original_country forward_country)))))"

definition repost_run :: "(string \<Rightarrow> pyval \<Rightarrow> pyval) \<Rightarrow> pydict \<Rightarrow> anomaly list \<Rightarrow> error + anomaly list" where
  \<comment> \<open>\<open>TelegramRepostAnomalyDetector.run\<close>; \<open>_weight\<close> takes its default\<close>
  "repost_run hget article anomalies =
     (if \<not> repost_check_article_fields article then Inr anomalies
      else
        (case check_original_chat_country hget article of
           Inl e \<Rightarrow> Inl e
         | Inr differs \<Rightarrow>
             if differs
             then Inr (anomalies @
                       [\<lparr>metric_name = ''forward'', metric_value = PInt 1,
                         expected_value = PInt 0, score = 1.0, weight = 100\<rparr>])
             else Inr anomalies))"

definition stateless ::
  "(pydict \<Rightarrow> anomaly list \<Rightarrow> error + anomaly list)
     \<Rightarrow> pydict \<Rightarrow> anomaly list \<Rightarrow> 's \<Rightarrow> error + (anomaly list \<times> 's)" where
  \<comment> \<open>a detector that holds no cache, among detectors that share the state \<open>'s\<close>\<close>
  "stateless detector article anomalies s =
     (case detector article anomalies of
        Inl e \<Rightarrow> Inl e
      | Inr anomalies' \<Rightarrow> Inr (anomalies', s))"


section \<open>Text formatting\<close>

fun digits :: "nat \<Rightarrow> string" where
  "digits n =
     (if n < 10 then [''0123456789'' ! n]
      else digits (n div 10) @ [''0123456789'' ! (n mod 10)])"

declare digits.simps [simp del]

definition str_of_int :: "int \<Rightarrow> string" where
  "str_of_int i = (if i < 0 then ''-'' @ digits (nat (- i)) else digits (nat i))"

fun py_str :: "(pyval \<Rightarrow> string) \<Rightarrow> pyval \<Rightarrow> string" where
  \<comment> \<open>\<open>str(v)\<close>, as an f-string inserts it; the text of a float and of a bytes value is
      left to the parameter \<open>repr\<close>\<close>
  "py_str repr PNone = ''None''"
| "py_str repr (PInt i) = str_of_int i"
| "py_str repr (PStr s) = s"
| "py_str repr (PFloat r) = repr (PFloat r)"
| "py_str repr (PBytes b) = repr (PBytes b)"

definition round_half_even :: "real \<Rightarrow> int" where
  "round_half_even x =
     (let f = \<lfloor>x\<rfloor>; d = x - of_int f
      in if d < 1 / 2 then f
         else if d > 1 / 2 then f + 1
         else if even f then f else f + 1)"

text \<open>
  Where the text of a number is printed, the float is taken as it is in the machine: a
  sign bit and a magnitude that is a whole multiple of a power of two, of at most 53
  significant bits; or an infinity; or not a number. \<open>float_round\<close> is the binary64
  float nearest to a magnitude, ties to the even significand, and \<open>None\<close> where that is
  beyond the largest float.
\<close>

definition pow2 :: "int \<Rightarrow> real" where
  "pow2 e = (if 0 \<le> e then 2 ^ nat e else 1 / 2 ^ nat (- e))"

fun float_exponent :: "real \<Rightarrow> nat \<Rightarrow> int" where
  \<comment> \<open>the exponent of the last bit of the float of magnitude \<open>x\<close>: the largest \<open>e\<close>
      from \<open>- 1073\<close> to \<open>n - 1074\<close> with \<open>2 ^ (52 + e) \<le> x\<close>, and \<open>- 1074\<close>, the
      exponent of the subnormal floats, when there is none\<close>
  "float_exponent x 0 = - 1074"
| "float_exponent x (Suc n) =
     (if pow2 (int n - 1021) \<le> x then int n - 1073 else float_exponent x n)"

definition float_round :: "real \<Rightarrow> real option" where
  "float_round x =
     (let e = float_exponent x 2045;
          m = real_of_int (round_half_even (x / pow2 e)) * pow2 e
      in if m < pow2 1024 then Some m else None)"

datatype pyfloat = Finite bool real | Infinite bool | NaN

definition float_of_real :: "real \<Rightarrow> pyfloat" where
  \<comment> \<open>the float that a \<open>PFloat r\<close> stands for: the one nearest to \<open>r\<close>\<close>
  "float_of_real r =
     (case float_round \<bar>r\<bar> of
        None \<Rightarrow> Infinite (r < 0)
      | Some m \<Rightarrow> Finite (r < 0) m)"

definition float_operand :: "pyval \<Rightarrow> error + pyfloat" where
  \<comment> \<open>an operand of a float operation: an int is converted, which raises when it is too
      large\<close>
  "float_operand v =
     (case v of
        PInt i \<Rightarrow>
          (case float_round \<bar>real_of_int i\<bar> of
             None \<Rightarrow> Inl OverflowError
           | Some m \<Rightarrow> Inr (Finite (i < 0) m))
      | PFloat r \<Rightarrow> Inr (float_of_real r)
      | PNone \<Rightarrow> Inl TypeError
      | PStr s \<Rightarrow> Inl TypeError
      | PBytes b \<Rightarrow> Inl TypeError)"

definition float_div :: "pyfloat \<Rightarrow> pyfloat \<Rightarrow> error + pyfloat" where
  \<comment> \<open>the division of two floats: it raises when the divisor is zero, and gives the
      float nearest to the quotient, an infinity when that is too large\<close>
  "float_div x y =
     (case y of
        Finite yneg d \<Rightarrow>
          (if d = 0 then Inl ZeroDivisionError
           else (case x of
                   Finite xneg p \<Rightarrow>
                     (case float_round (p / d) of
                        None \<Rightarrow> Inr (Infinite (xneg \<noteq> yneg))
                      | Some m \<Rightarrow> Inr (Finite (xneg \<noteq> yneg) m))
                 | Infinite xneg \<Rightarrow> Inr (Infinite (xneg \<noteq> yneg))
                 | NaN \<Rightarrow> Inr NaN))
      | Infinite yneg \<Rightarrow>
          (case x of
             Finite xneg p \<Rightarrow> Inr (Finite (xneg \<noteq> yneg) 0)
           | Infinite xneg \<Rightarrow> Inr NaN
           | NaN \<Rightarrow> Inr NaN)
      | NaN \<Rightarrow> Inr NaN)"

fun float_truediv :: "pyval \<Rightarrow> pyval \<Rightarrow> error + pyfloat" where
  \<comment> \<open>\<open>a / b\<close> as a float. Two ints are divided exactly and the quotient is rounded
      once, which raises when it is too large; otherwise both operands are taken as
      floats\<close>
  "float_truediv (PInt i) (PInt j) =
     (if j = 0 then Inl ZeroDivisionError
      else (case float_round \<bar>real_of_int i / real_of_int j\<bar> of
              None \<Rightarrow> Inl OverflowError
            | Some m \<Rightarrow> Inr (Finite ((i < 0) \<noteq> (j < 0)) m)))"
| "float_truediv a b =
     (case num_of a of
        None \<Rightarrow> Inl TypeError
      | Some a' \<Rightarrow>
          (case num_of b of
             None \<Rightarrow> Inl TypeError
           | Some b' \<Rightarrow>
               (case float_operand a of
                  Inl e \<Rightarrow> Inl e
                | Inr x \<Rightarrow>
                    (case float_operand b of
                       Inl e \<Rightarrow> Inl e
                     | Inr y \<Rightarrow> float_div x y))))"

definition equals_zero :: "pyval \<Rightarrow> bool" where
  \<comment> \<open>\<open>v == 0\<close>, of an int and of the float that a \<open>PFloat\<close> stands for\<close>
  "equals_zero v =
     (case v of
        PInt i \<Rightarrow> i = 0
      | PFloat r \<Rightarrow> float_round \<bar>r\<bar> = Some 0
      | PNone \<Rightarrow> False
      | PStr s \<Rightarrow> False
      | PBytes b \<Rightarrow> False)"

definition format_fixed :: "nat \<Rightarrow> bool \<Rightarrow> real \<Rightarrow> string" where
  \<comment> \<open>the format \<open>:.nf\<close> of a finite float of the given sign bit and magnitude: \<open>n\<close>
      decimals of its exact value, rounded half to even\<close>
  "format_fixed n negative x =
     (let scaled = nat (round_half_even (x * 10 ^ n));
          whole = digits (scaled div 10 ^ n);
          frac = digits (scaled mod 10 ^ n)
      in (if negative then ''-'' else [])
         @ whole
         @ (if n = 0 then [] else ''.'' @ replicate (n - length frac) (CHR ''0'') @ frac))"

definition format_float :: "nat \<Rightarrow> pyfloat \<Rightarrow> string" where
  \<comment> \<open>the format \<open>:.nf\<close> of a float\<close>
  "format_float n v =
     (case v of
        Finite negative x \<Rightarrow> format_fixed n negative x
      | Infinite negative \<Rightarrow> (if negative then ''-inf'' else ''inf'')
      | NaN \<Rightarrow> ''nan'')"

fun join :: "string \<Rightarrow> string list \<Rightarrow> string" where
  \<comment> \<open>\<open>sep.join(parts)\<close>\<close>
  "join sep [] = []"
| "join sep [x] = x"
| "join sep (x # y # ys) = x @ sep @ join sep (y # ys)"


section \<open>AnomalyDetector\<close>

text \<open>
  An event: \<open>message['metadata']\<close> with its keys \<open>id\<close>, \<open>method\<close> and
  \<open>destination\<close> (a string or a list of strings), which are taken to be present, and
  the article \<open>message['payload']\<close>.
\<close>

datatype destination = DestStr string | DestList "string list"

record message =
  msg_id :: pyval
  msg_method :: pyval
  msg_destination :: destination
  payload :: pydict

text \<open>
  The alert. \<open>_all_anomalies\<close> holds \<open>anomaly.to_dict()\<close> of each anomaly, in the
  order of the sorted list; the model keeps the anomalies themselves.
\<close>

record alert =
  alert_id :: string
  alert_article_id :: pyval
  alert_date :: datetime
  alert_score :: real
  alert_domain :: string
  alert_source :: pyval
  alert_description :: string
  alert_url :: "string option"
  alert_field_name :: string
  alert_anomaly_value :: pyval
  alert_expected_value :: pyval
  alert_all_anomalies :: "anomaly list"

definition color_red :: real where "color_red = 0.75"
definition color_yellow :: real where "color_yellow = 0.25"
definition color_green :: real where "color_green = 0.0"

definition domain_of :: "pyval \<Rightarrow> string" where
  \<comment> \<open>\<open>self._domain.get(method, 'Unknown')\<close>\<close>
  "domain_of method =
     (if py_eq method (PStr ''TelegramEngagementExecutor'') then ''Telegram''
      else if py_eq method (PStr ''TelegramListener'') then ''Telegram''
      else if py_eq method (PStr ''opoint'') then ''Web''
      else ''Unknown'')"

definition sorted_reverse :: "('a \<Rightarrow> 'k::linorder) \<Rightarrow> 'a list \<Rightarrow> 'a list" where
  \<comment> \<open>\<open>sorted(xs, key=key, reverse=True)\<close>: the interpreter reverses the list, sorts
      it with its stable sort and reverses the result\<close>
  "sorted_reverse key xs = rev (sort_key key (rev xs))"

definition calculate_total_anomaly_score :: "anomaly list \<Rightarrow> real" where
  "calculate_total_anomaly_score anomalies = sum_list (map score anomalies)"

definition numeric_point :: "anomaly \<Rightarrow> error + string list" where
  \<comment> \<open>the branch of the loop of \<open>_generate_description\<close> for a metric value of type
      \<open>float\<close> or \<open>int\<close>\<close>
  "numeric_point a =
     (if equals_zero (expected_value a)
      then (case float_operand (expected_value a) of
              Inl e \<Rightarrow> Inl e
            | Inr expected \<Rightarrow>
                Inr [metric_name a @ '' ('' @ format_float 2 expected @ ''x expected)''])
      else (case float_truediv (metric_value a) (expected_value a) of
              Inl e \<Rightarrow> Inl e
            | Inr difference \<Rightarrow>
                Inr [metric_name a @ '' ('' @ format_float 1 difference @ ''x higher)'']))"

definition description_point :: "anomaly \<Rightarrow> error + string list" where
  \<comment> \<open>what one round of the loop appends to \<open>description_points\<close>\<close>
  "description_point a =
     (case metric_value a of
        PInt i \<Rightarrow> numeric_point a
      | PFloat r \<Rightarrow> numeric_point a
      | PStr text \<Rightarrow> Inr [metric_name a @ '' is '' @ text]
      | PNone \<Rightarrow> Inr []
      | PBytes b \<Rightarrow> Inr [])"

fun description_points :: "anomaly list \<Rightarrow> string list \<Rightarrow> error + string list" where
  "description_points [] points = Inr points"
| "description_points (a # anomalies) points =
     (case description_point a of
        Inl e \<Rightarrow> Inl e
      | Inr new_points \<Rightarrow> description_points anomalies (points @ new_points))"

definition generate_description ::
  "(pyval \<Rightarrow> string) \<Rightarrow> anomaly list \<Rightarrow> message \<Rightarrow> real \<Rightarrow> error + string" where
  "generate_description repr anomalies msg total_score =
     (let additional_info =
            (if truthy (dict_get (payload msg) ''delta'')
             then Some (py_str repr (dict_get (payload msg) ''delta'')
                        @ '' seconds after publication'')
             else None);
          prefix =
            (if total_score > color_red then ''Critical anomaly''
             else if total_score > color_yellow then ''Major anomaly''
             else if total_score > color_green then ''Minor anomaly''
             else ''Warning anomaly'')
      in case description_points anomalies [] of
           Inl e \<Rightarrow> Inl e
         | Inr points \<Rightarrow>
             (case (if length points = 1 then Inr (hd points)
                    else if points = [] then Inl IndexError
                    else Inr (join '', '' (butlast points) @ '' and '' @ last points)) of
                Inl e \<Rightarrow> Inl e
              | Inr listing \<Rightarrow>
                  (case dict_item (payload msg) ''source'' of
                     Inl e \<Rightarrow> Inl e
                   | Inr source \<Rightarrow>
                       (let complete_text =
                              prefix @ '' in '' @ listing @ '' found for '' @ py_str repr source
                        in Inr (case additional_info of
                                  None \<Rightarrow> complete_text
                                | Some info \<Rightarrow> complete_text @ '' '' @ info)))))"

definition event_date :: "(string \<Rightarrow> datetime option) \<Rightarrow> message \<Rightarrow> error + datetime" where
  \<comment> \<open>\<open>strptime(payload.get('loading_date', payload['date']), format)\<close>: the default
      \<open>payload['date']\<close> is evaluated before \<open>get\<close> is called\<close>
  "event_date strptime msg =
     (case dict_item (payload msg) ''date'' of
        Inl e \<Rightarrow> Inl e
      | Inr date \<Rightarrow>
          py_strptime strptime (dict_get_default (payload msg) ''loading_date'' date))"

definition create_alert ::
  "(string \<Rightarrow> datetime option)
     \<Rightarrow> (string \<Rightarrow> (string \<times> pyval) list \<Rightarrow> datetime \<Rightarrow> error + string list)
     \<Rightarrow> string \<Rightarrow> (pyval \<Rightarrow> string) \<Rightarrow> message \<Rightarrow> anomaly list \<Rightarrow> error + alert" where
  \<comment> \<open>\<open>generate\<close> is \<open>KibanaLinkGenerator.generate\<close>, \<open>uuid\<close> the text of a fresh
      \<open>uuid4()\<close>\<close>
  "create_alert strptime generate uuid repr msg anomalies0 =
     (let anomalies = sorted_reverse score anomalies0;
          total_score = calculate_total_anomaly_score anomalies;
          destination = (case msg_destination msg of DestStr d \<Rightarrow> [d] | DestList ds \<Rightarrow> ds)
      in case dict_item (payload msg) ''source'' of
           Inl e \<Rightarrow> Inl e
         | Inr source \<Rightarrow>
        (let query_mapping =
               [(''source'', PStr ([CHR 0x22] @ py_str repr source @ [CHR 0x22]))]
               @ (if truthy (dict_get (payload msg) ''delta'')
                  then [(''delta'', dict_get (payload msg) ''delta'')] else [])
         in case destination of
              [] \<Rightarrow> Inl IndexError
            | destination0 # rest \<Rightarrow>
           (case event_date strptime msg of
              Inl e \<Rightarrow> Inl e
            | Inr date \<Rightarrow>
           (case generate destination0 query_mapping date of
              Inl e \<Rightarrow> Inl e
            | Inr kibana_urls \<Rightarrow>
           (let kibana_url = (if length kibana_urls > 0 then Some (hd kibana_urls) else None)
            in case event_date strptime msg of
                 Inl e \<Rightarrow> Inl e
               | Inr alert_date' \<Rightarrow>
              (case generate_description repr anomalies msg total_score of
                 Inl e \<Rightarrow> Inl e
               | Inr description \<Rightarrow>
              (case anomalies of
                 [] \<Rightarrow> Inl IndexError
               | first_anomaly # others \<Rightarrow>
                   Inr \<lparr>alert_id = uuid,
                        alert_article_id = msg_id msg,
                        alert_date = alert_date',
                        alert_score = total_score,
                        alert_domain = domain_of (msg_method msg),
                        alert_source = source,
                        alert_description = description,
                        alert_url = kibana_url,
                        alert_field_name = metric_name first_anomaly,
                        alert_anomaly_value = metric_value first_anomaly,
                        alert_expected_value = expected_value first_anomaly,
                        alert_all_anomalies = anomalies\<rparr>)))))))"

definition query_builder :: "(pyval \<Rightarrow> string) \<Rightarrow> (string \<times> pyval) list \<Rightarrow> string" where
  \<comment> \<open>\<open>KibanaLinkGenerator._query_builder\<close>\<close>
  "query_builder repr mapping =
     join '' and '' (map (\<lambda>(key, value). key @ '' : '' @ py_str repr value) mapping)"

definition time_window :: int where
  \<comment> \<open>\<open>timedelta(minutes=5)\<close>\<close>
  "time_window = 300000000"

fun build_urls ::
  "(string \<Rightarrow> string \<Rightarrow> string \<Rightarrow> datetime \<Rightarrow> datetime \<Rightarrow> string) \<Rightarrow> string \<Rightarrow> datetime
     \<Rightarrow> (string \<times> string) list \<Rightarrow> error + string list" where
  \<comment> \<open>the list comprehension of \<open>generate\<close> over \<open>dataviews.items()\<close>\<close>
  "build_urls url_builder query date [] = Inr []"
| "build_urls url_builder query date ((dataview_id, space_id) # dataviews) =
     (case dt_add date (- time_window) of
        Inl e \<Rightarrow> Inl e
      | Inr from_date \<Rightarrow>
          (case dt_add date time_window of
             Inl e \<Rightarrow> Inl e
           | Inr to_date \<Rightarrow>
               (case build_urls url_builder query date dataviews of
                  Inl e \<Rightarrow> Inl e
                | Inr urls \<Rightarrow>
                    Inr (url_builder query space_id dataview_id from_date to_date # urls))))"

definition kibana_generate ::
  "(string \<Rightarrow> (string \<times> string) list option)
     \<Rightarrow> (string \<Rightarrow> string \<Rightarrow> string \<Rightarrow> datetime \<Rightarrow> datetime \<Rightarrow> string)
     \<Rightarrow> (pyval \<Rightarrow> string)
     \<Rightarrow> string \<Rightarrow> (string \<times> pyval) list \<Rightarrow> datetime \<Rightarrow> error + string list" where
  \<comment> \<open>\<open>KibanaLinkGenerator.generate\<close>. \<open>get_dataviews_by_index\<close> is the reply of the
      object cache, \<open>None\<close> for an index it does not know after its refresh, on which
      \<open>dataviews.items()\<close> raises; \<open>url_builder\<close> is \<open>_url_builder\<close>, which formats the
      two dates and quotes the query\<close>
  "kibana_generate get_dataviews_by_index url_builder repr destination mapping date =
     (let dataviews = get_dataviews_by_index destination;
          query = query_builder repr mapping
      in case dataviews of
           None \<Rightarrow> Inl AttributeError
         | Some items \<Rightarrow> build_urls url_builder query date items)"

fun run_detector_list ::
  "(pydict \<Rightarrow> anomaly list \<Rightarrow> 's \<Rightarrow> error + (anomaly list \<times> 's)) list
     \<Rightarrow> pydict \<Rightarrow> anomaly list \<Rightarrow> 's \<Rightarrow> error + (anomaly list \<times> 's)" where
  \<comment> \<open>the loop \<open>for detector in self._detectors: detector.run(article, anomalies)\<close>\<close>
  "run_detector_list [] article anomalies s = Inr (anomalies, s)"
| "run_detector_list (detector # detectors) article anomalies s =
     (case detector article anomalies s of
        Inl e \<Rightarrow> Inl e
      | Inr (anomalies', s') \<Rightarrow> run_detector_list detectors article anomalies' s')"

definition run_detectors ::
  "(pydict \<Rightarrow> anomaly list \<Rightarrow> 's \<Rightarrow> error + (anomaly list \<times> 's)) list
     \<Rightarrow> message \<Rightarrow> 's \<Rightarrow> error + (anomaly list \<times> 's)" where
  "run_detectors detectors msg s = run_detector_list detectors (payload msg) [] s"

definition run ::
  "(string \<Rightarrow> datetime option)
     \<Rightarrow> (string \<Rightarrow> (string \<times> pyval) list \<Rightarrow> datetime \<Rightarrow> error + string list)
     \<Rightarrow> string \<Rightarrow> (pyval \<Rightarrow> string)
     \<Rightarrow> (pydict \<Rightarrow> anomaly list \<Rightarrow> 's \<Rightarrow> error + (anomaly list \<times> 's)) list
     \<Rightarrow> message \<Rightarrow> 's \<Rightarrow> error + (alert option \<times> 's)" where
  \<comment> \<open>\<open>AnomalyDetector.run\<close>\<close>
  "run strptime generate uuid repr detectors msg s =
     (case run_detectors detectors msg s of
        Inl e \<Rightarrow> Inl e
      | Inr (anomalies, s') \<Rightarrow>
          if length anomalies = 0 then Inr (None, s')
          else (case create_alert strptime generate uuid repr msg anomalies of
                  Inl e \<Rightarrow> Inl e
                | Inr alert \<Rightarrow> Inr (Some alert, s')))"


section \<open>The description, in the words of the spec\<close>

text \<open>
  The description template as section 4.3 of the spec words it, to compare
  \<open>generate_description\<close> with: the severity prefix by the fixed thresholds, one item for
  each anomaly, and the items joined with commas and an "and" before the last one.
\<close>

definition spec_severity :: "real \<Rightarrow> string" where
  "spec_severity total_score =
     (if total_score > 0.75 then ''Critical anomaly''
      else if total_score > 0.25 then ''Major anomaly''
      else if total_score > 0 then ''Minor anomaly''
      else ''Warning anomaly'')"

definition is_digit :: "char \<Rightarrow> bool" where
  "is_digit c = (48 \<le> (of_char c :: nat) \<and> (of_char c :: nat) \<le> 57)"

fun read_digits :: "string \<Rightarrow> nat \<Rightarrow> nat option" where
  \<comment> \<open>the number that a row of decimal digits writes, after the digits read so far\<close>
  "read_digits [] acc = Some acc"
| "read_digits (c # cs) acc =
     (if is_digit c then read_digits cs (acc * 10 + (of_char c - 48)) else None)"

definition reads_fixed :: "nat \<Rightarrow> string \<Rightarrow> (bool \<times> nat) option" where
  \<comment> \<open>what a decimal numeral with \<open>n\<close> decimals says: whether it has a minus sign, and
      the number of units of \<open>10 ^ - n\<close> that its digits write. The numeral is an optional
      minus sign, an integer part of at least one digit with no needless leading zero, a
      point and exactly \<open>n\<close> digits\<close>
  "reads_fixed n t =
     (let negative = (t \<noteq> [] \<and> hd t = CHR ''-'');
          body = (if negative then tl t else t);
          whole = takeWhile (\<lambda>c. c \<noteq> CHR ''.'') body;
          rest = dropWhile (\<lambda>c. c \<noteq> CHR ''.'') body
      in if whole = [] \<or> (length whole > 1 \<and> hd whole = CHR ''0'') \<or> rest = []
            \<or> length (tl rest) \<noteq> n
         then None
         else map_option (Pair negative) (read_digits (whole @ tl rest) 0))"

definition nearest_even :: "real \<Rightarrow> nat \<Rightarrow> bool" where
  \<comment> \<open>\<open>k\<close> is the whole number nearest to \<open>y\<close>, the even one of two that are equally
      near\<close>
  "nearest_even y k =
     (\<bar>real k - y\<bar> < 1 / 2 \<or> (\<bar>real k - y\<bar> = 1 / 2 \<and> even k))"

definition spec_item :: "anomaly \<Rightarrow> string \<Rightarrow> bool" where
  \<comment> \<open>\<open>item\<close> is the item of the anomaly: \<open><metric> is <value>\<close> for a string value;
      for a number the \<open>x expected\<close> form when the expected value is zero, and otherwise
      \<open><metric> (<N.N>x higher)\<close> where \<open>N.N\<close> is a numeral with one decimal, with the
      sign of the float \<open>metric_value / expected_value\<close> and nearest to its magnitude\<close>
  "spec_item a item =
     (case metric_value a of
        PStr text \<Rightarrow> item = metric_name a @ '' is '' @ text
      | v \<Rightarrow>
          (if num_of (expected_value a) = Some 0
           then item = metric_name a @ '' (0.00x expected)''
           else (case float_truediv v (expected_value a) of
                   Inr (Finite negative x) \<Rightarrow>
                     (let number = take (length item - length (metric_name a)
                                         - length '' ('' - length ''x higher)'')
                                        (drop (length (metric_name a) + length '' ('') item)
                      in item = metric_name a @ '' ('' @ number @ ''x higher)'' \<and>
                         (case reads_fixed 1 number of
                            None \<Rightarrow> False
                          | Some (signed, k) \<Rightarrow> signed = negative \<and> nearest_even (x * 10) k))
                 | Inr (Infinite negative) \<Rightarrow> False
                 | Inr NaN \<Rightarrow> False
                 | Inl e \<Rightarrow> False)))"

fun spec_listing :: "string list \<Rightarrow> string" where
  "spec_listing [] = []"
| "spec_listing [x] = x"
| "spec_listing [x, y] = x @ '' and '' @ y"
| "spec_listing (x # y # z # zs) = x @ '', '' @ spec_listing (y # z # zs)"

definition spec_suffix :: "(pyval \<Rightarrow> string) \<Rightarrow> message \<Rightarrow> string" where
  "spec_suffix repr msg =
     (if truthy (dict_get (payload msg) ''delta'')
      then '' '' @ py_str repr (dict_get (payload msg) ''delta'') @ '' seconds after publication''
      else [])"

definition finite_quotient :: "anomaly \<Rightarrow> bool" where
  \<comment> \<open>the expected value is zero, or \<open>metric_value / expected_value\<close> is a finite float\<close>
  "finite_quotient a =
     (num_of (expected_value a) = Some 0 \<or>
      (\<not> equals_zero (expected_value a) \<and>
       (case float_truediv (metric_value a) (expected_value a) of
          Inr (Finite negative x) \<Rightarrow> True
        | Inr (Infinite negative) \<Rightarrow> False
        | Inr NaN \<Rightarrow> False
        | Inl e \<Rightarrow> False)))"

definition renderable :: "anomaly \<Rightarrow> bool" where
  \<comment> \<open>a numeric anomaly with a numeric expected value that is zero or gives a finite
      quotient, or a string-valued anomaly\<close>
  "renderable a =
     (case metric_value a of
        PStr text \<Rightarrow> True
      | PInt i \<Rightarrow> finite_quotient a
      | PFloat r \<Rightarrow> finite_quotient a
      | PNone \<Rightarrow> False
      | PBytes b \<Rightarrow> False)"

definition item_text :: "anomaly \<Rightarrow> string" where
  \<comment> \<open>the item that a round of the loop of \<open>_generate_description\<close> appends for an
      anomaly, when it appends one\<close>
  "item_text a = (case description_point a of Inr [item] \<Rightarrow> item | _ \<Rightarrow> [])"


section \<open>Example data\<close>

text \<open>
  A store with one row in each table, for source 7 and delta 60, and a cache object with
  empty caches, as the examples below use them. The prediction is for 2024-01-01T10:10:00,
  the statistics window is 10:00:00 to 11:00:00 of that day.
\<close>

definition example_db :: database where
  "example_db =
     \<lparr>prediction_table =
        [\<lparr>p_date = 63839700600000000, p_chat_id = PInt 7, p_delta = PInt 60,
          p_columns = [(''views'', PInt 100), (''views_upper'', PInt 150)]\<rparr>],
      statistic_table =
        [\<lparr>s_date_from = 63839700000000000, s_date_to = 63839703600000000,
          s_chat_id = PInt 7, s_delta = PInt 60, s_metric = PStr ''views'',
          s_columns = [(''mean'', PFloat 1), (''std'', PFloat 0.5)]\<rparr>],
      coefficient_table =
        [\<lparr>c_id = PInt 7,
          c_columns = [(''forwards_by_views'', PFloat 0.1),
                       (''reaction_count_by_views'', PFloat 0.5),
                       (''minimal_views_threshold'', PInt 100)]\<rparr>]\<rparr>"

definition example_cache :: prediction_cache where
  "example_cache =
     \<lparr>prediction_step = 5,
      cache_big_update_window = 3600000000,
      predictions = \<lparr>maxsize = 10, ttl = 3600, links = []\<rparr>,
      statistics = \<lparr>maxsize = 10, ttl = 3600, links = []\<rparr>,
      coefficients = \<lparr>maxsize = 10, ttl = 3600, links = []\<rparr>,
      queries = []\<rparr>"

definition example_cache_two_windows :: prediction_cache where
  \<comment> \<open>three cached windows that contain 10:12:13: 10:00 to 12:00 and 10:00 to 11:00 for
      source 7, and 10:00 to 13:00 for source 8\<close>
  "example_cache_two_windows =
     example_cache
       \<lparr>statistics :=
          \<lparr>maxsize = 10, ttl = 3600,
           links =
             [((63839700000000000, 63839707200000000, PInt 7, PInt 60, PStr ''views''),
               [(''mean'', PFloat 2), (''std'', PFloat 1)], 3600),
              ((63839700000000000, 63839703600000000, PInt 7, PInt 60, PStr ''views''),
               [(''mean'', PFloat 1), (''std'', PFloat 0.5)], 3600),
              ((63839700000000000, 63839710800000000, PInt 8, PInt 60, PStr ''views''),
               [(''mean'', PFloat 3), (''std'', PFloat 1)], 3600)]\<rparr>\<rparr>"

definition example_cache_warm :: prediction_cache where
  \<comment> \<open>the cache object holding the prediction of the example store\<close>
  "example_cache_warm =
     example_cache
       \<lparr>predictions :=
          \<lparr>maxsize = 10, ttl = 3600,
           links =
             [((63839700600000000, PInt 7, PInt 60),
               [(''views'', PInt 100), (''views_upper'', PInt 150)], 3600)]\<rparr>\<rparr>"

definition example_cache_ready :: prediction_cache where
  \<comment> \<open>the cache object holding every row of the example store\<close>
  "example_cache_ready =
     example_cache_warm
       \<lparr>statistics :=
          \<lparr>maxsize = 10, ttl = 3600,
           links =
             [((63839700000000000, 63839703600000000, PInt 7, PInt 60, PStr ''views''),
               [(''mean'', PFloat 1), (''std'', PFloat 0.5)], 3600)]\<rparr>,
        coefficients :=
          \<lparr>maxsize = 10, ttl = 3600,
           links =
             [(PInt 7,
               [(''forwards_by_views'', PFloat 0.1),
                (''reaction_count_by_views'', PFloat 0.5),
                (''minimal_views_threshold'', PInt 100)], 3600)]\<rparr>\<rparr>"

definition example_strptime :: "string \<Rightarrow> datetime option" where
  \<comment> \<open>the parser, on the one timestamp the examples use\<close>
  "example_strptime text =
     (if text = ''2024-01-01T10:12:13'' then Some 63839700733000000 else None)"

definition example_article :: "int \<Rightarrow> int \<Rightarrow> int \<Rightarrow> pydict" where
  \<comment> \<open>an article of source 7 with the given views, forwards and reaction count\<close>
  "example_article views forwards reaction_count =
     [(''source'', PStr ''channel''),
      (''date'', PStr ''2024-01-01T10:12:13''),
      (''loading_date'', PStr ''2024-01-01T10:12:13''),
      (''delta'', PInt 60),
      (''chat_id'', PInt 7),
      (''views'', PInt views),
      (''forwards'', PInt forwards),
      (''reaction_count'', PInt reaction_count)]"

definition example_repost_article :: "string \<Rightarrow> pydict" where
  \<comment> \<open>a forwarded article of a source in the given country\<close>
  "example_repost_article country =
     [(''source'', PStr ''channel''),
      (''date'', PStr ''2024-01-01T10:12:13''),
      (''country'', PStr country),
      (''forward_from_chat_id'', PInt 42)]"

definition example_message :: "destination \<Rightarrow> pydict \<Rightarrow> message" where
  "example_message destination article =
     \<lparr>msg_id = PStr ''article-1'', msg_method = PStr ''TelegramListener'',
      msg_destination = destination, payload = article\<rparr>"

definition example_generate ::
  "string \<Rightarrow> (string \<times> pyval) list \<Rightarrow> datetime \<Rightarrow> error + string list" where
  \<comment> \<open>the link generator of an object cache that knows the index \<open>tg\<close> only, with one
      dataview\<close>
  "example_generate =
     kibana_generate (\<lambda>index. if index = ''tg'' then Some [(''dv'', ''space'')] else None)
                     (\<lambda>query space_id dataview_id from_date to_date. ''url'')
                     (\<lambda>v. ''?'')"

definition example_anomalies :: "anomaly list" where
  "example_anomalies =
     [\<lparr>metric_name = ''forwards_by_views'', metric_value = PFloat 0.2,
       expected_value = PFloat 0.1, score = 0.5, weight = 100\<rparr>,
      \<lparr>metric_name = ''forward'', metric_value = PInt 1,
       expected_value = PInt 0, score = 1, weight = 100\<rparr>,
      \<lparr>metric_name = ''views'', metric_value = PInt 500,
       expected_value = PInt 100, score = 1, weight = 200\<rparr>]"

definition example_alert :: alert where
  "example_alert =
     \<lparr>alert_id = ''uuid-1'',
      alert_article_id = PStr ''article-1'',
      alert_date = 63839700733000000,
      alert_score = 5 / 2,
      alert_domain = ''Telegram'',
      alert_source = PStr ''channel'',
      alert_description =
        ''Critical anomaly in forward (0.00x expected), views (5.0x higher) and forwards_by_views (2.0x higher) found for channel 60 seconds after publication'',
      alert_url = Some ''url'',
      alert_field_name = ''forward'',
      alert_anomaly_value = PInt 1,
      alert_expected_value = PInt 0,
      alert_all_anomalies =
        [\<lparr>metric_name = ''forward'', metric_value = PInt 1,
          expected_value = PInt 0, score = 1, weight = 100\<rparr>,
         \<lparr>metric_name = ''views'', metric_value = PInt 500,
          expected_value = PInt 100, score = 1, weight = 200\<rparr>,
         \<lparr>metric_name = ''forwards_by_views'', metric_value = PFloat 0.2,
          expected_value = PFloat 0.1, score = 0.5, weight = 100\<rparr>]\<rparr>"

definition example_detectors ::
  "(pydict \<Rightarrow> anomaly list \<Rightarrow> prediction_cache \<Rightarrow> error + (anomaly list \<times> prediction_cache)) list"
  where
  \<comment> \<open>the two detectors of the container, on the example store, with a key-value store that
      knows no source\<close>
  "example_detectors =
     [metric_run example_strptime example_db 0,
      stateless (repost_run (\<lambda>name field. PNone))]"


section \<open>Properties of the cache\<close>


lemma find_SomeD: "find P xs = Some x \<Longrightarrow> x \<in> set xs \<and> P x"
  by (induction xs) (auto split: if_splits)

lemma ttl_get_in_links: "ttl_get c now k = Some v \<Longrightarrow> \<exists>e. (k, v, e) \<in> set (links c) \<and> now < e"
  by (auto simp: ttl_get_def split: option.splits if_splits dest!: find_SomeD)

lemma ttl_get_None_if_no_key: "\<forall>x \<in> set (links c). fst x \<noteq> k \<Longrightarrow> ttl_get c now k = None"
  by (auto simp: ttl_get_def split: option.splits dest!: find_SomeD)

lemma ttl_setitem_links:
  assumes "ttl_setitem c now k v = Inr c'" and "x \<in> set (links c')"
  shows "x \<in> set (links c) \<or> fst x = k"
proof -
  define live where "live = filter (\<lambda>(k', v', e). now < e) (links c)"
  define others where "others = filter (\<lambda>(k', v', e). k' \<noteq> k) live"
  define kept where "kept = (if length others = length live
      then drop (length others + 1 - maxsize c) others else others)"
  have "set kept \<subseteq> set (links c)"
    unfolding kept_def others_def live_def by (auto dest: in_set_dropD)
  moreover have "links c' = kept @ [(k, v, now + ttl c)]"
    using assms(1) unfolding ttl_setitem_def Let_def kept_def others_def live_def
    by (auto split: if_splits)
  ultimately show ?thesis using assms(2) by auto
qed

lemma ttl_setitems_links:
  "ttl_setitems c now kvs = Inr c' \<Longrightarrow> x \<in> set (links c') \<Longrightarrow>
     x \<in> set (links c) \<or> fst x \<in> fst ` set kvs"
proof (induction kvs arbitrary: c)
  case Nil
  then show ?case by simp
next
  case (Cons kv kvs)
  obtain k v where kv: "kv = (k, v)" by (cases kv)
  from Cons.prems(1) kv obtain c1 where c1: "ttl_setitem c now k v = Inr c1"
    and rest: "ttl_setitems c1 now kvs = Inr c'"
    by (auto split: sum.splits)
  from Cons.IH[OF rest Cons.prems(2)] show ?case
  proof
    assume "x \<in> set (links c1)"
    from ttl_setitem_links[OF c1 this] show ?thesis using kv by auto
  next
    assume "fst x \<in> fst ` set kvs"
    then show ?thesis by simp
  qed
qed

lemma microsecond_replace_zero: "dt_microsecond (replace_second_microsecond_zero t) = 0"
proof -
  have "t - t mod 1000000 = t div 1000000 * 1000000"
    by (simp add: minus_mod_eq_div_mult)
  then have e: "t - (t div 1000000) mod 60 * 1000000 - t mod 1000000
               = (t div 1000000 - (t div 1000000) mod 60) * 1000000"
    by (simp add: algebra_simps)
  show ?thesis
    unfolding dt_microsecond_def replace_second_microsecond_zero_def dt_second_def e
    by simp
qed

lemma get_predictions_from_db_inv:
  assumes inv: "prediction_keys_whole_minutes s"
    and r: "get_predictions_from_db s db now a b = Inr s'"
  shows "prediction_keys_whole_minutes s'"
proof -
  define kvs where "kvs =
    map (\<lambda>row. ((replace_second_microsecond_zero (p_date row),
                   pykey (p_chat_id row), pykey (p_delta row)), p_columns row))
        (filter (\<lambda>row. p_date row \<ge> a \<and> p_date row \<le> b) (prediction_table db))"
  from r obtain c where c: "ttl_setitems (predictions s) now kvs = Inr c"
    and s': "predictions s' = c"
    unfolding get_predictions_from_db_def Let_def kvs_def
    by (cases "ttl_setitems (predictions s) now
          (map (\<lambda>row. ((replace_second_microsecond_zero (p_date row),
                   pykey (p_chat_id row), pykey (p_delta row)), p_columns row))
             (filter (\<lambda>row. p_date row \<ge> a \<and> p_date row \<le> b) (prediction_table db)))")
       auto
  have "dt_microsecond (fst (fst x)) = 0" if "x \<in> set (links c)" for x
  proof -
    from ttl_setitems_links[OF c that] show ?thesis
    proof
      assume "x \<in> set (links (predictions s))"
      with inv show ?thesis by (simp add: prediction_keys_whole_minutes_def)
    next
      assume "fst x \<in> fst ` set kvs"
      then have "\<exists>t. fst (fst x) = replace_second_microsecond_zero t"
        unfolding kvs_def by auto
      then show ?thesis by (auto simp: microsecond_replace_zero)
    qed
  qed
  then show ?thesis by (simp add: prediction_keys_whole_minutes_def s')
qed

lemma replace_minute_second_microsecond:
  assumes "replace_minute_second t m sec = Inr t'"
  shows "dt_microsecond t' = dt_microsecond t"
proof -
  have "(t - a * 60000000 - b * 1000000 + m * 60000000 + sec * 1000000) mod 1000000
          = t mod 1000000" for a b
  proof -
    have e: "t - a * 60000000 - b * 1000000 + m * 60000000 + sec * 1000000
            = t + (m * 60 + sec - a * 60 - b) * 1000000"
      by (simp add: algebra_simps)
    show ?thesis unfolding e by (rule mod_mult_self1)
  qed
  with assms show ?thesis
    unfolding replace_minute_second_def dt_microsecond_def by (auto split: if_splits)
qed

lemma get_nearest_date_microsecond:
  assumes "get_nearest_date s d = Inr d'"
  shows "dt_microsecond d' = dt_microsecond d"
  using assms unfolding get_nearest_date_def Let_def
  by (auto split: if_splits dest: replace_minute_second_microsecond)

lemma get_prediction_microsecond_miss:
  assumes inv: "prediction_keys_whole_minutes s"
    and us: "dt_microsecond date \<noteq> 0"
    and res: "get_prediction s db now date chat_id delta = Inr (r, s')"
  shows "r = None"
proof -
  from res obtain d where d: "get_nearest_date s date = Inr d"
    by (auto simp: get_prediction_def split: sum.splits)
  then have dus: "dt_microsecond d \<noteq> 0"
    using us by (simp add: get_nearest_date_microsecond)
  have miss: "ttl_get (predictions t) now (d, pykey chat_id, pykey delta) = None"
    if "prediction_keys_whole_minutes t" for t
    using that dus unfolding prediction_keys_whole_minutes_def
    by (intro ttl_get_None_if_no_key) auto
  from res d miss[OF inv] obtain a b where
    "get_predictions_from_db s db now a b = Inr s'"
    and r: "r = ttl_get (predictions s') now (d, pykey chat_id, pykey delta)"
    by (auto simp: get_prediction_def split: sum.splits)
  then have "prediction_keys_whole_minutes s'"
    using inv get_predictions_from_db_inv by blast
  then show ?thesis using r miss by simp
qed

lemma set_alist_update:
  "(k, v) \<in> set (AList.update k' v' al) \<Longrightarrow> (k, v) = (k', v') \<or> (k, v) \<in> set al"
  by (induction al) (auto split: if_splits)

lemma fst_set_alist_update: "fst ` set (AList.update k v al) = insert k (fst ` set al)"
  by (simp add: dom_update)

lemma fold_scan_mem:
  "(k, v) \<in> set (fold (scan_step date c d m) items acc) \<Longrightarrow>
     (k, v) \<in> set acc \<or>
     (\<exists>row. (row, v) \<in> set items \<and> statistic_key_matches date c d m row \<and> fst (snd row) = k)"
proof (induction items arbitrary: acc)
  case Nil
  then show ?case by simp
next
  case (Cons it items)
  obtain row val where it: "it = (row, val)" by (cases it)
  from Cons.prems have "(k, v) \<in> set (fold (scan_step date c d m) items (scan_step date c d m it acc))"
    by simp
  from Cons.IH[OF this] show ?case
  proof
    assume a: "(k, v) \<in> set (scan_step date c d m it acc)"
    show ?thesis
    proof (cases "statistic_key_matches date c d m row")
      case True
      with a it have "(k, v) \<in> set (AList.update (fst (snd row)) val acc)"
        by (simp add: scan_step_def)
      then have "(k, v) = (fst (snd row), val) \<or> (k, v) \<in> set acc"
        by (rule set_alist_update)
      then show ?thesis
      proof
        assume "(k, v) = (fst (snd row), val)"
        then have "(row, v) \<in> set (it # items)" and "fst (snd row) = k"
          using it by simp_all
        with True show ?thesis by blast
      next
        assume "(k, v) \<in> set acc"
        then show ?thesis by blast
      qed
    next
      case False
      with a it show ?thesis by (simp add: scan_step_def)
    qed
  next
    assume "\<exists>row. (row, v) \<in> set items \<and> statistic_key_matches date c d m row \<and> fst (snd row) = k"
    then show ?thesis by auto
  qed
qed

lemma fold_scan_keys:
  "fst ` set (fold (scan_step date c d m) items acc) =
     fst ` set acc \<union> (\<lambda>(row, v). fst (snd row)) ` {x \<in> set items. statistic_key_matches date c d m (fst x)}"
proof (induction items arbitrary: acc)
  case Nil
  then show ?case by simp
next
  case (Cons it items)
  obtain row val where it: "it = (row, val)" by (cases it)
  show ?case
    unfolding fold_simps Cons.IH
    using it by (auto simp: scan_step_def fst_set_alist_update)
qed

lemma sorted_le_last: "sorted xs \<Longrightarrow> x \<in> set xs \<Longrightarrow> x \<le> last xs"
  by (induction xs) auto

lemma last_sort_key_max:
  assumes "xs \<noteq> []"
  shows "last (sort_key f xs) \<in> set xs \<and> (\<forall>x \<in> set xs. f x \<le> f (last (sort_key f xs)))"
proof -
  let ?ys = "sort_key f xs"
  have ne: "?ys \<noteq> []" using assms by (metis length_0_conv length_sort)
  then have "last ?ys \<in> set ?ys" by (rule last_in_set)
  then have mem: "last ?ys \<in> set xs" using set_sort[of f xs] by blast
  have srt: "sorted (map f ?ys)" by (rule sorted_sort_key)
  have "f x \<le> f (last ?ys)" if "x \<in> set xs" for x
  proof -
    from that have "f x \<in> set (map f ?ys)" by simp
    from sorted_le_last[OF srt this] show ?thesis using ne by (simp add: last_map)
  qed
  with mem show ?thesis by blast
qed

lemma get_latest_statistics_None:
  "get_latest_statistics cache now date c d m = None \<longleftrightarrow>
     (\<forall>(row, v) \<in> set (ttl_items cache now). \<not> statistic_key_matches date c d m row)"
proof -
  let ?rows = "fold (scan_step date c d m) (ttl_items cache now) []"
  have "?rows = [] \<longleftrightarrow> fst ` set ?rows = {}" by simp
  also have "\<dots> \<longleftrightarrow> {x \<in> set (ttl_items cache now). statistic_key_matches date c d m (fst x)} = {}"
    by (simp add: fold_scan_keys)
  also have "\<dots> \<longleftrightarrow> (\<forall>x \<in> set (ttl_items cache now). \<not> statistic_key_matches date c d m (fst x))"
    by blast
  finally have "?rows = [] \<longleftrightarrow>
      (\<forall>(row, v) \<in> set (ttl_items cache now). \<not> statistic_key_matches date c d m row)"
    by (simp add: case_prod_beta)
  then show ?thesis
    by (simp add: get_latest_statistics_def scan_step_def Let_def)
qed

lemma get_latest_statistics_Some:
  assumes "get_latest_statistics cache now date c d m = Some v"
  shows "\<exists>row. (row, v) \<in> set (ttl_items cache now) \<and> statistic_key_matches date c d m row \<and>
           (\<forall>(row', v') \<in> set (ttl_items cache now).
               statistic_key_matches date c d m row' \<longrightarrow> fst (snd row') \<le> fst (snd row))"
proof -
  let ?rows = "fold (scan_step date c d m) (ttl_items cache now) []"
  from assms have ne: "?rows \<noteq> []" and v: "v = snd (last (sort_key fst ?rows))"
    by (auto simp: get_latest_statistics_def scan_step_def Let_def split: if_splits)
  obtain k where kv: "last (sort_key fst ?rows) = (k, v)"
    using v by (cases "last (sort_key fst ?rows)") simp
  from last_sort_key_max[OF ne, of fst] kv
  have mem: "(k, v) \<in> set ?rows" and mx: "\<forall>x \<in> set ?rows. fst x \<le> k" by auto
  from fold_scan_mem[OF mem] obtain row where row: "(row, v) \<in> set (ttl_items cache now)"
    "statistic_key_matches date c d m row" "fst (snd row) = k" by auto
  have "fst (snd row') \<le> k"
    if "(row', v') \<in> set (ttl_items cache now)" "statistic_key_matches date c d m row'" for row' v'
  proof -
    from that have "fst (snd row') \<in> fst ` set ?rows"
      unfolding fold_scan_keys by force
    with mx show ?thesis by auto
  qed
  with row show ?thesis by blast
qed


lemma ttl_setitems_ok:
  "0 < maxsize c \<Longrightarrow> \<exists>c'. ttl_setitems c now kvs = Inr c' \<and> maxsize c' = maxsize c"
proof (induction kvs arbitrary: c)
  case Nil
  then show ?case by simp
next
  case (Cons kv kvs)
  obtain k v where kv: "kv = (k, v)" by (cases kv)
  from Cons.prems obtain c1 where c1: "ttl_setitem c now k v = Inr c1" "maxsize c1 = maxsize c"
    by (auto simp: ttl_setitem_def Let_def)
  with Cons.prems have "0 < maxsize c1" by simp
  from Cons.IH[OF this] c1 kv show ?case by auto
qed

lemma dt_minute_range: "0 \<le> dt_minute t \<and> dt_minute t \<le> 59"
  by (simp add: dt_minute_def)

lemma dt_second_range: "0 \<le> dt_second t \<and> dt_second t \<le> 59"
  by (simp add: dt_second_def)

lemma get_nearest_date_ok:
  assumes "0 < prediction_step s"
  shows "\<exists>d. get_nearest_date s date = Inr d \<and> date - 3599000000 \<le> d \<and> d \<le> date"
proof -
  let ?m = "dt_minute date" and ?sec = "dt_second date"
  let ?sub = "?m mod prediction_step s"
  have m: "0 \<le> ?m" "?m \<le> 59" using dt_minute_range by auto
  have sec: "0 \<le> ?sec" "?sec \<le> 59" using dt_second_range by auto
  have sub: "0 \<le> ?sub" "?sub \<le> ?m"
    using assms m by (auto simp: zmod_le_nonneg_dividend)
  have rng: "0 \<le> ?m - ?sub" "?m - ?sub \<le> 59" using m sub by linarith+
  have eq: "get_nearest_date s date = Inr (date - ?m * 60000000 - ?sec * 1000000 + (?m - ?sub) * 60000000 + 0 * 1000000)"
    using assms rng by (simp add: get_nearest_date_def Let_def replace_minute_second_def)
  have "date - ?m * 60000000 - ?sec * 1000000 + (?m - ?sub) * 60000000 + 0 * 1000000
          = date - ?sub * 60000000 - ?sec * 1000000"
    by (simp add: algebra_simps)
  moreover have "date - 3599000000 \<le> date - ?sub * 60000000 - ?sec * 1000000"
    using sub m sec by linarith
  moreover have "date - ?sub * 60000000 - ?sec * 1000000 \<le> date"
    using sub sec by linarith
  ultimately show ?thesis using eq by simp
qed

lemma get_predictions_from_db_ok:
  "0 < maxsize (predictions s) \<Longrightarrow> \<exists>s'. get_predictions_from_db s db now a b = Inr s'"
proof -
  assume "0 < maxsize (predictions s)"
  from ttl_setitems_ok[OF this] show ?thesis
    unfolding get_predictions_from_db_def Let_def
    by (metis (no_types, lifting) sum.simps(6))
qed

lemma get_prediction_ok:
  assumes "0 < prediction_step s" and "0 \<le> cache_big_update_window s"
    and "3600000000 + cache_big_update_window s \<le> date"
    and "date + cache_big_update_window s \<le> dt_max"
    and "0 < maxsize (predictions s)"
  shows "\<exists>r s'. get_prediction s db now date chat_id delta = Inr (r, s')"
proof -
  from get_nearest_date_ok[OF assms(1), of date] obtain d where
    d: "get_nearest_date s date = Inr d" "date - 3599000000 \<le> d" "d \<le> date" by blast
  let ?w = "cache_big_update_window s"
  have a: "dt_add d (- ?w) = Inr (d - ?w)" using assms d by (simp add: dt_add_def)
  have b: "dt_add d ?w = Inr (d + ?w)" using assms d by (simp add: dt_add_def)
  from get_predictions_from_db_ok[OF assms(5), of db now "d - ?w" "d + ?w"]
  obtain s1 where "get_predictions_from_db s db now (d - ?w) (d + ?w) = Inr s1" by blast
  with d a b show ?thesis
    by (simp add: get_prediction_def split: option.splits)
qed


lemma get_prediction_cases:
  assumes "get_prediction s db now date chat_id delta = Inr (r, s')"
  shows "\<exists>d. get_nearest_date s date = Inr d \<and>
           ((r \<noteq> None \<and> r = ttl_get (predictions s) now (d, pykey chat_id, pykey delta) \<and> s' = s) \<or>
            (ttl_get (predictions s) now (d, pykey chat_id, pykey delta) = None \<and>
             r = ttl_get (predictions s') now (d, pykey chat_id, pykey delta) \<and>
             (\<exists>a b. queries s' = queries s @ [QueryPredictions a b])))"
proof -
  from assms obtain d where d: "get_nearest_date s date = Inr d"
    by (auto simp: get_prediction_def split: sum.splits)
  show ?thesis
  proof (cases "ttl_get (predictions s) now (d, pykey chat_id, pykey delta)")
    case None
    with assms d show ?thesis
      by (auto simp: get_prediction_def get_predictions_from_db_def Let_def split: sum.splits)
  next
    case (Some p)
    with assms d have "r = Some p" and "s' = s"
      by (simp_all add: get_prediction_def)
    with Some d show ?thesis by simp
  qed
qed

lemma get_statistics_cases:
  assumes "get_statistics s db now date chat_id delta metric = Inr (r, s')"
  shows "(r \<noteq> None \<and> r = get_latest_statistics (statistics s) now date chat_id delta metric \<and> s' = s) \<or>
         (get_latest_statistics (statistics s) now date chat_id delta metric = None \<and>
          r = get_latest_statistics (statistics s') now date chat_id delta metric \<and>
          queries s' = queries s @ [QueryStatistics date])"
proof (cases "get_latest_statistics (statistics s) now date chat_id delta metric")
  case None
  with assms show ?thesis
    by (auto simp: get_statistics_def get_statistics_from_db_def Let_def split: sum.splits)
next
  case (Some v)
  with assms have "r = Some v" and "s' = s"
    by (simp_all add: get_statistics_def)
  with Some show ?thesis by simp
qed

lemma get_coefficients_cases:
  assumes "get_coefficients s db now chat_id = Inr (r, s')"
  shows "(r \<noteq> None \<and> r = ttl_get (coefficients s) now (pykey chat_id) \<and> s' = s) \<or>
         (ttl_get (coefficients s) now (pykey chat_id) = None \<and>
          r = ttl_get (coefficients s') now (pykey chat_id) \<and>
          queries s' = queries s @ [QueryCoefficients])"
proof (cases "ttl_get (coefficients s) now (pykey chat_id)")
  case None
  with assms show ?thesis
    by (auto simp: get_coefficients_def get_coefficients_from_db_def Let_def split: sum.splits)
next
  case (Some v)
  with assms have "r = Some v" and "s' = s"
    by (simp_all add: get_coefficients_def)
  with Some show ?thesis by simp
qed

section \<open>Claims about the cache\<close>


text \<open>
  C4. A call of \<open>get_prediction\<close>, \<open>get_statistics\<close> or \<open>get_coefficients\<close> that returns
  has either found its entry in the cache and sent no query to the store, or has missed,
  sent exactly one query and returned the result of the one re-check of the refilled
  cache, which is absent when the re-check misses.
\<close>

theorem at_most_one_refill:
  "(get_prediction s db now date chat_id delta = Inr (r1, s1) \<longrightarrow>
      (\<exists>d. get_nearest_date s date = Inr d \<and>
         ((r1 \<noteq> None \<and> queries s1 = queries s) \<or>
          (r1 = ttl_get (predictions s1) now (d, pykey chat_id, pykey delta) \<and>
           (\<exists>a b. queries s1 = queries s @ [QueryPredictions a b]))))) \<and>
   (get_statistics s db now date chat_id delta metric = Inr (r2, s2) \<longrightarrow>
      (r2 \<noteq> None \<and> queries s2 = queries s) \<or>
      (r2 = get_latest_statistics (statistics s2) now date chat_id delta metric \<and>
       queries s2 = queries s @ [QueryStatistics date])) \<and>
   (get_coefficients s db now chat_id = Inr (r3, s3) \<longrightarrow>
      (r3 \<noteq> None \<and> queries s3 = queries s) \<or>
      (r3 = ttl_get (coefficients s3) now (pykey chat_id) \<and>
       queries s3 = queries s @ [QueryCoefficients]))"
proof (intro conjI impI)
  assume "get_prediction s db now date chat_id delta = Inr (r1, s1)"
  from get_prediction_cases[OF this]
  show "\<exists>d. get_nearest_date s date = Inr d \<and>
         ((r1 \<noteq> None \<and> queries s1 = queries s) \<or>
          (r1 = ttl_get (predictions s1) now (d, pykey chat_id, pykey delta) \<and>
           (\<exists>a b. queries s1 = queries s @ [QueryPredictions a b])))"
    by blast
next
  assume "get_statistics s db now date chat_id delta metric = Inr (r2, s2)"
  from get_statistics_cases[OF this]
  show "(r2 \<noteq> None \<and> queries s2 = queries s) \<or>
      (r2 = get_latest_statistics (statistics s2) now date chat_id delta metric \<and>
       queries s2 = queries s @ [QueryStatistics date])"
    by blast
next
  assume "get_coefficients s db now chat_id = Inr (r3, s3)"
  from get_coefficients_cases[OF this]
  show "(r3 \<noteq> None \<and> queries s3 = queries s) \<or>
      (r3 = ttl_get (coefficients s3) now (pykey chat_id) \<and>
       queries s3 = queries s @ [QueryCoefficients])"
    by blast
qed

lemma example_get_prediction_miss:
  "\<exists>s'. get_prediction example_cache example_db 0 63839700733000250 (PInt 7) (PInt 60)
          = Inr (None, s')"
  by (simp add: get_prediction_def example_cache_def example_db_def get_nearest_date_def
        dt_minute_def dt_second_def Let_def replace_minute_second_def ttl_get_def dt_add_def
        dt_max_def get_predictions_from_db_def ttl_setitem_def
        replace_second_microsecond_zero_def dt_microsecond_def)

lemma example_get_statistics_miss:
  "\<exists>s'. get_statistics example_cache example_db 0 63839700733000000 (PInt 8) (PInt 60)
          (PStr ''views'') = Inr (None, s')"
  by (simp add: get_statistics_def example_cache_def example_db_def get_latest_statistics_def
        scan_step_def ttl_items_def statistic_key_matches_def py_eq_def Let_def
        get_statistics_from_db_def ttl_setitem_def)

lemma example_get_coefficients_miss:
  "\<exists>s'. get_coefficients example_cache example_db 0 (PInt 8) = Inr (None, s')"
  by (simp add: get_coefficients_def example_cache_def example_db_def Let_def ttl_get_def
        get_coefficients_from_db_def ttl_setitem_def)

theorem at_most_one_refill_witness:
  "(\<exists>s1. get_prediction example_cache example_db 0 63839700733000250 (PInt 7) (PInt 60)
            = Inr (None, s1) \<and>
          (\<exists>a b. queries s1 = queries example_cache @ [QueryPredictions a b])) \<and>
   (\<exists>s2. get_statistics example_cache example_db 0 63839700733000000 (PInt 8) (PInt 60)
            (PStr ''views'') = Inr (None, s2) \<and>
          queries s2 = queries example_cache @ [QueryStatistics 63839700733000000]) \<and>
   (\<exists>s3. get_coefficients example_cache example_db 0 (PInt 8) = Inr (None, s3) \<and>
          queries s3 = queries example_cache @ [QueryCoefficients])"
proof -
  obtain s1 where h1: "get_prediction example_cache example_db 0 63839700733000250
      (PInt 7) (PInt 60) = Inr (None, s1)"
    using example_get_prediction_miss by blast
  obtain s2 where h2: "get_statistics example_cache example_db 0 63839700733000000
      (PInt 8) (PInt 60) (PStr ''views'') = Inr (None, s2)"
    using example_get_statistics_miss by blast
  obtain s3 where h3: "get_coefficients example_cache example_db 0 (PInt 8) = Inr (None, s3)"
    using example_get_coefficients_miss by blast
  note inst1 = at_most_one_refill[of example_cache example_db 0 63839700733000250 "PInt 7"
      "PInt 60" None s1 "PStr ''views''" None s2 None s3]
  note inst2 = at_most_one_refill[of example_cache example_db 0 63839700733000000 "PInt 8"
      "PInt 60" None s1 "PStr ''views''" None s2 None s3]
  from inst1 h1 have c1: "\<exists>a b. queries s1 = queries example_cache @ [QueryPredictions a b]"
    by blast
  from inst2 h2 have c2: "queries s2 = queries example_cache @ [QueryStatistics 63839700733000000]"
    by blast
  from inst2 h3 have c3: "queries s3 = queries example_cache @ [QueryCoefficients]"
    by blast
  from h1 h2 h3 c1 c2 c3 show ?thesis by blast
qed

lemma get_statistics_from_db_predictions:
  "get_statistics_from_db s db now date = Inr s' \<Longrightarrow> predictions s' = predictions s"
  by (auto simp: get_statistics_from_db_def Let_def split: sum.splits)

lemma get_coefficients_from_db_predictions:
  "get_coefficients_from_db s db now = Inr s' \<Longrightarrow> predictions s' = predictions s"
  by (auto simp: get_coefficients_from_db_def split: sum.splits)

lemma init_keys_whole_minutes:
  assumes "init db wall now step big_size big_window big_ret small_size small_ret = Inr s"
  shows "prediction_keys_whole_minutes s"
proof -
  define s0 where "s0 = \<lparr>prediction_step = step,
                 cache_big_update_window = big_window,
                 predictions = \<lparr>maxsize = big_size, ttl = big_ret, links = []\<rparr>,
                 statistics = \<lparr>maxsize = small_size, ttl = small_ret, links = []\<rparr>,
                 coefficients = \<lparr>maxsize = small_size, ttl = small_ret, links = []\<rparr>,
                 queries = []\<rparr>"
  have inv0: "prediction_keys_whole_minutes s0"
    by (simp add: prediction_keys_whole_minutes_def s0_def)
  from assms obtain a b s1 s2 where
    s1: "get_predictions_from_db s0 db now a b = Inr s1"
    and s2: "get_statistics_from_db s1 db now wall = Inr s2"
    and s: "get_coefficients_from_db s2 db now = Inr s"
    unfolding init_def Let_def s0_def[symmetric]
    by (auto split: sum.splits)
  from get_predictions_from_db_inv[OF inv0 s1] have "prediction_keys_whole_minutes s1" .
  then show ?thesis
    using get_statistics_from_db_predictions[OF s2] get_coefficients_from_db_predictions[OF s]
    by (simp add: prediction_keys_whole_minutes_def)
qed

lemma get_prediction_keeps_whole_minutes:
  assumes "prediction_keys_whole_minutes s"
    and "get_prediction s db now date chat_id delta = Inr (r, s')"
  shows "prediction_keys_whole_minutes s'"
proof -
  from get_prediction_cases[OF assms(2)] obtain d where
    d: "get_nearest_date s date = Inr d" by blast
  show ?thesis
  proof (cases "ttl_get (predictions s) now (d, pykey chat_id, pykey delta)")
    case (Some p)
    with assms(2) d have "s' = s" by (simp add: get_prediction_def)
    with assms(1) show ?thesis by simp
  next
    case None
    with assms(2) d obtain a b where "get_predictions_from_db s db now a b = Inr s'"
      by (auto simp: get_prediction_def split: sum.splits)
    from get_predictions_from_db_inv[OF assms(1) this] show ?thesis .
  qed
qed

text \<open>
  C10. When the date of a call of \<open>get_prediction\<close> carries microseconds, the key that
  \<open>_get_nearest_date\<close> builds keeps them, while every key that a refill inserts has
  zero microseconds (as every key of a cache that was only ever filled by refills has).
  So the call never returns a prediction; where it returns, which it does for a positive
  step, a window that keeps the dates in range and a cache of positive capacity, it
  returns absent, whatever rows the store holds.
\<close>

theorem get_prediction_microseconds_absent:
  assumes "prediction_keys_whole_minutes s" and "dt_microsecond date \<noteq> 0"
  shows "(\<forall>d. get_nearest_date s date = Inr d \<longrightarrow> dt_microsecond d = dt_microsecond date) \<and>
         (\<forall>a b s1. get_predictions_from_db s db now a b = Inr s1
                     \<longrightarrow> prediction_keys_whole_minutes s1) \<and>
         (\<forall>r s'. get_prediction s db now date chat_id delta = Inr (r, s') \<longrightarrow> r = None) \<and>
         (0 < prediction_step s \<and> 0 \<le> cache_big_update_window s \<and>
          3600000000 + cache_big_update_window s \<le> date \<and>
          date + cache_big_update_window s \<le> dt_max \<and> 0 < maxsize (predictions s)
            \<longrightarrow> (\<exists>s'. get_prediction s db now date chat_id delta = Inr (None, s')))"
proof (intro conjI allI impI)
  fix d assume "get_nearest_date s date = Inr d"
  then show "dt_microsecond d = dt_microsecond date"
    by (rule get_nearest_date_microsecond)
next
  fix a b s1 assume "get_predictions_from_db s db now a b = Inr s1"
  with assms(1) show "prediction_keys_whole_minutes s1"
    by (rule get_predictions_from_db_inv)
next
  fix r s' assume "get_prediction s db now date chat_id delta = Inr (r, s')"
  with assms show "r = None"
    by (rule get_prediction_microsecond_miss)
next
  assume ok: "0 < prediction_step s \<and> 0 \<le> cache_big_update_window s \<and>
          3600000000 + cache_big_update_window s \<le> date \<and>
          date + cache_big_update_window s \<le> dt_max \<and> 0 < maxsize (predictions s)"
  then obtain r s' where res: "get_prediction s db now date chat_id delta = Inr (r, s')"
    using get_prediction_ok[of s date db now chat_id delta] by blast
  with assms have "r = None" by (rule get_prediction_microsecond_miss)
  with res show "\<exists>s'. get_prediction s db now date chat_id delta = Inr (None, s')"
    by blast
qed

lemma example_cache_warm_hit:
  "get_prediction example_cache_warm example_db 0 63839700733000000 (PInt 7) (PInt 60)
     = Inr (Some [(''views'', PInt 100), (''views_upper'', PInt 150)], example_cache_warm)"
  by (simp add: get_prediction_def example_cache_warm_def example_cache_def
        get_nearest_date_def dt_minute_def dt_second_def Let_def replace_minute_second_def
        ttl_get_def)

theorem get_prediction_microseconds_absent_witness:
  "prediction_keys_whole_minutes example_cache_warm \<and>
   dt_microsecond 63839700733000250 \<noteq> 0 \<and>
   (\<exists>s'. get_prediction example_cache_warm example_db 0 63839700733000250 (PInt 7) (PInt 60)
           = Inr (None, s'))"
proof -
  have inv: "prediction_keys_whole_minutes example_cache_warm"
    by (simp add: prediction_keys_whole_minutes_def example_cache_warm_def example_cache_def
          dt_microsecond_def)
  have us: "dt_microsecond 63839700733000250 \<noteq> 0"
    by (simp add: dt_microsecond_def)
  have ok: "0 < prediction_step example_cache_warm \<and>
      0 \<le> cache_big_update_window example_cache_warm \<and>
      3600000000 + cache_big_update_window example_cache_warm \<le> 63839700733000250 \<and>
      63839700733000250 + cache_big_update_window example_cache_warm \<le> dt_max \<and>
      0 < maxsize (predictions example_cache_warm)"
    by (simp add: example_cache_warm_def example_cache_def dt_max_def)
  from get_prediction_microseconds_absent[OF inv us, of example_db 0 "PInt 7" "PInt 60"] ok
  have "\<exists>s'. get_prediction example_cache_warm example_db 0 63839700733000250
                (PInt 7) (PInt 60) = Inr (None, s')"
    by blast
  with inv us show ?thesis by blast
qed


lemma statistic_key_matches_iff:
  "statistic_key_matches date chat_id delta metric (ws, we, c, d, m) \<longleftrightarrow>
     ws < date \<and> date < we \<and> py_eq c chat_id \<and> py_eq d delta \<and> py_eq m metric"
  by (simp add: statistic_key_matches_def)

lemma no_match_iff:
  "(\<forall>(row, v) \<in> S. \<not> statistic_key_matches date chat_id delta metric row) \<longleftrightarrow>
   \<not> (\<exists>ws we c d m v. ((ws, we, c, d, m), v) \<in> S \<and>
             ws < date \<and> date < we \<and> py_eq c chat_id \<and> py_eq d delta \<and> py_eq m metric)"
proof
  assume a: "\<forall>(row, v) \<in> S. \<not> statistic_key_matches date chat_id delta metric row"
  show "\<not> (\<exists>ws we c d m v. ((ws, we, c, d, m), v) \<in> S \<and>
             ws < date \<and> date < we \<and> py_eq c chat_id \<and> py_eq d delta \<and> py_eq m metric)"
  proof (intro notI, elim exE conjE)
    fix ws we c d m v
    assume mem: "((ws, we, c, d, m), v) \<in> S"
      and q: "ws < date" "date < we" "py_eq c chat_id" "py_eq d delta" "py_eq m metric"
    from bspec[OF a mem] have "\<not> statistic_key_matches date chat_id delta metric (ws, we, c, d, m)"
      by simp
    with q show False by (simp add: statistic_key_matches_iff)
  qed
next
  assume b: "\<not> (\<exists>ws we c d m v. ((ws, we, c, d, m), v) \<in> S \<and>
             ws < date \<and> date < we \<and> py_eq c chat_id \<and> py_eq d delta \<and> py_eq m metric)"
  show "\<forall>(row, v) \<in> S. \<not> statistic_key_matches date chat_id delta metric row"
  proof
    fix x assume x: "x \<in> S"
    obtain row v where xr: "x = (row, v)" by (cases x)
    obtain ws we c d m where row: "row = (ws, we, c, d, m)" by (cases row rule: prod_cases5)
    have "\<not> (ws < date \<and> date < we \<and> py_eq c chat_id \<and> py_eq d delta \<and> py_eq m metric)"
    proof
      assume "ws < date \<and> date < we \<and> py_eq c chat_id \<and> py_eq d delta \<and> py_eq m metric"
      with x xr row have "\<exists>ws we c d m v. ((ws, we, c, d, m), v) \<in> S \<and>
             ws < date \<and> date < we \<and> py_eq c chat_id \<and> py_eq d delta \<and> py_eq m metric"
        by (intro exI[of _ ws] exI[of _ we] exI[of _ c] exI[of _ d] exI[of _ m] exI[of _ v]) simp
      with b show False ..
    qed
    then show "case x of (row, v) \<Rightarrow> \<not> statistic_key_matches date chat_id delta metric row"
      by (simp add: xr row statistic_key_matches_iff)
  qed
qed

lemma latest_window_expanded:
  assumes "get_latest_statistics cache now date chat_id delta metric = Some v"
  shows "\<exists>ws we c d m.
                ((ws, we, c, d, m), v) \<in> set (ttl_items cache now) \<and>
                ws < date \<and> date < we \<and>
                py_eq c chat_id \<and> py_eq d delta \<and> py_eq m metric \<and>
                (\<forall>ws' we' c' d' m' v'.
                    ((ws', we', c', d', m'), v') \<in> set (ttl_items cache now) \<and>
                    ws' < date \<and> date < we' \<and>
                    py_eq c' chat_id \<and> py_eq d' delta \<and> py_eq m' metric
                    \<longrightarrow> we' \<le> we)"
proof -
  let ?items = "ttl_items cache now"
  from get_latest_statistics_Some[OF assms] obtain row where
    mem: "(row, v) \<in> set ?items"
    and q: "statistic_key_matches date chat_id delta metric row"
    and mx: "\<forall>(row', v') \<in> set ?items.
               statistic_key_matches date chat_id delta metric row'
               \<longrightarrow> fst (snd row') \<le> fst (snd row)"
    by (elim exE conjE)
  obtain ws we c d m where row: "row = (ws, we, c, d, m)" by (cases row rule: prod_cases5)
  have q': "ws < date \<and> date < we \<and> py_eq c chat_id \<and> py_eq d delta \<and> py_eq m metric"
    using q by (simp add: row statistic_key_matches_iff)
  have mx': "\<forall>ws' we' c' d' m' v'.
                    ((ws', we', c', d', m'), v') \<in> set ?items \<and>
                    ws' < date \<and> date < we' \<and>
                    py_eq c' chat_id \<and> py_eq d' delta \<and> py_eq m' metric
                    \<longrightarrow> we' \<le> we"
  proof (intro allI impI, elim conjE)
    fix ws' we' c' d' m' v'
    assume mem': "((ws', we', c', d', m'), v') \<in> set ?items"
      and q2: "ws' < date" "date < we'" "py_eq c' chat_id" "py_eq d' delta" "py_eq m' metric"
    from q2 have "statistic_key_matches date chat_id delta metric (ws', we', c', d', m')"
      by (simp add: statistic_key_matches_iff)
    with bspec[OF mx mem'] show "we' \<le> we" by (simp add: row)
  qed
  from mem q' mx' show ?thesis
    unfolding row
    by (intro exI[of _ ws] exI[of _ we] exI[of _ c] exI[of _ d] exI[of _ m] conjI) simp_all
qed

lemma get_statistics_is_scan:
  assumes "get_statistics s db now date chat_id delta metric = Inr (r, s')"
  shows "r = get_latest_statistics (statistics s') now date chat_id delta metric"
  using get_statistics_cases[OF assms] by auto

text \<open>
  C7. A call of \<open>get_statistics\<close> that returns gives the result of the scan of the
  statistics cache as the call leaves it. An entry of the cache that has not expired
  qualifies exactly when its window holds the date strictly inside
  (\<open>window_start < date < window_end\<close>) and its source, delta and metric equal the
  arguments. The call returns absent exactly when no entry qualifies, and otherwise the
  value of a qualifying entry whose window ends no earlier than that of any qualifying
  entry.
\<close>

theorem get_statistics_latest_window:
  assumes "get_statistics s db now date chat_id delta metric = Inr (r, s')"
  shows "(r = None \<longleftrightarrow>
            \<not> (\<exists>ws we c d m v.
                   ((ws, we, c, d, m), v) \<in> set (ttl_items (statistics s') now) \<and>
                   ws < date \<and> date < we \<and>
                   py_eq c chat_id \<and> py_eq d delta \<and> py_eq m metric)) \<and>
         (\<forall>v. r = Some v \<longrightarrow>
            (\<exists>ws we c d m.
                ((ws, we, c, d, m), v) \<in> set (ttl_items (statistics s') now) \<and>
                ws < date \<and> date < we \<and>
                py_eq c chat_id \<and> py_eq d delta \<and> py_eq m metric \<and>
                (\<forall>ws' we' c' d' m' v'.
                    ((ws', we', c', d', m'), v') \<in> set (ttl_items (statistics s') now) \<and>
                    ws' < date \<and> date < we' \<and>
                    py_eq c' chat_id \<and> py_eq d' delta \<and> py_eq m' metric
                    \<longrightarrow> we' \<le> we)))"
proof -
  have r: "r = get_latest_statistics (statistics s') now date chat_id delta metric"
    using assms by (rule get_statistics_is_scan)
  have none: "r = None \<longleftrightarrow>
      \<not> (\<exists>ws we c d m v. ((ws, we, c, d, m), v) \<in> set (ttl_items (statistics s') now) \<and>
             ws < date \<and> date < we \<and> py_eq c chat_id \<and> py_eq d delta \<and> py_eq m metric)"
    unfolding r get_latest_statistics_None by (rule no_match_iff)
  have some: "\<forall>v. r = Some v \<longrightarrow>
            (\<exists>ws we c d m.
                ((ws, we, c, d, m), v) \<in> set (ttl_items (statistics s') now) \<and>
                ws < date \<and> date < we \<and>
                py_eq c chat_id \<and> py_eq d delta \<and> py_eq m metric \<and>
                (\<forall>ws' we' c' d' m' v'.
                    ((ws', we', c', d', m'), v') \<in> set (ttl_items (statistics s') now) \<and>
                    ws' < date \<and> date < we' \<and>
                    py_eq c' chat_id \<and> py_eq d' delta \<and> py_eq m' metric
                    \<longrightarrow> we' \<le> we))"
  proof (intro allI impI)
    fix v assume "r = Some v"
    with r have "get_latest_statistics (statistics s') now date chat_id delta metric = Some v"
      by simp
    then show "\<exists>ws we c d m.
                ((ws, we, c, d, m), v) \<in> set (ttl_items (statistics s') now) \<and>
                ws < date \<and> date < we \<and>
                py_eq c chat_id \<and> py_eq d delta \<and> py_eq m metric \<and>
                (\<forall>ws' we' c' d' m' v'.
                    ((ws', we', c', d', m'), v') \<in> set (ttl_items (statistics s') now) \<and>
                    ws' < date \<and> date < we' \<and>
                    py_eq c' chat_id \<and> py_eq d' delta \<and> py_eq m' metric
                    \<longrightarrow> we' \<le> we)"
      by (rule latest_window_expanded)
  qed
  from none some show ?thesis by (rule conjI)
qed

lemma example_two_windows_lookup:
  "get_statistics example_cache_two_windows example_db 0 63839700733000000
       (PInt 7) (PInt 60) (PStr ''views'')
     = Inr (Some [(''mean'', PFloat 2), (''std'', PFloat 1)], example_cache_two_windows)"
  by (simp add: get_statistics_def example_cache_two_windows_def example_cache_def
        get_latest_statistics_def scan_step_def ttl_items_def statistic_key_matches_def
        py_eq_def Let_def)

theorem get_statistics_latest_window_witness:
  "get_statistics example_cache_two_windows example_db 0 63839700733000000
       (PInt 7) (PInt 60) (PStr ''views'')
     = Inr (Some [(''mean'', PFloat 2), (''std'', PFloat 1)], example_cache_two_windows) \<and>
   (\<exists>ws we c d m.
       ((ws, we, c, d, m), [(''mean'', PFloat 2), (''std'', PFloat 1)])
          \<in> set (ttl_items (statistics example_cache_two_windows) 0) \<and>
       ws < 63839700733000000 \<and> 63839700733000000 < we \<and>
       py_eq c (PInt 7) \<and> py_eq d (PInt 60) \<and> py_eq m (PStr ''views'') \<and>
       63839703600000000 \<le> we)"
proof -
  have h: "get_statistics example_cache_two_windows example_db 0 63839700733000000
       (PInt 7) (PInt 60) (PStr ''views'')
     = Inr (Some [(''mean'', PFloat 2), (''std'', PFloat 1)], example_cache_two_windows)"
    by (rule example_two_windows_lookup)
  have other: "((63839700000000000, 63839703600000000, PInt 7, PInt 60, PStr ''views''),
                [(''mean'', PFloat 1), (''std'', PFloat 0.5)])
                 \<in> set (ttl_items (statistics example_cache_two_windows) 0) \<and>
               63839700000000000 < (63839700733000000::int) \<and>
               (63839700733000000::int) < 63839703600000000 \<and>
               py_eq (PInt 7) (PInt 7) \<and> py_eq (PInt 60) (PInt 60) \<and>
               py_eq (PStr ''views'') (PStr ''views'')"
    by (simp add: example_cache_two_windows_def example_cache_def ttl_items_def py_eq_def)
  from get_statistics_latest_window[OF h, THEN conjunct2, rule_format, OF refl]
  obtain ws we c d m where
    sel: "((ws, we, c, d, m), [(''mean'', PFloat 2), (''std'', PFloat 1)])
            \<in> set (ttl_items (statistics example_cache_two_windows) 0) \<and>
      ws < 63839700733000000 \<and> 63839700733000000 < we \<and>
      py_eq c (PInt 7) \<and> py_eq d (PInt 60) \<and> py_eq m (PStr ''views'')"
    and mx: "\<forall>ws' we' c' d' m' v'.
        ((ws', we', c', d', m'), v') \<in> set (ttl_items (statistics example_cache_two_windows) 0) \<and>
        ws' < 63839700733000000 \<and> 63839700733000000 < we' \<and>
        py_eq c' (PInt 7) \<and> py_eq d' (PInt 60) \<and> py_eq m' (PStr ''views'')
        \<longrightarrow> we' \<le> we"
    by (elim exE conjE) simp
  from mx[rule_format, OF other] have late: "63839703600000000 \<le> we" .
  from sel late have "\<exists>ws we c d m.
       ((ws, we, c, d, m), [(''mean'', PFloat 2), (''std'', PFloat 1)])
          \<in> set (ttl_items (statistics example_cache_two_windows) 0) \<and>
       ws < 63839700733000000 \<and> 63839700733000000 < we \<and>
       py_eq c (PInt 7) \<and> py_eq d (PInt 60) \<and> py_eq m (PStr ''views'') \<and>
       63839703600000000 \<le> we"
    by (intro exI[of _ ws] exI[of _ we] exI[of _ c] exI[of _ d] exI[of _ m]) simp
  with h show ?thesis by (rule conjI)
qed

section \<open>Claims about the detectors\<close>

lemma py_lt_num: "num_of a = Some x \<Longrightarrow> num_of b = Some y \<Longrightarrow> py_lt a b = Inr (x < y)"
  by (cases a; cases b) simp_all

lemma truthy_zero: "num_of v = Some 0 \<Longrightarrow> \<not> truthy v"
  by (cases v) simp_all

lemma metric_fields_need_views:
  "\<not> truthy (dict_get article ''views'') \<Longrightarrow> \<not> metric_check_article_fields article"
  by (simp add: metric_check_article_fields_def metric_must_have_fields_def)

lemma repost_run_cases:
  assumes "map_of article ''country'' = Some country" and "truthy country"
    and "map_of article ''forward_from_chat_id'' = Some chat" and "truthy chat"
  shows "repost_run hget article anomalies =
           Inr (if \<not> py_in country none_country
                   \<and> \<not> py_in (hget ''tg_countries'' chat) none_country
                   \<and> py_eq country (hget ''tg_countries'' chat)
                then anomalies @
                     [\<lparr>metric_name = ''forward'', metric_value = PInt 1,
                       expected_value = PInt 0, score = 1, weight = 100\<rparr>]
                else anomalies)"
  using assms
  by (simp add: repost_run_def repost_check_article_fields_def repost_must_have_fields_def
        dict_get_def check_original_chat_country_def dict_item_def Let_def)

lemma repost_run_unknown_country:
  assumes "map_of article ''country'' = Some (PStr ''xx'')"
  shows "repost_run hget article anomalies = Inr anomalies"
proof (cases "map_of article ''forward_from_chat_id''")
  case None
  then have "\<not> repost_check_article_fields article"
    by (simp add: repost_check_article_fields_def repost_must_have_fields_def dict_get_def)
  then show ?thesis by (simp add: repost_run_def)
next
  case (Some chat)
  with assms have "check_original_chat_country hget article = Inr False"
    by (simp add: check_original_chat_country_def dict_item_def Let_def py_in_def
          none_country_def py_eq_def)
  then show ?thesis by (simp add: repost_run_def)
qed

text \<open>
  C1. The code at the claim's own example: for an article of country \<open>US\<close> whose forward
  source has country \<open>FR\<close>, whether the store replies with text or with bytes,
  \<open>TelegramRepostAnomalyDetector.run\<close> appends nothing; it appends the anomaly of score
  \<open>1.0\<close> when the two countries are equal. \<open>_check_original_chat_country\<close> returns
  \<open>not (original_country != forward_country)\<close>, where its docstring says
  "True if countries are different".
\<close>

theorem repost_run_differing_countries:
  "repost_run (\<lambda>name field. PStr ''FR'') (example_repost_article ''US'') [] = Inr [] \<and>
   repost_run (\<lambda>name field. PBytes ''FR'') (example_repost_article ''US'') [] = Inr [] \<and>
   repost_run (\<lambda>name field. PStr ''US'') (example_repost_article ''US'') []
     = Inr [\<lparr>metric_name = ''forward'', metric_value = PInt 1, expected_value = PInt 0,
             score = 1, weight = 100\<rparr>]"
  by (simp add: repost_run_def repost_check_article_fields_def repost_must_have_fields_def
        example_repost_article_def dict_get_def check_original_chat_country_def dict_item_def
        py_in_def none_country_def py_eq_def)

text \<open>
  C3, as the code has it. An article whose \<open>views\<close> is zero is falsy at the required-field
  check of \<open>run\<close>, which returns at once: the list of anomalies and the cache are as they
  were, no coefficient is looked up, no division is reached and nothing is raised. The
  static-ratio check has no guard of its own: called on such an article, with coefficients
  for its source and a number of forwards, it raises ZeroDivisionError.
\<close>

theorem metric_run_zero_views_skipped:
  assumes "num_of (dict_get article ''views'') = Some 0"
  shows "metric_run strptime db now article anomalies s = Inr (anomalies, s) \<and>
         (\<forall>chat_id coeffs s' forwards f.
            map_of article ''chat_id'' = Some chat_id \<and>
            get_coefficients s db now chat_id = Inr (Some coeffs, s') \<and>
            map_of article ''forwards'' = Some forwards \<and> num_of forwards = Some f
            \<longrightarrow> check_static_metrics s db now article anomalies = Inl ZeroDivisionError)"
proof (intro conjI allI impI)
  from assms have "\<not> truthy (dict_get article ''views'')" by (rule truthy_zero)
  then have "\<not> metric_check_article_fields article" by (rule metric_fields_need_views)
  then show "metric_run strptime db now article anomalies s = Inr (anomalies, s)"
    by (simp add: metric_run_def)
next
  fix chat_id coeffs s' forwards f
  assume a: "map_of article ''chat_id'' = Some chat_id \<and>
            get_coefficients s db now chat_id = Inr (Some coeffs, s') \<and>
            map_of article ''forwards'' = Some forwards \<and> num_of forwards = Some f"
  from assms obtain views where v: "map_of article ''views'' = Some views" "num_of views = Some 0"
    by (cases "map_of article ''views''") (simp_all add: dict_get_def)
  with a show "check_static_metrics s db now article anomalies = Inl ZeroDivisionError"
    by (simp add: check_static_metrics_def dict_item_def py_truediv_def)
qed

theorem metric_run_zero_views_skipped_witness:
  "num_of (dict_get (example_article 0 5 5) ''views'') = Some 0 \<and>
   metric_run example_strptime example_db 0 (example_article 0 5 5) [] example_cache_ready
     = Inr ([], example_cache_ready) \<and>
   check_static_metrics example_cache_ready example_db 0 (example_article 0 5 5) []
     = Inl ZeroDivisionError"
proof -
  have h: "num_of (dict_get (example_article 0 5 5) ''views'') = Some 0"
    by (simp add: example_article_def dict_get_def)
  have pre: "map_of (example_article 0 5 5) ''chat_id'' = Some (PInt 7) \<and>
      get_coefficients example_cache_ready example_db 0 (PInt 7)
        = Inr (Some [(''forwards_by_views'', PFloat 0.1),
                     (''reaction_count_by_views'', PFloat 0.5),
                     (''minimal_views_threshold'', PInt 100)], example_cache_ready) \<and>
      map_of (example_article 0 5 5) ''forwards'' = Some (PInt 5) \<and> num_of (PInt 5) = Some 5"
    by (simp add: example_article_def get_coefficients_def example_cache_ready_def
          example_cache_warm_def example_cache_def ttl_get_def)
  note inst = metric_run_zero_views_skipped[OF h, of example_strptime example_db 0 "[]"
      example_cache_ready]
  from inst have r: "metric_run example_strptime example_db 0 (example_article 0 5 5) []
      example_cache_ready = Inr ([], example_cache_ready)"
    by (rule conjunct1)
  from inst[THEN conjunct2, rule_format, OF pre]
  have z: "check_static_metrics example_cache_ready example_db 0 (example_article 0 5 5) []
      = Inl ZeroDivisionError" .
  from h r z show ?thesis by (intro conjI)
qed

text \<open>
  C3, as the spec states it, fails: on an article with zero views, every other required
  field truthy and coefficients for its source in the cache, \<open>run\<close> does not raise the
  division's error; it returns, having skipped the article.
\<close>

theorem metric_run_zero_views_counterexample:
  "metric_run example_strptime example_db 0 (example_article 0 5 5) [] example_cache_ready
     \<noteq> Inl ZeroDivisionError \<and>
   metric_run example_strptime example_db 0 (example_article 0 5 5) [] example_cache_ready
     = Inr ([], example_cache_ready)"
  by (simp add: metric_run_def metric_check_article_fields_def metric_must_have_fields_def
        example_article_def dict_get_def)

lemma score_static_metrics_num:
  assumes "num_of expected = Some c" and "c \<noteq> 0"
  shows "score_static_metrics (PFloat x) expected = Inr (1 / (1 + exp ((c - x / c) * 10)))"
proof -
  have "- (x / c) + c = c - x / c" by simp
  with assms show ?thesis
    by (simp add: score_static_metrics_def py_truediv_def)
qed

lemma static_anomaly_num:
  assumes "map_of coeffs name = Some expected" and "num_of expected = Some c"
    and "c < x \<longrightarrow> c \<noteq> 0"
  shows "static_anomaly name (PFloat x) coeffs anomalies =
           Inr (anomalies @
                (if c < x
                 then [\<lparr>metric_name = name, metric_value = PFloat x, expected_value = expected,
                        score = 1 / (1 + exp ((c - x / c) * 10)), weight = 100\<rparr>]
                 else []))"
proof (cases "c < x")
  case True
  with assms(3) have "c \<noteq> 0" by simp
  from score_static_metrics_num[OF assms(2) this, of x] True assms(1,2) show ?thesis
    by (simp add: static_anomaly_def dict_item_def py_gt_def py_lt_num)
next
  case False
  with assms(1,2) show ?thesis
    by (simp add: static_anomaly_def dict_item_def py_gt_def py_lt_num)
qed

text \<open>
  C5, as the code has it. For an article with numbers for forwards, reaction count and
  nonzero views, and coefficients found for its source with numbers for the two expected
  ratios, the static-ratio check appends, for each observed ratio that exceeds its
  expected coefficient (which then is not zero), one anomaly whose score is
  \<open>1 / (1 + exp ((expected - deviation) * 10))\<close> with \<open>deviation\<close> the observed ratio
  divided by the expected coefficient, and appends nothing for a ratio that does not
  exceed its coefficient.
\<close>

theorem check_static_metrics_scores:
  assumes "map_of article ''chat_id'' = Some chat_id"
    and "get_coefficients s db now chat_id = Inr (Some coeffs, s')"
    and "map_of article ''forwards'' = Some forwards" and "num_of forwards = Some f"
    and "map_of article ''views'' = Some views" and "num_of views = Some v" and "v \<noteq> 0"
    and "map_of article ''reaction_count'' = Some reaction_count"
    and "num_of reaction_count = Some r"
    and "map_of coeffs ''forwards_by_views'' = Some expected_f"
    and "num_of expected_f = Some cf"
    and "map_of coeffs ''reaction_count_by_views'' = Some expected_r"
    and "num_of expected_r = Some cr"
    and "cf < f / v \<longrightarrow> cf \<noteq> 0" and "cr < r / v \<longrightarrow> cr \<noteq> 0"
  shows "check_static_metrics s db now article anomalies =
           Inr (anomalies
                @ (if cf < f / v
                   then [\<lparr>metric_name = ''forwards_by_views'', metric_value = PFloat (f / v),
                          expected_value = expected_f,
                          score = 1 / (1 + exp ((cf - (f / v) / cf) * 10)), weight = 100\<rparr>]
                   else [])
                @ (if cr < r / v
                   then [\<lparr>metric_name = ''reaction_count_by_views'',
                          metric_value = PFloat (r / v), expected_value = expected_r,
                          score = 1 / (1 + exp ((cr - (r / v) / cr) * 10)), weight = 100\<rparr>]
                   else []),
                s')"
proof -
  have fv: "py_truediv forwards views = Inr (PFloat (f / v))"
    using assms(4,6,7) by (simp add: py_truediv_def)
  have rv: "py_truediv reaction_count views = Inr (PFloat (r / v))"
    using assms(9,6,7) by (simp add: py_truediv_def)
  note a1 = static_anomaly_num[OF assms(10) assms(11) assms(14), of anomalies]
  note a2 = static_anomaly_num[OF assms(12) assms(13) assms(15)]
  show ?thesis
    unfolding check_static_metrics_def
    by (simp add: dict_item_def assms(1,2,3,5,8) fv rv a1 a2)
qed

lemma example_coefficients_hit:
  "get_coefficients example_cache_ready example_db 0 (PInt 7)
     = Inr (Some [(''forwards_by_views'', PFloat 0.1),
                  (''reaction_count_by_views'', PFloat 0.5),
                  (''minimal_views_threshold'', PInt 100)], example_cache_ready)"
  by (simp add: get_coefficients_def example_cache_ready_def example_cache_warm_def
        example_cache_def ttl_get_def)

theorem check_static_metrics_scores_witness:
  "check_static_metrics example_cache_ready example_db 0 (example_article 1000 200 100) []
     = Inr ([\<lparr>metric_name = ''forwards_by_views'', metric_value = PFloat (200 / 1000),
              expected_value = PFloat 0.1,
              score = 1 / (1 + exp ((0.1 - (200 / 1000) / 0.1) * 10)), weight = 100\<rparr>],
            example_cache_ready) \<and>
   check_static_metrics example_cache_ready example_db 0 (example_article 1000 50 100) []
     = Inr ([], example_cache_ready)"
proof -
  have one: "check_static_metrics example_cache_ready example_db 0
      (example_article 1000 200 100) []
     = Inr ([] @ (if (0.1::real) < 200 / 1000
                   then [\<lparr>metric_name = ''forwards_by_views'', metric_value = PFloat (200 / 1000),
                          expected_value = PFloat 0.1,
                          score = 1 / (1 + exp ((0.1 - (200 / 1000) / 0.1) * 10)), weight = 100\<rparr>]
                   else [])
                @ (if (0.5::real) < 100 / 1000
                   then [\<lparr>metric_name = ''reaction_count_by_views'',
                          metric_value = PFloat (100 / 1000), expected_value = PFloat 0.5,
                          score = 1 / (1 + exp ((0.5 - (100 / 1000) / 0.5) * 10)), weight = 100\<rparr>]
                   else []),
            example_cache_ready)"
    by (rule check_static_metrics_scores[where chat_id = "PInt 7" and forwards = "PInt 200"
          and views = "PInt 1000" and reaction_count = "PInt 100",
          OF _ example_coefficients_hit])
       (simp_all add: example_article_def)
  have two: "check_static_metrics example_cache_ready example_db 0
      (example_article 1000 50 100) []
     = Inr ([] @ (if (0.1::real) < 50 / 1000
                   then [\<lparr>metric_name = ''forwards_by_views'', metric_value = PFloat (50 / 1000),
                          expected_value = PFloat 0.1,
                          score = 1 / (1 + exp ((0.1 - (50 / 1000) / 0.1) * 10)), weight = 100\<rparr>]
                   else [])
                @ (if (0.5::real) < 100 / 1000
                   then [\<lparr>metric_name = ''reaction_count_by_views'',
                          metric_value = PFloat (100 / 1000), expected_value = PFloat 0.5,
                          score = 1 / (1 + exp ((0.5 - (100 / 1000) / 0.5) * 10)), weight = 100\<rparr>]
                   else []),
            example_cache_ready)"
    by (rule check_static_metrics_scores[where chat_id = "PInt 7" and forwards = "PInt 50"
          and views = "PInt 1000" and reaction_count = "PInt 100",
          OF _ example_coefficients_hit])
       (simp_all add: example_article_def)
  from one two show ?thesis by simp
qed

text \<open>
  C5, as the spec states it, fails: with the expected coefficient 0.1 and the observed
  ratio 0.2 the anomaly's score is \<open>1 / (1 + exp (- 19))\<close>, from the deviation
  \<open>0.2 / 0.1\<close>, and not \<open>1 / (1 + exp ((0.1 - 0.2) * 10))\<close>, which the observed ratio
  itself as deviation would give.
\<close>

theorem check_static_metrics_counterexample:
  "check_static_metrics example_cache_ready example_db 0 (example_article 1000 200 100) []
     = Inr ([\<lparr>metric_name = ''forwards_by_views'', metric_value = PFloat (1 / 5),
              expected_value = PFloat (1 / 10), score = 1 / (1 + exp (- 19)), weight = 100\<rparr>],
            example_cache_ready) \<and>
   (1::real) / (1 + exp (- 19)) \<noteq> 1 / (1 + exp ((0.1 - 0.2) * 10))"
  by (simp add: check_static_metrics_def example_article_def dict_item_def get_coefficients_def
        example_cache_ready_def example_cache_warm_def example_cache_def ttl_get_def
        py_truediv_def static_anomaly_def py_gt_def score_static_metrics_def)

text \<open>
  C6. When the views of an article are a number strictly below the minimal-views
  threshold of the coefficients found for its source (0 when the coefficients have no
  such entry), \<open>run\<close> returns the list of anomalies as it was: the static-ratio and the
  predicted-views checks are not reached. (The cache is as the coefficient lookup left
  it, or untouched when a required field is missing or falsy.)
\<close>

theorem metric_run_below_minimal_threshold:
  assumes "map_of article ''chat_id'' = Some chat_id"
    and "get_coefficients s db now chat_id = Inr (Some coeffs, s')"
    and "map_of article ''views'' = Some views" and "num_of views = Some v"
    and "num_of (dict_get_default coeffs ''minimal_views_threshold'' (PInt 0)) = Some t"
    and "v < t"
  shows "metric_run strptime db now article anomalies s =
           Inr (anomalies, if metric_check_article_fields article then s' else s)"
proof -
  have "py_lt views (dict_get_default coeffs ''minimal_views_threshold'' (PInt 0)) = Inr True"
    using py_lt_num[OF assms(4) assms(5)] assms(6) by simp
  then have "check_article_minimal_threshold s db now article = Inr (False, s')"
    using assms(1,2,3) by (simp add: check_article_minimal_threshold_def dict_item_def)
  then show ?thesis by (simp add: metric_run_def)
qed

theorem metric_run_below_minimal_threshold_witness:
  "check_static_metrics example_cache_ready example_db 0 (example_article 50 40 1) []
     = Inr ([\<lparr>metric_name = ''forwards_by_views'', metric_value = PFloat (4 / 5),
              expected_value = PFloat (1 / 10), score = 1 / (1 + exp (- 79)), weight = 100\<rparr>],
            example_cache_ready) \<and>
   metric_run example_strptime example_db 0 (example_article 50 40 1) [] example_cache_ready
     = Inr ([], example_cache_ready)"
proof -
  have would: "check_static_metrics example_cache_ready example_db 0 (example_article 50 40 1) []
     = Inr ([\<lparr>metric_name = ''forwards_by_views'', metric_value = PFloat (4 / 5),
              expected_value = PFloat (1 / 10), score = 1 / (1 + exp (- 79)), weight = 100\<rparr>],
            example_cache_ready)"
    by (simp add: check_static_metrics_def example_article_def dict_item_def
          example_coefficients_hit py_truediv_def static_anomaly_def py_gt_def
          score_static_metrics_def)
  have "metric_run example_strptime example_db 0 (example_article 50 40 1) []
          example_cache_ready
        = Inr ([], if metric_check_article_fields (example_article 50 40 1)
                   then example_cache_ready else example_cache_ready)"
    by (rule metric_run_below_minimal_threshold[where chat_id = "PInt 7" and views = "PInt 50"
          and v = 50 and t = 100, OF _ example_coefficients_hit])
       (simp_all add: example_article_def dict_get_default_def)
  then have "metric_run example_strptime example_db 0 (example_article 50 40 1) []
          example_cache_ready = Inr ([], example_cache_ready)"
    by simp
  with would show ?thesis by (rule conjI)
qed

section \<open>Claims about the aggregator\<close>

lemma sorted_reverse_mset: "mset (sorted_reverse key xs) = mset xs"
  by (simp add: sorted_reverse_def)

lemma sorted_reverse_descending:
  "sorted_wrt (\<lambda>a b. key a \<ge> key b) (sorted_reverse key xs)"
proof -
  have "sorted (map key (sort_key key (rev xs)))" by (rule sorted_sort_key)
  then have "sorted_wrt (\<lambda>a b. key a \<le> key b) (sort_key key (rev xs))"
    by (simp add: sorted_map)
  then show ?thesis
    by (simp add: sorted_reverse_def sorted_wrt_rev)
qed

lemma sorted_reverse_stable:
  "filter (\<lambda>a. key a = k) (sorted_reverse key xs) = filter (\<lambda>a. key a = k) xs"
proof -
  have "filter (\<lambda>a. key a = k) (sorted_reverse key xs)
          = rev (filter (\<lambda>a. key a = k) (sort_key key (rev xs)))"
    by (simp add: sorted_reverse_def rev_filter)
  also have "\<dots> = rev (filter (\<lambda>a. key a = k) (rev xs))"
    by (simp only: sort_key_stable)
  also have "\<dots> = filter (\<lambda>a. key a = k) xs"
    by (simp add: rev_filter)
  finally show ?thesis .
qed

lemma total_score_of_sorted:
  "calculate_total_anomaly_score (sorted_reverse score xs) = sum_list (map score xs)"
proof -
  have "sum_list (map score (sorted_reverse score xs))
          = sum_mset (image_mset score (mset (sorted_reverse score xs)))"
    by (metis mset_map sum_mset_sum_list)
  also have "\<dots> = sum_mset (image_mset score (mset xs))"
    by (simp only: sorted_reverse_mset)
  also have "\<dots> = sum_list (map score xs)"
    by (metis mset_map sum_mset_sum_list)
  finally show ?thesis by (simp add: calculate_total_anomaly_score_def)
qed

lemma create_alert_fields:
  assumes "create_alert strptime generate uuid repr msg anomalies = Inr alert"
  shows "alert_all_anomalies alert = sorted_reverse score anomalies \<and>
         alert_score alert = calculate_total_anomaly_score (sorted_reverse score anomalies) \<and>
         generate_description repr (sorted_reverse score anomalies) msg
            (calculate_total_anomaly_score (sorted_reverse score anomalies))
           = Inr (alert_description alert)"
proof -
  let ?sorted = "sorted_reverse score anomalies"
  let ?total = "calculate_total_anomaly_score ?sorted"
  from assms obtain source where src: "dict_item (payload msg) ''source'' = Inr source"
    unfolding create_alert_def Let_def
    by (cases "dict_item (payload msg) ''source''") simp_all
  from assms src obtain d0 rest where dest:
    "(case msg_destination msg of DestStr d \<Rightarrow> [d] | DestList ds \<Rightarrow> ds) = d0 # rest"
    unfolding create_alert_def Let_def
    by (cases "case msg_destination msg of DestStr d \<Rightarrow> [d] | DestList ds \<Rightarrow> ds") simp_all
  from assms src dest obtain date where date: "event_date strptime msg = Inr date"
    unfolding create_alert_def Let_def
    by (cases "event_date strptime msg") simp_all
  let ?mapping = "[(''source'', PStr ([CHR 0x22] @ py_str repr source @ [CHR 0x22]))]
               @ (if truthy (dict_get (payload msg) ''delta'')
                  then [(''delta'', dict_get (payload msg) ''delta'')] else [])"
  from assms src dest date obtain urls where urls: "generate d0 ?mapping date = Inr urls"
    unfolding create_alert_def Let_def
    by (cases "generate d0 ?mapping date") simp_all
  from assms src dest date urls obtain description where
    descr: "generate_description repr ?sorted msg ?total = Inr description"
    unfolding create_alert_def Let_def
    by (cases "generate_description repr ?sorted msg ?total") simp_all
  from assms src dest date urls descr obtain first_anomaly others where
    srt: "?sorted = first_anomaly # others"
    unfolding create_alert_def Let_def
    by (cases ?sorted) simp_all
  from assms src dest date urls descr srt
  have "alert = \<lparr>alert_id = uuid,
                 alert_article_id = msg_id msg,
                 alert_date = date,
                 alert_score = ?total,
                 alert_domain = domain_of (msg_method msg),
                 alert_source = source,
                 alert_description = description,
                 alert_url = (if length urls > 0 then Some (hd urls) else None),
                 alert_field_name = metric_name first_anomaly,
                 alert_anomaly_value = metric_value first_anomaly,
                 alert_expected_value = expected_value first_anomaly,
                 alert_all_anomalies = ?sorted\<rparr>"
    unfolding create_alert_def Let_def by simp
  with descr show ?thesis by simp
qed

text \<open>
  C2. In the alert that \<open>_create_alert\<close> builds from the anomalies collected for an
  article, \<open>all_anomalies\<close> is a rearrangement of them in descending order of score in
  which anomalies of equal score keep the order they were collected in, and the total
  score is the sum of all their scores as it is, neither clamped nor normalised.
\<close>

theorem create_alert_sorted_and_summed:
  assumes "create_alert strptime generate uuid repr msg anomalies = Inr alert"
  shows "sorted_wrt (\<lambda>a b. score a \<ge> score b) (alert_all_anomalies alert) \<and>
         mset (alert_all_anomalies alert) = mset anomalies \<and>
         (\<forall>k. filter (\<lambda>a. score a = k) (alert_all_anomalies alert)
                = filter (\<lambda>a. score a = k) anomalies) \<and>
         alert_score alert = sum_list (map score anomalies)"
proof -
  from create_alert_fields[OF assms]
  have all: "alert_all_anomalies alert = sorted_reverse score anomalies"
    and tot: "alert_score alert = calculate_total_anomaly_score (sorted_reverse score anomalies)"
    by simp_all
  show ?thesis
    unfolding all tot
    using sorted_reverse_descending[of score anomalies] sorted_reverse_mset[of score anomalies]
      sorted_reverse_stable[of score _ anomalies] total_score_of_sorted[of anomalies]
    by simp
qed
lemma digits_small: "n < 10 \<Longrightarrow> digits n = [''0123456789'' ! n]"
  by (simp add: digits.simps)

lemma digits_large: "\<not> n < 10 \<Longrightarrow> digits n = digits (n div 10) @ [''0123456789'' ! (n mod 10)]"
  by (subst digits.simps) simp

lemma digit_char: "n < 10 \<Longrightarrow> of_char (''0123456789'' ! n) = (48 + n :: nat)"
proof -
  have "\<forall>k \<in> {..<10}. of_char (''0123456789'' ! k) = (48 + k :: nat)"
    by (simp add: lessThan_nat_numeral lessThan_Suc)
  then show "n < 10 \<Longrightarrow> ?thesis" by simp
qed

lemma is_digit_char: "n < 10 \<Longrightarrow> is_digit (''0123456789'' ! n)"
  by (simp add: is_digit_def digit_char)

lemma digits_all: "c \<in> set (digits k) \<Longrightarrow> is_digit c"
proof (induction k rule: digits.induct)
  case (1 n)
  show ?case
  proof (cases "n < 10")
    case True
    with "1.prems" show ?thesis by (simp add: digits_small is_digit_char)
  next
    case False
    with "1.prems" have "c \<in> set (digits (n div 10)) \<or> c = ''0123456789'' ! (n mod 10)"
      by (auto simp: digits_large)
    then show ?thesis
    proof
      assume "c \<in> set (digits (n div 10))"
      then show ?thesis by (rule "1.IH"[OF False])
    next
      assume "c = ''0123456789'' ! (n mod 10)"
      then show ?thesis by (simp add: is_digit_char)
    qed
  qed
qed

lemma digits_nonempty: "digits k \<noteq> []"
  by (cases "k < 10") (simp_all add: digits_small digits_large)

lemma is_digit_not_point: "is_digit c \<Longrightarrow> c \<noteq> CHR ''.'' \<and> c \<noteq> CHR ''-''"
  by (auto simp: is_digit_def)

lemma read_digits_append:
  "read_digits (xs @ ys) acc =
     (case read_digits xs acc of None \<Rightarrow> None | Some v \<Rightarrow> read_digits ys v)"
  by (induction xs arbitrary: acc) simp_all

lemma read_digit_char: "n < 10 \<Longrightarrow> read_digits [''0123456789'' ! n] acc = Some (acc * 10 + n)"
  by (simp add: is_digit_char digit_char)

lemma read_digits_digits: "read_digits (digits k) acc = Some (acc * 10 ^ length (digits k) + k)"
proof (induction k arbitrary: acc rule: digits.induct)
  case (1 n)
  show ?case
  proof (cases "n < 10")
    case True
    then show ?thesis by (simp add: digits_small is_digit_char digit_char)
  next
    case False
    have "read_digits (digits n) acc
            = read_digits [''0123456789'' ! (n mod 10)]
                (acc * 10 ^ length (digits (n div 10)) + n div 10)"
      using False by (simp add: digits_large read_digits_append "1.IH")
    also have "\<dots> = Some ((acc * 10 ^ length (digits (n div 10)) + n div 10) * 10 + n mod 10)"
      by (rule read_digit_char) simp
    also have "(acc * 10 ^ length (digits (n div 10)) + n div 10) * 10 + n mod 10
                = acc * 10 ^ length (digits n) + n"
      using False by (simp add: digits_large algebra_simps)
    finally show ?thesis .
  qed
qed

lemma read_digits_zeros: "read_digits (replicate z (CHR ''0'')) acc = Some (acc * 10 ^ z)"
  by (induction z arbitrary: acc) (simp_all add: is_digit_def)

lemma length_digits: "k < 10 ^ n \<Longrightarrow> 0 < n \<Longrightarrow> length (digits k) \<le> n"
proof (induction k arbitrary: n rule: digits.induct)
  case (1 k)
  show ?case
  proof (cases "k < 10")
    case True
    with "1.prems" show ?thesis by (simp add: digits_small)
  next
    case False
    obtain n' where n: "n = Suc n'" using "1.prems"(2) by (cases n) simp_all
    have "n' \<noteq> 0" using False "1.prems"(1) n by (cases n') simp_all
    moreover have "k div 10 < 10 ^ n'"
      using "1.prems"(1) n by (simp add: less_mult_imp_div_less mult.commute)
    ultimately have "length (digits (k div 10)) \<le> n'"
      using "1.IH"[OF False, of n'] by simp
    then show ?thesis using False n by (simp add: digits_large)
  qed
qed

lemma hd_digits: "0 < k \<Longrightarrow> hd (digits k) \<noteq> CHR ''0''"
proof (induction k rule: digits.induct)
  case (1 k)
  show ?case
  proof (cases "k < 10")
    case True
    have e: "(of_char (''0123456789'' ! k) :: nat) = 48 + k"
      using True by (rule digit_char)
    have "''0123456789'' ! k \<noteq> CHR ''0''"
    proof
      assume a: "''0123456789'' ! k = CHR ''0''"
      have "(of_char (''0123456789'' ! k) :: nat) = 48" unfolding a by simp
      with e "1.prems" show False by simp
    qed
    then show ?thesis unfolding digits_small[OF True] by simp
  next
    case False
    then have "0 < k div 10" by simp
    from "1.IH"[OF False this] show ?thesis
      using False by (simp add: digits_large digits_nonempty)
  qed
qed

lemma long_digits: "length (digits k) > 1 \<Longrightarrow> 0 < k"
  by (cases "k < 10") (simp_all add: digits_small)

lemma takeWhile_stop:
  "\<forall>c \<in> set xs. P c \<Longrightarrow> \<not> P y \<Longrightarrow> takeWhile P (xs @ y # ys) = xs"
  by (induction xs) simp_all

lemma dropWhile_stop:
  "\<forall>c \<in> set xs. P c \<Longrightarrow> \<not> P y \<Longrightarrow> dropWhile P (xs @ y # ys) = y # ys"
  by (induction xs) simp_all

lemma read_digits_padded:
  assumes "length (digits f) \<le> n"
  shows "read_digits (replicate (n - length (digits f)) (CHR ''0'') @ digits f) w
           = Some (w * 10 ^ n + f)"
proof -
  have "10 ^ (n - length (digits f)) * 10 ^ length (digits f) = (10 ^ n :: nat)"
    using assms by (simp add: power_add[symmetric])
  then have "w * 10 ^ (n - length (digits f)) * 10 ^ length (digits f) = w * 10 ^ n"
    by (simp add: mult.assoc)
  then show ?thesis
    by (simp add: read_digits_append read_digits_zeros read_digits_digits)
qed

lemma reads_fixed_format:
  assumes "0 < n"
  shows "reads_fixed n (format_fixed n negative x)
           = Some (negative, nat (round_half_even (x * 10 ^ n)))"
proof -
  define scaled where "scaled = nat (round_half_even (x * 10 ^ n))"
  define whole where "whole = digits (scaled div 10 ^ n)"
  define frac where "frac = digits (scaled mod 10 ^ n)"
  define pad where "pad = replicate (n - length frac) (CHR ''0'')"
  define body where "body = whole @ CHR ''.'' # pad @ frac"
  have t: "format_fixed n negative x = (if negative then ''-'' else []) @ body"
    using assms
    by (simp add: format_fixed_def Let_def scaled_def whole_def frac_def pad_def body_def)
  have wd: "\<forall>c \<in> set whole. c \<noteq> CHR ''.''"
    using digits_all is_digit_not_point by (auto simp: whole_def)
  have wne: "whole \<noteq> []" by (simp add: whole_def digits_nonempty)
  then have "hd whole \<in> set whole" by simp
  then have hdw: "hd whole \<noteq> CHR ''-''"
    using digits_all is_digit_not_point by (auto simp: whole_def)
  have neg: "(format_fixed n negative x \<noteq> [] \<and> hd (format_fixed n negative x) = CHR ''-'')
               = negative"
    using wne hdw by (simp add: t body_def hd_append)
  have bd: "(if negative then tl (format_fixed n negative x) else format_fixed n negative x)
              = body"
    unfolding t by (cases negative) simp_all
  have tw: "takeWhile (\<lambda>c. c \<noteq> CHR ''.'') body = whole"
    unfolding body_def using wd by (intro takeWhile_stop) simp_all
  have dw: "dropWhile (\<lambda>c. c \<noteq> CHR ''.'') body = CHR ''.'' # pad @ frac"
    unfolding body_def using wd by (intro dropWhile_stop) simp_all
  have lf: "length frac \<le> n"
    unfolding frac_def using assms by (intro length_digits) simp_all
  have len: "length (pad @ frac) = n" using lf by (simp add: pad_def)
  have lead: "\<not> (length whole > 1 \<and> hd whole = CHR ''0'')"
    using long_digits hd_digits unfolding whole_def by blast
  have "read_digits (pad @ frac) (scaled div 10 ^ n)
          = Some (scaled div 10 ^ n * 10 ^ n + scaled mod 10 ^ n)"
    unfolding pad_def frac_def using lf[unfolded frac_def] by (rule read_digits_padded)
  moreover have "read_digits whole 0 = Some (scaled div 10 ^ n)"
    by (simp add: whole_def read_digits_digits)
  moreover have "read_digits (whole @ pad @ frac) 0
                   = (case read_digits whole 0 of None \<Rightarrow> None
                      | Some v \<Rightarrow> read_digits (pad @ frac) v)"
    by (rule read_digits_append)
  moreover have "scaled div 10 ^ n * 10 ^ n + scaled mod 10 ^ n = scaled"
    by (rule div_mult_mod_eq)
  ultimately have rd: "read_digits (whole @ pad @ frac) 0 = Some scaled"
    by (simp only: option.case)
  show ?thesis
    unfolding reads_fixed_def Let_def neg bd tw dw
    using wne lead len rd by (simp add: scaled_def)
qed

lemma round_half_even_nonneg: "0 \<le> x \<Longrightarrow> 0 \<le> round_half_even x"
  by (simp add: round_half_even_def Let_def)

lemma nearest_even_round:
  assumes "0 \<le> y"
  shows "nearest_even y (nat (round_half_even y))"
proof -
  have f: "0 \<le> \<lfloor>y\<rfloor>" using assms by simp
  have k: "real (nat (round_half_even y)) = real_of_int (round_half_even y)"
    using round_half_even_nonneg[OF assms] by simp
  have ev: "even (nat (round_half_even y)) = even (round_half_even y)"
    using round_half_even_nonneg[OF assms] by (simp add: even_nat_iff)
  have d: "0 \<le> y - of_int \<lfloor>y\<rfloor>" "y - of_int \<lfloor>y\<rfloor> < 1" by linarith+
  show ?thesis
    unfolding nearest_even_def k ev
    using d by (auto simp: round_half_even_def Let_def)
qed

lemma pow2_powr: "pow2 e = 2 powr (real_of_int e)"
  by (simp add: pow2_def powr_int)

lemma pow2_pos: "0 < pow2 e"
  by (simp add: pow2_powr)

lemma pow2_less: "pow2 a < pow2 b \<longleftrightarrow> a < b"
  by (simp add: pow2_powr)

lemma float_exponent_eq:
  assumes "pow2 (52 + e) \<le> x" and "x < pow2 (53 + e)" and "- 1073 \<le> e"
    and "e \<le> int n - 1074"
  shows "float_exponent x n = e"
  using assms
proof (induction n)
  case 0
  then show ?case by simp
next
  case (Suc n)
  show ?case
  proof (cases "pow2 (int n - 1021) \<le> x")
    case True
    then have "pow2 (int n - 1021) < pow2 (53 + e)" using Suc.prems(2) by simp
    then have "int n - 1021 < 53 + e" by (simp only: pow2_less)
    with Suc.prems(4) have "e = int n - 1073" by simp
    with True show ?thesis by simp
  next
    case False
    then have "pow2 (52 + e) < pow2 (int n - 1021)" using Suc.prems(1) by simp
    then have "52 + e < int n - 1021" by (simp only: pow2_less)
    then have "e \<le> int n - 1074" by simp
    from Suc.IH[OF Suc.prems(1,2,3) this] False show ?thesis by simp
  qed
qed

lemma float_exponent_nonpos: "x \<le> 0 \<Longrightarrow> float_exponent x n = - 1074"
proof (induction n)
  case 0
  then show ?case by simp
next
  case (Suc n)
  have "0 < pow2 (int n - 1021)" by (rule pow2_pos)
  with Suc show ?case by simp
qed

lemma float_round_zero: "float_round 0 = Some 0"
  using pow2_pos[of 1024]
  by (simp add: float_round_def float_exponent_nonpos round_half_even_def)

lemma float_round_eval:
  assumes "pow2 (52 + e) \<le> x" and "x < pow2 (53 + e)" and "- 1073 \<le> e" and "e \<le> 971"
  shows "float_round x =
           (if real_of_int (round_half_even (x / pow2 e)) * pow2 e < pow2 1024
            then Some (real_of_int (round_half_even (x / pow2 e)) * pow2 e) else None)"
proof -
  have "float_exponent x 2045 = e"
    using assms by (intro float_exponent_eq) simp_all
  then show ?thesis by (simp add: float_round_def Let_def)
qed

lemma float_round_nonneg:
  assumes "float_round x = Some m" and "0 \<le> x"
  shows "0 \<le> m"
proof -
  let ?e = "float_exponent x 2045"
  have "0 \<le> x / pow2 ?e" using assms(2) pow2_pos[of ?e] by simp
  then have "0 \<le> real_of_int (round_half_even (x / pow2 ?e)) * pow2 ?e"
    using round_half_even_nonneg pow2_pos[of ?e] by simp
  with assms(1) show ?thesis
    by (auto simp: float_round_def Let_def split: if_splits)
qed

lemma float_operand_nonneg:
  assumes "float_operand v = Inr (Finite negative x)"
  shows "0 \<le> x"
proof (cases v)
  case (PInt i)
  with assms have "float_round \<bar>real_of_int i\<bar> = Some x"
    by (auto simp: float_operand_def split: option.splits)
  with float_round_nonneg[of "\<bar>real_of_int i\<bar>" x] show ?thesis by simp
next
  case (PFloat r)
  with assms have "float_round \<bar>r\<bar> = Some x"
    by (auto simp: float_operand_def float_of_real_def split: option.splits)
  with float_round_nonneg[of "\<bar>r\<bar>" x] show ?thesis by simp
qed (use assms in \<open>simp_all add: float_operand_def\<close>)

lemma float_div_nonneg:
  assumes "float_div p q = Inr (Finite negative x)"
    and "\<And>s m. p = Finite s m \<Longrightarrow> 0 \<le> m" and "\<And>s m. q = Finite s m \<Longrightarrow> 0 \<le> m"
  shows "0 \<le> x"
proof (cases q)
  case q: (Finite yneg d)
  show ?thesis
  proof (cases p)
    case (Finite xneg n)
    with q assms(1) have r: "float_round (n / d) = Some x"
      by (auto simp: float_div_def split: if_splits option.splits)
    from assms(2)[OF Finite] assms(3)[OF q] have "0 \<le> n / d" by simp
    with float_round_nonneg[OF r] show ?thesis .
  qed (use q assms(1) in \<open>auto simp: float_div_def split: if_splits\<close>)
next
  case (Infinite yneg)
  with assms(1) show ?thesis by (cases p) (auto simp: float_div_def)
next
  case NaN
  with assms(1) show ?thesis by (simp add: float_div_def)
qed

lemma float_truediv_mixed:
  assumes "\<not> (\<exists>i j. a = PInt i \<and> b = PInt j)"
  shows "float_truediv a b =
           (case num_of a of
              None \<Rightarrow> Inl TypeError
            | Some a' \<Rightarrow>
                (case num_of b of
                   None \<Rightarrow> Inl TypeError
                 | Some b' \<Rightarrow>
                     (case float_operand a of
                        Inl e \<Rightarrow> Inl e
                      | Inr x \<Rightarrow>
                          (case float_operand b of
                             Inl e \<Rightarrow> Inl e
                           | Inr y \<Rightarrow> float_div x y))))"
  using assms by (cases a; cases b; hypsubst) simp_all

lemma float_truediv_nonneg:
  assumes "float_truediv a b = Inr (Finite negative x)"
  shows "0 \<le> x"
proof (cases "\<exists>i j. a = PInt i \<and> b = PInt j")
  case True
  then obtain i j where "a = PInt i" and "b = PInt j" by blast
  with assms have "float_round \<bar>real_of_int i / real_of_int j\<bar> = Some x"
    by (auto split: if_splits option.splits)
  with float_round_nonneg[of "\<bar>real_of_int i / real_of_int j\<bar>" x] show ?thesis by simp
next
  case False
  from assms[unfolded float_truediv_mixed[OF False]] obtain p q where
    a: "float_operand a = Inr p" and b: "float_operand b = Inr q"
    and d: "float_div p q = Inr (Finite negative x)"
    by (auto split: option.splits sum.splits)
  show ?thesis
    using d float_operand_nonneg[of a] float_operand_nonneg[of b]
    unfolding a b by (rule float_div_nonneg) simp_all
qed

lemma equals_zero_num: "num_of v = Some 0 \<Longrightarrow> equals_zero v"
  by (cases v) (simp_all add: equals_zero_def float_round_zero)

lemma numeric_point_zero:
  assumes "num_of (expected_value a) = Some 0"
  shows "numeric_point a = Inr [metric_name a @ '' (0.00x expected)'']"
proof -
  have z: "equals_zero (expected_value a)" using assms by (rule equals_zero_num)
  have op: "float_operand (expected_value a) = Inr (Finite False 0)"
    using assms
    by (cases "expected_value a")
       (simp_all add: float_operand_def float_of_real_def float_round_zero)
  have f: "format_fixed 2 False 0 = ''0.00''"
    by (simp add: format_fixed_def round_half_even_def Let_def digits_small)
  show ?thesis by (simp add: numeric_point_def z op format_float_def f)
qed

lemma numeric_point_quotient:
  assumes "\<not> equals_zero (expected_value a)"
    and "float_truediv (metric_value a) (expected_value a) = Inr (Finite negative x)"
  shows "numeric_point a
           = Inr [metric_name a @ '' ('' @ format_fixed 1 negative x @ ''x higher)'']"
  using assms by (simp add: numeric_point_def format_float_def)

lemma spec_item_quotient:
  assumes "num_of (expected_value a) \<noteq> Some 0"
    and "float_truediv (metric_value a) (expected_value a) = Inr (Finite negative x)"
    and "\<forall>str. metric_value a \<noteq> PStr str"
  shows "spec_item a (metric_name a @ '' ('' @ format_fixed 1 negative x @ ''x higher)'')"
proof -
  let ?number = "format_fixed 1 negative x"
  let ?item = "metric_name a @ '' ('' @ ?number @ ''x higher)''"
  have n: "take (length ?item - length (metric_name a) - length '' ('' - length ''x higher)'')
             (drop (length (metric_name a) + length '' ('') ?item) = ?number"
    by simp
  have r: "reads_fixed 1 ?number = Some (negative, nat (round_half_even (x * 10 ^ 1)))"
    by (rule reads_fixed_format) simp
  have "0 \<le> x * 10" using float_truediv_nonneg[OF assms(2)] by simp
  then have e: "nearest_even (x * 10) (nat (round_half_even (x * 10)))"
    by (rule nearest_even_round)
  have body: "(let number = take (length ?item - length (metric_name a) - length '' (''
                              - length ''x higher)'')
                           (drop (length (metric_name a) + length '' ('') ?item)
               in ?item = metric_name a @ '' ('' @ number @ ''x higher)'' \<and>
                  (case reads_fixed 1 number of
                     None \<Rightarrow> False
                   | Some (signed, k) \<Rightarrow> signed = negative \<and> nearest_even (x * 10) k))"
    unfolding Let_def n r using e by simp
  show ?thesis
  proof (cases "metric_value a")
    case (PStr str)
    with assms(3) show ?thesis by simp
  qed (use assms(1,2) body in \<open>simp_all add: spec_item_def del: One_nat_def\<close>)
qed

lemma description_point_item:
  assumes "renderable a"
  shows "description_point a = Inr [item_text a] \<and> spec_item a (item_text a)"
proof -
  have numeric: ?thesis
    if v: "description_point a = numeric_point a" "\<forall>str. metric_value a \<noteq> PStr str"
      and q: "finite_quotient a"
  proof (cases "num_of (expected_value a) = Some 0")
    case True
    have p: "description_point a = Inr [metric_name a @ '' (0.00x expected)'']"
      using numeric_point_zero[OF True] v(1) by simp
    have "spec_item a (metric_name a @ '' (0.00x expected)'')"
      using True v(2) by (cases "metric_value a") (simp_all add: spec_item_def)
    with p show ?thesis by (simp add: item_text_def)
  next
    case False
    with q obtain negative x where
      z: "\<not> equals_zero (expected_value a)"
      and d: "float_truediv (metric_value a) (expected_value a) = Inr (Finite negative x)"
      by (auto simp: finite_quotient_def split: sum.splits pyfloat.splits)
    have p: "description_point a
               = Inr [metric_name a @ '' ('' @ format_fixed 1 negative x @ ''x higher)'']"
      using numeric_point_quotient[OF z d] v(1) by simp
    from spec_item_quotient[OF False d v(2)] p show ?thesis by (simp add: item_text_def)
  qed
  show ?thesis
  proof (cases "metric_value a")
    case (PStr str)
    then show ?thesis by (simp add: description_point_def item_text_def spec_item_def)
  next
    case (PInt i)
    with assms show ?thesis by (intro numeric) (simp_all add: description_point_def renderable_def)
  next
    case (PFloat r)
    with assms show ?thesis by (intro numeric) (simp_all add: description_point_def renderable_def)
  next
    case PNone
    with assms show ?thesis by (simp add: renderable_def)
  next
    case (PBytes b)
    with assms show ?thesis by (simp add: renderable_def)
  qed
qed

lemma description_points_items:
  "\<forall>a \<in> set anomalies. renderable a \<Longrightarrow>
     description_points anomalies points = Inr (points @ map item_text anomalies)"
proof (induction anomalies arbitrary: points)
  case Nil
  then show ?case by simp
next
  case (Cons a anomalies)
  then have "renderable a" and rest: "\<forall>a \<in> set anomalies. renderable a" by simp_all
  from description_point_item[OF this(1)] Cons.IH[OF rest] show ?case by simp
qed

lemma spec_items:
  "\<forall>a \<in> set anomalies. renderable a \<Longrightarrow> list_all2 spec_item anomalies (map item_text anomalies)"
  by (induction anomalies) (simp_all add: description_point_item)

lemma char_of_digit:
  assumes "is_digit c"
  shows "''0123456789'' ! (of_char c - 48) = c"
proof -
  let ?n = "(of_char c :: nat) - 48"
  have n: "?n < 10" and c: "(of_char c :: nat) = 48 + ?n"
    using assms by (auto simp: is_digit_def)
  have "(of_char (''0123456789'' ! ?n) :: nat) = of_char c"
    using digit_char[OF n] c by simp
  then show ?thesis by (simp only: of_char_eq_iff)
qed

lemma read_digits_snoc:
  assumes "read_digits (ws @ [c]) acc = Some v"
  shows "\<exists>w. read_digits ws acc = Some w \<and> is_digit c \<and> v = w * 10 + (of_char c - 48)"
  using assms by (auto simp: read_digits_append split: option.splits if_splits)

lemma digits_zero: "digits 0 = ''0''"
  by (simp add: digits_small)

lemma read_digits_canonical:
  "ws \<noteq> [] \<Longrightarrow> (length ws > 1 \<longrightarrow> hd ws \<noteq> CHR ''0'') \<Longrightarrow> read_digits ws 0 = Some v
     \<Longrightarrow> ws = digits v"
proof (induction ws arbitrary: v rule: rev_induct)
  case Nil
  then show ?case by simp
next
  case (snoc c ws)
  from read_digits_snoc[OF snoc.prems(3)] obtain w where
    w: "read_digits ws 0 = Some w" and c: "is_digit c" and v: "v = w * 10 + (of_char c - 48)"
    by blast
  have d: "(of_char c :: nat) - 48 < 10" using c by (auto simp: is_digit_def)
  show ?case
  proof (cases "ws = []")
    case True
    with w have "w = 0" by simp
    with v d have "digits v = [''0123456789'' ! (of_char c - 48)]" by (simp add: digits_small)
    with True show ?thesis by (simp add: char_of_digit[OF c])
  next
    case False
    then have lead: "hd ws \<noteq> CHR ''0''" using snoc.prems(2) by (cases ws) simp_all
    then have "ws = digits w" using snoc.IH[OF False _ w] by simp
    have "w \<noteq> 0"
    proof
      assume "w = 0"
      with \<open>ws = digits w\<close> have "ws = ''0''" by (simp add: digits_zero)
      with lead show False by simp
    qed
    then have "\<not> v < 10" and "v div 10 = w" and "v mod 10 = of_char c - 48"
      using v d by simp_all
    then have "digits v = digits w @ [''0123456789'' ! (of_char c - 48)]"
      by (simp add: digits_large)
    with \<open>ws = digits w\<close> show ?thesis by (simp add: char_of_digit[OF c])
  qed
qed

lemma reads_fixed_one:
  assumes "reads_fixed 1 t = Some (negative, k)"
  shows "t = (if negative then ''-'' else []) @ digits (k div 10) @ ''.'' @ digits (k mod 10)"
proof -
  define body where "body = (if t \<noteq> [] \<and> hd t = CHR ''-'' then tl t else t)"
  define whole where "whole = takeWhile (\<lambda>c. c \<noteq> CHR ''.'') body"
  define rest where "rest = dropWhile (\<lambda>c. c \<noteq> CHR ''.'') body"
  have r: "reads_fixed 1 t =
             (if whole = [] \<or> (length whole > 1 \<and> hd whole = CHR ''0'') \<or> rest = []
                 \<or> length (tl rest) \<noteq> 1
              then None
              else map_option (Pair (t \<noteq> [] \<and> hd t = CHR ''-''))
                     (read_digits (whole @ tl rest) 0))"
    unfolding reads_fixed_def Let_def body_def whole_def rest_def by (rule refl)
  from assms[unfolded r] have
    wne: "whole \<noteq> []" and lead: "length whole > 1 \<longrightarrow> hd whole \<noteq> CHR ''0''"
    and rne: "rest \<noteq> []" and len: "length (tl rest) = 1"
    and neg: "negative = (t \<noteq> [] \<and> hd t = CHR ''-'')"
    and rd: "read_digits (whole @ tl rest) 0 = Some k"
    by (auto split: if_splits)
  from len obtain c where c: "tl rest = [c]" by (cases "tl rest") simp_all
  have "\<not> (hd rest \<noteq> CHR ''.'')" using rne unfolding rest_def by (rule hd_dropWhile)
  with rne c have rest: "rest = [CHR ''.'', c]" by (cases rest) simp_all
  from read_digits_snoc[OF rd[unfolded c]] obtain w where
    w: "read_digits whole 0 = Some w" and dc: "is_digit c" and k: "k = w * 10 + (of_char c - 48)"
    by blast
  have d: "(of_char c :: nat) - 48 < 10" using dc by (auto simp: is_digit_def)
  have whole: "whole = digits w" using wne lead w by (rule read_digits_canonical)
  have "k div 10 = w" and "k mod 10 = of_char c - 48" using k d by simp_all
  moreover have "digits (of_char c - 48) = [c]"
    using d by (simp add: digits_small char_of_digit[OF dc])
  moreover have "body = whole @ rest"
    by (simp add: whole_def rest_def)
  ultimately have body: "body = digits (k div 10) @ ''.'' @ digits (k mod 10)"
    using whole rest by simp
  show ?thesis
  proof (cases negative)
    case True
    with neg have "t = CHR ''-'' # tl t" by (cases t) simp_all
    moreover from True neg have "body = tl t" by (simp add: body_def)
    ultimately show ?thesis using True body by simp
  next
    case False
    with neg have "body = t" by (auto simp: body_def)
    with False body show ?thesis by simp
  qed
qed

lemma nearest_even_unique:
  assumes "nearest_even y k" and "nearest_even y k'"
  shows "k = k'"
proof -
  define d where "d = int k - int k'"
  have r: "real_of_int d = (real k - y) - (real k' - y)" by (simp add: d_def)
  have "d = 0"
  proof (cases "\<bar>real k - y\<bar> < 1 / 2 \<or> \<bar>real k' - y\<bar> < 1 / 2")
    case True
    with assms have "\<bar>real_of_int d\<bar> < 1" unfolding r nearest_even_def by linarith
    then show ?thesis by linarith
  next
    case False
    with assms have h: "\<bar>real k - y\<bar> = 1 / 2" "\<bar>real k' - y\<bar> = 1 / 2" "even k" "even k'"
      by (auto simp: nearest_even_def)
    then have "\<bar>real_of_int d\<bar> \<le> 1" unfolding r by linarith
    then have "\<bar>d\<bar> \<le> 1" by linarith
    moreover have "even d" using h(3,4) by (simp add: d_def)
    ultimately show ?thesis by presburger
  qed
  then show ?thesis by (simp add: d_def)
qed

lemma format_fixed_one:
  "format_fixed 1 negative x =
     (if negative then ''-'' else []) @ digits (nat (round_half_even (x * 10)) div 10) @ ''.''
       @ digits (nat (round_half_even (x * 10)) mod 10)"
proof -
  have "length (digits (nat (round_half_even (x * 10)) mod 10)) = 1"
    by (simp add: digits_small)
  then show ?thesis by (simp add: format_fixed_def Let_def)
qed

lemma spec_item_quotient_unique:
  assumes "num_of (expected_value a) \<noteq> Some 0"
    and "float_truediv (metric_value a) (expected_value a) = Inr (Finite negative x)"
    and "\<forall>str. metric_value a \<noteq> PStr str"
    and "spec_item a item"
  shows "item = metric_name a @ '' ('' @ format_fixed 1 negative x @ ''x higher)''"
proof -
  define number where
    "number = take (length item - length (metric_name a) - length '' ('' - length ''x higher)'')
                (drop (length (metric_name a) + length '' ('') item)"
  have "item = metric_name a @ '' ('' @ number @ ''x higher)'' \<and>
        (case reads_fixed 1 number of
           None \<Rightarrow> False
         | Some (signed, k) \<Rightarrow> signed = negative \<and> nearest_even (x * 10) k)"
    using assms unfolding number_def
    by (cases "metric_value a") (simp_all add: spec_item_def Let_def del: One_nat_def)
  then obtain k where item: "item = metric_name a @ '' ('' @ number @ ''x higher)''"
    and r: "reads_fixed 1 number = Some (negative, k)" and n: "nearest_even (x * 10) k"
    by (auto split: option.splits)
  have "0 \<le> x * 10" using float_truediv_nonneg[OF assms(2)] by simp
  then have "nearest_even (x * 10) (nat (round_half_even (x * 10)))" by (rule nearest_even_round)
  with n have "k = nat (round_half_even (x * 10))" by (rule nearest_even_unique)
  with reads_fixed_one[OF r] have "number = format_fixed 1 negative x"
    by (simp only: format_fixed_one)
  with item show ?thesis by simp
qed

lemma spec_item_unique:
  assumes "renderable a" and "spec_item a item"
  shows "item = item_text a"
proof -
  note point = description_point_item[OF assms(1), THEN conjunct1]
  have numeric: ?thesis
    if v: "description_point a = numeric_point a" "\<forall>str. metric_value a \<noteq> PStr str"
      and q: "finite_quotient a"
  proof (cases "num_of (expected_value a) = Some 0")
    case True
    have "item = metric_name a @ '' (0.00x expected)''"
      using True v(2) assms(2) by (cases "metric_value a") (simp_all add: spec_item_def)
    moreover have "description_point a = Inr [metric_name a @ '' (0.00x expected)'']"
      using numeric_point_zero[OF True] v(1) by simp
    ultimately show ?thesis by (simp add: item_text_def)
  next
    case False
    with q obtain negative x where
      z: "\<not> equals_zero (expected_value a)"
      and d: "float_truediv (metric_value a) (expected_value a) = Inr (Finite negative x)"
      by (auto simp: finite_quotient_def split: sum.splits pyfloat.splits)
    have "description_point a
            = Inr [metric_name a @ '' ('' @ format_fixed 1 negative x @ ''x higher)'']"
      using numeric_point_quotient[OF z d] v(1) by simp
    with spec_item_quotient_unique[OF False d v(2) assms(2)] show ?thesis
      by (simp add: item_text_def)
  qed
  show ?thesis
  proof (cases "metric_value a")
    case (PStr str)
    with assms(2) show ?thesis by (simp add: description_point_def item_text_def spec_item_def)
  next
    case (PInt i)
    with assms(1) show ?thesis
      by (intro numeric) (simp_all add: description_point_def renderable_def)
  next
    case (PFloat r)
    with assms(1) show ?thesis
      by (intro numeric) (simp_all add: description_point_def renderable_def)
  next
    case PNone
    with assms(1) show ?thesis by (simp add: renderable_def)
  next
    case (PBytes b)
    with assms(1) show ?thesis by (simp add: renderable_def)
  qed
qed

lemma spec_items_unique:
  "\<forall>a \<in> set anomalies. renderable a \<Longrightarrow> list_all2 spec_item anomalies items
     \<Longrightarrow> items = map item_text anomalies"
proof (induction anomalies arbitrary: items)
  case Nil
  then show ?case by simp
next
  case (Cons a anomalies)
  from Cons.prems(2) obtain item others where
    items: "items = item # others" and i: "spec_item a item"
    and o: "list_all2 spec_item anomalies others"
    by (cases items) simp_all
  from Cons.prems(1) have "renderable a" and rest: "\<forall>a \<in> set anomalies. renderable a"
    by simp_all
  from spec_item_unique[OF this(1) i] Cons.IH[OF rest o] items show ?case by simp
qed

lemma listing_spec:
  "points \<noteq> [] \<Longrightarrow>
     (if length points = 1 then hd points
      else join '', '' (butlast points) @ '' and '' @ last points) = spec_listing points"
proof (induction points rule: spec_listing.induct)
  case 1
  then show ?case by simp
next
  case (2 x)
  then show ?case by simp
next
  case (3 x y)
  then show ?case by simp
next
  case (4 x y z zs)
  then have "join '', '' (butlast (y # z # zs)) @ '' and '' @ last (y # z # zs)
               = spec_listing (y # z # zs)"
    by simp
  moreover have "join '', '' (butlast (x # y # z # zs))
                   = x @ '', '' @ join '', '' (butlast (y # z # zs))"
    by simp
  ultimately show ?case by simp
qed

lemma severity_spec:
  "(if total_score > color_red then ''Critical anomaly''
    else if total_score > color_yellow then ''Major anomaly''
    else if total_score > color_green then ''Minor anomaly''
    else ''Warning anomaly'') = spec_severity total_score"
  by (simp add: spec_severity_def color_red_def color_yellow_def color_green_def)

lemma float_round_five: "float_round 5 = Some 5"
  by (subst float_round_eval[where e = "- 50"])
     (simp_all add: pow2_def round_half_even_def Let_def)

lemma float_round_two: "float_round 2 = Some 2"
  by (subst float_round_eval[where e = "- 51"])
     (simp_all add: pow2_def round_half_even_def Let_def)

lemma float_round_half: "float_round (1 / 2) = Some (1 / 2)"
  by (subst float_round_eval[where e = "- 53"])
     (simp_all add: pow2_def round_half_even_def Let_def)

lemma float_round_fifth: "float_round (1 / 5) = Some (3602879701896397 / 18014398509481984)"
  by (subst float_round_eval[where e = "- 55"])
     (simp_all add: pow2_def round_half_even_def Let_def)

lemma float_round_tenth: "float_round (1 / 10) = Some (3602879701896397 / 36028797018963968)"
  by (subst float_round_eval[where e = "- 56"])
     (simp_all add: pow2_def round_half_even_def Let_def)

lemma float_round_five_less:
  "float_round (18014398509481984 / 3602879701896397) = Some 5"
  by (subst float_round_eval[where e = "- 50"])
     (simp_all add: pow2_def round_half_even_def Let_def)

lemma float_round_23_20: "float_round (23 / 20) = Some (2589569785738035 / 2251799813685248)"
  by (subst float_round_eval[where e = "- 52"])
     (simp_all add: pow2_def round_half_even_def Let_def)

lemma float_round_21_20: "float_round (21 / 20) = Some (4728779608739021 / 4503599627370496)"
  by (subst float_round_eval[where e = "- 52"])
     (simp_all add: pow2_def round_half_even_def Let_def)

lemma float_round_7_20: "float_round (7 / 20) = Some (3152519739159347 / 9007199254740992)"
  by (subst float_round_eval[where e = "- 54"])
     (simp_all add: pow2_def round_half_even_def Let_def)

lemma float_truediv_500_100: "float_truediv (PInt 500) (PInt 100) = Inr (Finite False 5)"
  by (simp add: float_round_five)

lemma float_truediv_fifth_tenth:
  "float_truediv (PFloat (1 / 5)) (PFloat (1 / 10)) = Inr (Finite False 2)"
  by (simp add: float_operand_def float_of_real_def float_div_def float_round_fifth
        float_round_tenth float_round_two)

lemma float_truediv_half_tenth:
  "float_truediv (PFloat (1 / 2)) (PFloat (1 / 10)) = Inr (Finite False 5)"
  by (simp add: float_operand_def float_of_real_def float_div_def float_round_half
        float_round_tenth float_round_five_less)

lemma format_fixed_five: "format_fixed 1 False 5 = ''5.0''"
  by (subst format_fixed_one) (simp add: round_half_even_def Let_def digits_small digits_large)

lemma format_fixed_two: "format_fixed 1 False 2 = ''2.0''"
  by (subst format_fixed_one) (simp add: round_half_even_def Let_def digits_small digits_large)

lemma generate_description_returns:
  assumes "anomalies \<noteq> []" and "\<forall>a \<in> set anomalies. renderable a"
    and "map_of (payload msg) ''source'' = Some source"
  shows "\<exists>description. generate_description repr anomalies msg total_score = Inr description"
proof -
  let ?points = "map item_text anomalies"
  have pts: "description_points anomalies [] = Inr ?points"
    using description_points_items[OF assms(2), of "[]"] by simp
  have "?points \<noteq> []" using assms(1) by simp
  then obtain p ps where "?points = p # ps" by (cases ?points) simp_all
  then show ?thesis
    unfolding generate_description_def Let_def pts
    by (simp add: dict_item_def assms(3))
qed

lemma example_binary_quotients:
  "generate_description (\<lambda>v. ''?'')
       [\<lparr>metric_name = ''views'', metric_value = PInt 23, expected_value = PInt 20,
         score = 1 / 2, weight = 200\<rparr>,
        \<lparr>metric_name = ''forwards'', metric_value = PInt 21, expected_value = PInt 20,
         score = 3 / 10, weight = 100\<rparr>,
        \<lparr>metric_name = ''reaction_count'', metric_value = PInt 7, expected_value = PInt 20,
         score = 1 / 10, weight = 100\<rparr>]
       (example_message (DestStr ''tg'') (example_repost_article ''US'')) 0.9
     = Inr ''Critical anomaly in views (1.1x higher), forwards (1.1x higher) and reaction_count (0.3x higher) found for channel''"
proof -
  have f1: "format_fixed 1 False (2589569785738035 / 2251799813685248) = ''1.1''"
    by (subst format_fixed_one)
       (simp add: round_half_even_def Let_def digits_small digits_large)
  have f2: "format_fixed 1 False (4728779608739021 / 4503599627370496) = ''1.1''"
    by (subst format_fixed_one)
       (simp add: round_half_even_def Let_def digits_small digits_large)
  have f3: "format_fixed 1 False (3152519739159347 / 9007199254740992) = ''0.3''"
    by (subst format_fixed_one)
       (simp add: round_half_even_def Let_def digits_small digits_large)
  have p: "description_point \<lparr>metric_name = ''views'', metric_value = PInt 23,
             expected_value = PInt 20, score = 1 / 2, weight = 200\<rparr>
           = Inr [''views (1.1x higher)'']"
    "description_point \<lparr>metric_name = ''forwards'', metric_value = PInt 21,
             expected_value = PInt 20, score = 3 / 10, weight = 100\<rparr>
           = Inr [''forwards (1.1x higher)'']"
    "description_point \<lparr>metric_name = ''reaction_count'', metric_value = PInt 7,
             expected_value = PInt 20, score = 1 / 10, weight = 100\<rparr>
           = Inr [''reaction_count (0.3x higher)'']"
    unfolding description_point_def numeric_point_def
    by (simp_all add: equals_zero_def float_round_23_20 float_round_21_20 float_round_7_20
          format_float_def f1 f2 f3 del: One_nat_def)
  show ?thesis
    unfolding generate_description_def Let_def
    by (simp add: p example_message_def example_repost_article_def dict_get_def dict_item_def
          color_red_def)
qed

text \<open>
  C8. For a non-empty list of anomalies, each string-valued or numeric with an expected
  value that is zero or gives a finite float \<open>metric_value / expected_value\<close>, and an event
  that names its source, the anomalies have items as the spec words them:
  \<open><metric> is <value>\<close> for a string, the \<open>x expected\<close> form for an expected value of
  zero, and otherwise \<open><metric> (<N.N>x higher)\<close> where \<open>N.N\<close> is the numeral with one
  decimal that is nearest to the float \<open>metric_value / expected_value\<close>. With any such
  items the description is the text of the spec's template: the severity prefix by the
  thresholds 0.75, 0.25 and 0 (each strict), \<open>in\<close>, the items joined with commas and an
  \<open>and\<close> before the last one, \<open>found for\<close> and the source, and the seconds after
  publication when the event carries a delta.
\<close>

theorem generate_description_template:
  assumes "anomalies \<noteq> []" and "\<forall>a \<in> set anomalies. renderable a"
    and "map_of (payload msg) ''source'' = Some source"
  shows "(\<exists>items. list_all2 spec_item anomalies items) \<and>
         (\<forall>items. list_all2 spec_item anomalies items \<longrightarrow>
            generate_description repr anomalies msg total_score =
              Inr (spec_severity total_score @ '' in '' @ spec_listing items
                   @ '' found for '' @ py_str repr source @ spec_suffix repr msg))"
proof (intro conjI allI impI)
  show "\<exists>items. list_all2 spec_item anomalies items"
    using spec_items[OF assms(2)] by (rule exI)
next
  fix items
  assume "list_all2 spec_item anomalies items"
  then have items: "items = map item_text anomalies"
    using assms(2) by (intro spec_items_unique)
  have pts: "description_points anomalies [] = Inr items"
    using description_points_items[OF assms(2), of "[]"] by (simp add: items)
  have ne: "items \<noteq> []" using assms(1) by (simp add: items)
  have listing: "(if length items = 1 then Inr (hd items)
                  else if items = [] then Inl IndexError
                  else Inr (join '', '' (butlast items) @ '' and '' @ last items))
                 = (Inr (spec_listing items) :: error + string)"
    using listing_spec[OF ne] ne by (simp split: if_splits)
  show "generate_description repr anomalies msg total_score =
          Inr (spec_severity total_score @ '' in '' @ spec_listing items
               @ '' found for '' @ py_str repr source @ spec_suffix repr msg)"
    unfolding generate_description_def Let_def pts severity_spec
    by (simp only: sum.case listing)
       (simp add: dict_item_def assms(3) spec_suffix_def)
qed

theorem generate_description_template_witness:
  "renderable \<lparr>metric_name = ''views'', metric_value = PInt 500, expected_value = PInt 100,
               score = 0.9, weight = 200\<rparr> \<and>
   spec_item \<lparr>metric_name = ''views'', metric_value = PInt 500, expected_value = PInt 100,
               score = 0.9, weight = 200\<rparr> ''views (5.0x higher)'' \<and>
   generate_description (\<lambda>v. ''?'')
       [\<lparr>metric_name = ''views'', metric_value = PInt 500, expected_value = PInt 100,
         score = 0.9, weight = 200\<rparr>]
       (example_message (DestStr ''tg'') (example_repost_article ''US'')) 0.9
     = Inr ''Critical anomaly in views (5.0x higher) found for channel'' \<and>
   renderable \<lparr>metric_name = ''views'', metric_value = PInt 23, expected_value = PInt 20,
               score = 0.2, weight = 200\<rparr> \<and>
   spec_item \<lparr>metric_name = ''views'', metric_value = PInt 23, expected_value = PInt 20,
               score = 0.2, weight = 200\<rparr> ''views (1.1x higher)'' \<and>
   generate_description (\<lambda>v. ''?'')
       [\<lparr>metric_name = ''views'', metric_value = PInt 23, expected_value = PInt 20,
         score = 0.2, weight = 200\<rparr>]
       (example_message (DestStr ''tg'') (example_repost_article ''US'')) 0.2
     = Inr ''Minor anomaly in views (1.1x higher) found for channel''"
proof -
  let ?a = "\<lparr>metric_name = ''views'', metric_value = PInt 500, expected_value = PInt 100,
             score = 0.9, weight = 200\<rparr>"
  let ?b = "\<lparr>metric_name = ''views'', metric_value = PInt 23, expected_value = PInt 20,
             score = 0.2, weight = 200\<rparr>"
  let ?msg = "example_message (DestStr ''tg'') (example_repost_article ''US'')"
  have ra: "renderable ?a"
    by (simp add: renderable_def finite_quotient_def equals_zero_def float_round_five)
  have rb: "renderable ?b"
    by (simp add: renderable_def finite_quotient_def equals_zero_def float_round_23_20)
  have na: "reads_fixed 1 ''5.0'' = Some (False, 50)"
    by (simp add: reads_fixed_def Let_def is_digit_def)
  have nb: "reads_fixed 1 ''1.1'' = Some (False, 11)"
    by (simp add: reads_fixed_def Let_def is_digit_def)
  have ia: "spec_item ?a ''views (5.0x higher)''"
    unfolding spec_item_def
    by (simp add: float_round_five na nearest_even_def del: One_nat_def)
  have ib: "spec_item ?b ''views (1.1x higher)''"
    unfolding spec_item_def
    by (simp add: float_round_23_20 nb nearest_even_def del: One_nat_def)
  have src: "map_of (payload ?msg) ''source'' = Some (PStr ''channel'')"
    by (simp add: example_message_def example_repost_article_def)
  have a1: "[?a] \<noteq> []" and b1: "[?b] \<noteq> []" by simp_all
  have a2: "\<forall>a \<in> set [?a]. renderable a" using ra by simp
  have b2: "\<forall>a \<in> set [?b]. renderable a" using rb by simp
  have la: "list_all2 spec_item [?a] [''views (5.0x higher)'']" using ia by simp
  have lb: "list_all2 spec_item [?b] [''views (1.1x higher)'']" using ib by simp
  from generate_description_template[OF a1 a2 src, THEN conjunct2, rule_format, OF la]
  have "generate_description (\<lambda>v. ''?'') [?a] ?msg 0.9
        = Inr (spec_severity 0.9 @ '' in '' @ spec_listing [''views (5.0x higher)'']
                @ '' found for '' @ py_str (\<lambda>v. ''?'') (PStr ''channel'')
                @ spec_suffix (\<lambda>v. ''?'') ?msg)" .
  also have "\<dots> = Inr ''Critical anomaly in views (5.0x higher) found for channel''"
    by (simp add: spec_severity_def spec_suffix_def example_message_def
          example_repost_article_def dict_get_def)
  finally have da: "generate_description (\<lambda>v. ''?'') [?a] ?msg 0.9
        = Inr ''Critical anomaly in views (5.0x higher) found for channel''" .
  from generate_description_template[OF b1 b2 src, THEN conjunct2, rule_format, OF lb]
  have "generate_description (\<lambda>v. ''?'') [?b] ?msg 0.2
        = Inr (spec_severity 0.2 @ '' in '' @ spec_listing [''views (1.1x higher)'']
                @ '' found for '' @ py_str (\<lambda>v. ''?'') (PStr ''channel'')
                @ spec_suffix (\<lambda>v. ''?'') ?msg)" .
  also have "\<dots> = Inr ''Minor anomaly in views (1.1x higher) found for channel''"
    by (simp add: spec_severity_def spec_suffix_def example_message_def
          example_repost_article_def dict_get_def)
  finally have db: "generate_description (\<lambda>v. ''?'') [?b] ?msg 0.2
        = Inr ''Minor anomaly in views (1.1x higher) found for channel''" .
  from ra ia da rb ib db show ?thesis by (intro conjI)
qed

lemma example_sorted:
  "sorted_reverse score example_anomalies = alert_all_anomalies example_alert"
  by (simp add: sorted_reverse_def example_anomalies_def example_alert_def)

lemma example_description:
  "generate_description (\<lambda>v. ''?'') (alert_all_anomalies example_alert)
     (example_message (DestStr ''tg'') (example_article 1000 200 100)) (5 / 2)
   = Inr (alert_description example_alert)"
proof -
  let ?forward = "\<lparr>metric_name = ''forward'', metric_value = PInt 1,
                   expected_value = PInt 0, score = 1, weight = 100\<rparr>"
  let ?views = "\<lparr>metric_name = ''views'', metric_value = PInt 500,
                 expected_value = PInt 100, score = 1, weight = 200\<rparr>"
  let ?ratio = "\<lparr>metric_name = ''forwards_by_views'', metric_value = PFloat (1 / 5),
                 expected_value = PFloat (1 / 10), score = 1 / 2, weight = 100\<rparr>"
  have p1: "description_point ?forward = Inr [''forward (0.00x expected)'']"
    using numeric_point_zero[of ?forward] by (simp add: description_point_def)
  have "numeric_point ?views
          = Inr [metric_name ?views @ '' ('' @ format_fixed 1 False 5 @ ''x higher)'']"
    by (rule numeric_point_quotient) (simp_all add: equals_zero_def float_round_five)
  then have p2: "description_point ?views = Inr [''views (5.0x higher)'']"
    unfolding format_fixed_five by (simp add: description_point_def)
  have "float_truediv (metric_value ?ratio) (expected_value ?ratio) = Inr (Finite False 2)"
    by (simp add: float_truediv_fifth_tenth del: float_truediv.simps)
  then have "numeric_point ?ratio
          = Inr [metric_name ?ratio @ '' ('' @ format_fixed 1 False 2 @ ''x higher)'']"
    by (intro numeric_point_quotient) (simp_all add: equals_zero_def float_round_tenth)
  then have p3: "description_point ?ratio = Inr [''forwards_by_views (2.0x higher)'']"
    unfolding format_fixed_two by (simp add: description_point_def)
  have pts: "description_points (alert_all_anomalies example_alert) []
               = Inr [''forward (0.00x expected)'', ''views (5.0x higher)'',
                      ''forwards_by_views (2.0x higher)'']"
    by (simp add: example_alert_def p1 p2 p3)
  show ?thesis
    unfolding generate_description_def Let_def pts
    by (simp add: example_message_def example_article_def dict_get_def dict_item_def
          color_red_def str_of_int_def digits_small digits_large example_alert_def)
qed

lemma example_event_date:
  "event_date example_strptime (example_message dest (example_article v f r))
     = Inr 63839700733000000"
  by (simp add: event_date_def example_message_def example_article_def dict_item_def
        dict_get_default_def py_strptime_def example_strptime_def)

lemma example_generate_tg: "example_generate ''tg'' mapping 63839700733000000 = Inr [''url'']"
  by (simp add: example_generate_def kibana_generate_def dt_add_def dt_max_def time_window_def)

lemma example_create_alert:
  "create_alert example_strptime example_generate ''uuid-1'' (\<lambda>v. ''?'')
     (example_message (DestStr ''tg'') (example_article 1000 200 100)) example_anomalies
   = Inr example_alert"
proof -
  have total: "calculate_total_anomaly_score (alert_all_anomalies example_alert) = 5 / 2"
    by (simp add: calculate_total_anomaly_score_def example_alert_def)
  have src: "dict_item (payload (example_message (DestStr ''tg'') (example_article 1000 200 100)))
               ''source'' = Inr (PStr ''channel'')"
    by (simp add: example_message_def example_article_def dict_item_def)
  have dest: "msg_destination (example_message (DestStr ''tg'') (example_article 1000 200 100))
                = DestStr ''tg''"
    by (simp add: example_message_def)
  have rest: "msg_id (example_message (DestStr ''tg'') (example_article 1000 200 100))
                = PStr ''article-1'' \<and>
              domain_of (msg_method (example_message (DestStr ''tg'')
                                       (example_article 1000 200 100))) = ''Telegram''"
    by (simp add: example_message_def domain_of_def py_eq_def)
  have sorted_eq: "alert_all_anomalies example_alert =
      \<lparr>metric_name = ''forward'', metric_value = PInt 1,
          expected_value = PInt 0, score = 1, weight = 100\<rparr> #
        [\<lparr>metric_name = ''views'', metric_value = PInt 500,
          expected_value = PInt 100, score = 1, weight = 200\<rparr>,
         \<lparr>metric_name = ''forwards_by_views'', metric_value = PFloat 0.2,
          expected_value = PFloat 0.1, score = 0.5, weight = 100\<rparr>]"
    by (simp add: example_alert_def)
  show ?thesis
    unfolding create_alert_def Let_def example_sorted total src dest example_event_date
      example_description
    by (simp add: example_generate_tg)
       (simp add: example_alert_def rest)
qed

theorem create_alert_sorted_and_summed_witness:
  "create_alert example_strptime example_generate ''uuid-1'' (\<lambda>v. ''?'')
     (example_message (DestStr ''tg'') (example_article 1000 200 100)) example_anomalies
     = Inr example_alert \<and>
   sorted_wrt (\<lambda>a b. score a \<ge> score b) (alert_all_anomalies example_alert) \<and>
   mset (alert_all_anomalies example_alert) = mset example_anomalies \<and>
   alert_score example_alert = sum_list (map score example_anomalies) \<and>
   sum_list (map score example_anomalies) = 5 / 2"
proof -
  note h = example_create_alert
  from create_alert_sorted_and_summed[OF h]
  have c: "sorted_wrt (\<lambda>a b. score a \<ge> score b) (alert_all_anomalies example_alert)"
    "mset (alert_all_anomalies example_alert) = mset example_anomalies"
    "alert_score example_alert = sum_list (map score example_anomalies)"
    by simp_all
  have "sum_list (map score example_anomalies) = 5 / 2"
    by (simp add: example_anomalies_def)
  with h c show ?thesis by (intro conjI)
qed

lemma sorted_reverse_set: "set (sorted_reverse key xs) = set xs"
  by (simp add: sorted_reverse_def)

lemma sorted_reverse_Nil: "sorted_reverse key xs = [] \<longleftrightarrow> xs = []"
  by (metis mset_zero_iff sorted_reverse_mset)

lemma create_alert_ok:
  assumes src: "map_of (payload msg) ''source'' = Some source"
    and dest: "(case msg_destination msg of DestStr d \<Rightarrow> [d] | DestList ds \<Rightarrow> ds) = d0 # rest"
    and date: "event_date strptime msg = Inr date"
    and urls: "\<And>mapping. generate d0 mapping date = Inr urls"
    and ne: "anomalies \<noteq> []"
    and rend: "\<forall>a \<in> set anomalies. renderable a"
  shows "\<exists>alert. create_alert strptime generate uuid repr msg anomalies = Inr alert"
proof -
  let ?sorted = "sorted_reverse score anomalies"
  have ne': "?sorted \<noteq> []" using ne by (simp add: sorted_reverse_Nil)
  have rend': "\<forall>a \<in> set ?sorted. renderable a" using rend by (simp add: sorted_reverse_set)
  obtain description where
    descr: "generate_description repr ?sorted msg (calculate_total_anomaly_score ?sorted)
              = Inr description"
    using generate_description_returns[OF ne' rend' src] by blast
  obtain first_anomaly others where srt: "?sorted = first_anomaly # others"
    using ne' by (cases ?sorted) simp_all
  have s: "dict_item (payload msg) ''source'' = Inr source"
    using src by (simp add: dict_item_def)
  have descr': "generate_description repr (first_anomaly # others) msg
                  (calculate_total_anomaly_score (first_anomaly # others)) = Inr description"
    using descr srt by simp
  show ?thesis
    unfolding create_alert_def Let_def s dest date srt
    by (simp add: urls descr')
qed

lemma run_cases:
  assumes "run_detectors detectors msg s = Inr (anomalies, s')"
  shows "run strptime generate uuid repr detectors msg s =
           (if anomalies = [] then Inr (None, s')
            else (case create_alert strptime generate uuid repr msg anomalies of
                    Inl e \<Rightarrow> Inl e
                  | Inr alert \<Rightarrow> Inr (Some alert, s')))"
  using assms by (simp add: run_def)

text \<open>
  C9, as the code has it. When the detectors have run on the event's payload, \<open>run\<close>
  returns absent exactly when the list of anomalies they collected is empty, and that
  is a return, not an error. When at least one anomaly was collected \<open>run\<close> never
  returns absent: it returns the alert that \<open>_create_alert\<close> builds, and where
  \<open>_create_alert\<close> raises, \<open>run\<close> raises the same error.
\<close>

theorem run_absent_iff_no_anomalies:
  assumes "run_detectors detectors msg s = Inr (anomalies, s')"
  shows "(run strptime generate uuid repr detectors msg s = Inr (None, s')
            \<longleftrightarrow> anomalies = []) \<and>
         (\<forall>alert. anomalies \<noteq> [] \<and>
                  create_alert strptime generate uuid repr msg anomalies = Inr alert
            \<longrightarrow> run strptime generate uuid repr detectors msg s = Inr (Some alert, s')) \<and>
         (\<forall>e. anomalies \<noteq> [] \<and>
              create_alert strptime generate uuid repr msg anomalies = Inl e
            \<longrightarrow> run strptime generate uuid repr detectors msg s = Inl e)"
proof (intro conjI allI impI)
  show "(run strptime generate uuid repr detectors msg s = Inr (None, s')) = (anomalies = [])"
    unfolding run_cases[OF assms]
    by (cases "create_alert strptime generate uuid repr msg anomalies") simp_all
next
  fix alert
  assume "anomalies \<noteq> [] \<and>
          create_alert strptime generate uuid repr msg anomalies = Inr alert"
  then show "run strptime generate uuid repr detectors msg s = Inr (Some alert, s')"
    unfolding run_cases[OF assms] by simp
next
  fix e
  assume "anomalies \<noteq> [] \<and> create_alert strptime generate uuid repr msg anomalies = Inl e"
  then show "run strptime generate uuid repr detectors msg s = Inl e"
    unfolding run_cases[OF assms] by simp
qed

lemma example_run_detectors:
  "run_detectors example_detectors (example_message dest (example_article 120 60 1))
       example_cache_ready
     = Inr ([\<lparr>metric_name = ''forwards_by_views'', metric_value = PFloat (1 / 2),
              expected_value = PFloat (1 / 10), score = 1 / (1 + exp (- 49)),
              weight = 100\<rparr>],
            example_cache_ready)"
proof -
  let ?article = "example_article 120 60 1"
  let ?a = "\<lparr>metric_name = ''forwards_by_views'', metric_value = PFloat (1 / 2),
              expected_value = PFloat (1 / 10), score = 1 / (1 + exp (- 49)),
              weight = 100\<rparr>"
  have fields: "metric_check_article_fields ?article"
    by (simp add: metric_check_article_fields_def metric_must_have_fields_def
          example_article_def dict_get_def)
  have thr: "check_article_minimal_threshold example_cache_ready example_db 0 ?article
               = Inr (True, example_cache_ready)"
    by (simp add: check_article_minimal_threshold_def example_article_def dict_item_def
          example_coefficients_hit dict_get_default_def)
  have static: "check_static_metrics example_cache_ready example_db 0 ?article []
                  = Inr ([?a], example_cache_ready)"
    by (simp add: check_static_metrics_def example_article_def dict_item_def
          example_coefficients_hit py_truediv_def static_anomaly_def py_gt_def
          score_static_metrics_def)
  have pred: "get_prediction example_cache_ready example_db 0 63839700733000000
                (PInt 7) (PInt 60)
              = Inr (Some [(''views'', PInt 100), (''views_upper'', PInt 150)],
                     example_cache_ready)"
    by (simp add: get_prediction_def example_cache_ready_def example_cache_warm_def
          example_cache_def get_nearest_date_def dt_minute_def dt_second_def Let_def
          replace_minute_second_def ttl_get_def)
  have stats: "get_statistics example_cache_ready example_db 0 63839700733000000
                (PInt 7) (PInt 60) (PStr ''views'')
              = Inr (Some [(''mean'', PFloat 1), (''std'', PFloat 0.5)], example_cache_ready)"
    by (simp add: get_statistics_def example_cache_ready_def example_cache_warm_def
          example_cache_def get_latest_statistics_def scan_step_def ttl_items_def
          statistic_key_matches_def py_eq_def Let_def)
  have predicted: "check_predicted_metrics example_strptime example_cache_ready example_db 0
                     ?article [?a] = Inr ([?a], example_cache_ready)"
    unfolding check_predicted_metrics_def
    by (simp add: example_article_def dict_item_def py_strptime_def example_strptime_def
          pred stats py_gt_def)
  have metric: "metric_run example_strptime example_db 0 ?article [] example_cache_ready
                  = Inr ([?a], example_cache_ready)"
    by (simp add: metric_run_def fields thr static predicted)
  have repost: "stateless (repost_run (\<lambda>name field. PNone)) ?article [?a] example_cache_ready
                  = Inr ([?a], example_cache_ready)"
    by (simp add: stateless_def repost_run_def repost_check_article_fields_def
          repost_must_have_fields_def example_article_def dict_get_def)
  show ?thesis
    by (simp add: run_detectors_def example_detectors_def example_message_def metric repost)
qed

theorem run_absent_iff_no_anomalies_witness:
  "run_detectors example_detectors
       (example_message (DestStr ''tg'') (example_article 120 60 1)) example_cache_ready
     = Inr ([\<lparr>metric_name = ''forwards_by_views'', metric_value = PFloat (1 / 2),
              expected_value = PFloat (1 / 10), score = 1 / (1 + exp (- 49)),
              weight = 100\<rparr>],
            example_cache_ready) \<and>
   (\<exists>alert. run example_strptime example_generate ''uuid-1'' (\<lambda>v. ''?'') example_detectors
              (example_message (DestStr ''tg'') (example_article 120 60 1)) example_cache_ready
            = Inr (Some alert, example_cache_ready))"
proof -
  let ?msg = "example_message (DestStr ''tg'') (example_article 120 60 1)"
  let ?a = "\<lparr>metric_name = ''forwards_by_views'', metric_value = PFloat (1 / 2),
              expected_value = PFloat (1 / 10), score = 1 / (1 + exp (- 49)),
              weight = 100\<rparr>"
  have h: "run_detectors example_detectors ?msg example_cache_ready
             = Inr ([?a], example_cache_ready)"
    by (rule example_run_detectors)
  have "\<exists>alert. create_alert example_strptime example_generate ''uuid-1'' (\<lambda>v. ''?'') ?msg [?a]
                  = Inr alert"
  proof (rule create_alert_ok)
    show "map_of (payload ?msg) ''source'' = Some (PStr ''channel'')"
      by (simp add: example_message_def example_article_def)
    show "(case msg_destination ?msg of DestStr d \<Rightarrow> [d] | DestList ds \<Rightarrow> ds) = ''tg'' # []"
      by (simp add: example_message_def)
    show "event_date example_strptime ?msg = Inr 63839700733000000"
      by (rule example_event_date)
    show "example_generate ''tg'' mapping 63839700733000000 = Inr [''url'']" for mapping
      by (rule example_generate_tg)
    show "[?a] \<noteq> []" by simp
    show "\<forall>a \<in> set [?a]. renderable a"
      by (simp add: renderable_def finite_quotient_def equals_zero_def float_round_tenth
            float_truediv_half_tenth del: float_truediv.simps)
  qed
  then obtain alert where
    ca: "create_alert example_strptime example_generate ''uuid-1'' (\<lambda>v. ''?'') ?msg [?a]
           = Inr alert"
    by blast
  then have pre: "[?a] \<noteq> [] \<and>
      create_alert example_strptime example_generate ''uuid-1'' (\<lambda>v. ''?'') ?msg [?a]
        = Inr alert"
    by simp
  from run_absent_iff_no_anomalies[OF h, THEN conjunct2, THEN conjunct1, rule_format, OF pre]
  have "run example_strptime example_generate ''uuid-1'' (\<lambda>v. ''?'') example_detectors ?msg
          example_cache_ready = Inr (Some alert, example_cache_ready)" .
  then have "\<exists>alert. run example_strptime example_generate ''uuid-1'' (\<lambda>v. ''?'')
      example_detectors ?msg example_cache_ready = Inr (Some alert, example_cache_ready)"
    by (rule exI)
  with h show ?thesis by (rule conjI)
qed

text \<open>
  C9, as the spec states it, fails in its last part: for an event whose destination is
  an empty list, and for one whose destination index the link generator's object cache
  does not know, the detectors collect an anomaly and \<open>run\<close> returns no alert: it raises
  IndexError at \<open>destination[0]\<close>, and AttributeError at \<open>dataviews.items()\<close>.
\<close>

theorem run_raises_counterexample:
  "run_detectors example_detectors
       (example_message (DestList []) (example_article 120 60 1)) example_cache_ready
     = Inr ([\<lparr>metric_name = ''forwards_by_views'', metric_value = PFloat (1 / 2),
              expected_value = PFloat (1 / 10), score = 1 / (1 + exp (- 49)),
              weight = 100\<rparr>],
            example_cache_ready) \<and>
   run example_strptime example_generate ''uuid-1'' (\<lambda>v. ''?'') example_detectors
       (example_message (DestList []) (example_article 120 60 1)) example_cache_ready
     = Inl IndexError \<and>
   run example_strptime example_generate ''uuid-1'' (\<lambda>v. ''?'') example_detectors
       (example_message (DestStr ''web'') (example_article 120 60 1)) example_cache_ready
     = Inl AttributeError"
proof -
  let ?a = "\<lparr>metric_name = ''forwards_by_views'', metric_value = PFloat (1 / 2),
              expected_value = PFloat (1 / 10), score = 1 / (1 + exp (- 49)),
              weight = 100\<rparr>"
  have src: "dict_item (payload (example_message dest (example_article 120 60 1))) ''source''
               = Inr (PStr ''channel'')" for dest
    by (simp add: example_message_def example_article_def dict_item_def)
  have one: "create_alert example_strptime example_generate ''uuid-1'' (\<lambda>v. ''?'')
               (example_message (DestList []) (example_article 120 60 1)) [?a]
             = Inl IndexError"
    unfolding create_alert_def Let_def src
    by (simp add: example_message_def)
  have web: "example_generate ''web'' mapping date = Inl AttributeError" for mapping date
    by (simp add: example_generate_def kibana_generate_def)
  have two: "create_alert example_strptime example_generate ''uuid-1'' (\<lambda>v. ''?'')
               (example_message (DestStr ''web'') (example_article 120 60 1)) [?a]
             = Inl AttributeError"
    unfolding create_alert_def Let_def src example_event_date
    by (simp add: example_message_def web)
  show ?thesis
    by (simp add: run_def example_run_detectors one two)
qed

end
